theory Spec2Isabelle
  imports Complex_Main "HOL-Library.List_Lexorder" "HOL-Library.Char_ord"
begin

section \<open>Values, columns and tables\<close>

text \<open>
  The repository is written against pandas and numpy.  A numeric cell is a double; the
  model keeps the three non-finite values of a double apart from the finite ones and
  computes on the finite ones in \<^typ>\<open>real\<close>: rounding and the sign of zero are not
  modelled, the special values are, because the code divides by columns that can hold
  zero (\<open>x / 0\<close> is an infinity or NaN in numpy, never an exception).
\<close>

datatype fl = Fin real | PInf | NInf | NaN

fun sg :: "fl \<Rightarrow> real" where
  "sg (Fin a) = sgn a"
| "sg PInf = 1"
| "sg NInf = - 1"
| "sg NaN = 0"

definition inf_of_sign :: "real \<Rightarrow> fl" where
  "inf_of_sign s = (if s > 0 then PInf else if s < 0 then NInf else NaN)"

fun fneg :: "fl \<Rightarrow> fl" where
  "fneg (Fin a) = Fin (- a)"
| "fneg PInf = NInf"
| "fneg NInf = PInf"
| "fneg NaN = NaN"

fun fadd :: "fl \<Rightarrow> fl \<Rightarrow> fl" where
  "fadd NaN _ = NaN"
| "fadd _ NaN = NaN"
| "fadd (Fin a) (Fin b) = Fin (a + b)"
| "fadd (Fin a) y = y"
| "fadd x (Fin b) = x"
| "fadd PInf PInf = PInf"
| "fadd NInf NInf = NInf"
| "fadd PInf NInf = NaN"
| "fadd NInf PInf = NaN"

definition fsub :: "fl \<Rightarrow> fl \<Rightarrow> fl" where
  "fsub x y = fadd x (fneg y)"

fun fmul :: "fl \<Rightarrow> fl \<Rightarrow> fl" where
  "fmul NaN _ = NaN"
| "fmul _ NaN = NaN"
| "fmul (Fin a) (Fin b) = Fin (a * b)"
| "fmul x y = inf_of_sign (sg x * sg y)"

fun fdiv :: "fl \<Rightarrow> fl \<Rightarrow> fl" where
  "fdiv NaN _ = NaN"
| "fdiv _ NaN = NaN"
| "fdiv (Fin a) (Fin b) = (if b = 0 then inf_of_sign (sgn a) else Fin (a / b))"
| "fdiv (Fin a) y = Fin 0"
| "fdiv x (Fin b) = (if b < 0 then fneg x else x)"
| "fdiv x y = NaN"

fun fabs :: "fl \<Rightarrow> fl" where
  "fabs (Fin a) = Fin \<bar>a\<bar>"
| "fabs PInf = PInf"
| "fabs NInf = PInf"
| "fabs NaN = NaN"

text \<open>Comparisons with NaN are false, as in IEEE 754.\<close>

fun flt :: "fl \<Rightarrow> fl \<Rightarrow> bool" where
  "flt NaN _ = False"
| "flt _ NaN = False"
| "flt (Fin a) (Fin b) = (a < b)"
| "flt NInf NInf = False"
| "flt NInf _ = True"
| "flt PInf _ = False"
| "flt (Fin a) PInf = True"
| "flt (Fin a) NInf = False"

definition fgt :: "fl \<Rightarrow> fl \<Rightarrow> bool" where
  "fgt x y = flt y x"

definition fle :: "fl \<Rightarrow> fl \<Rightarrow> bool" where
  "fle x y = (x \<noteq> NaN \<and> y \<noteq> NaN \<and> \<not> flt y x)"

definition fge :: "fl \<Rightarrow> fl \<Rightarrow> bool" where
  "fge x y = fle y x"

fun fsqrt :: "fl \<Rightarrow> fl" where
  "fsqrt (Fin a) = (if a < 0 then NaN else Fin (sqrt a))"
| "fsqrt PInf = PInf"
| "fsqrt NInf = NaN"
| "fsqrt NaN = NaN"

fun flog :: "fl \<Rightarrow> fl" where
  "flog (Fin a) = (if a < 0 then NaN else if a = 0 then NInf else Fin (ln a))"
| "flog PInf = PInf"
| "flog NInf = NaN"
| "flog NaN = NaN"

text \<open>
  A pandas \<open>Timestamp\<close> is kept as the values its accessors return; \<open>epoch\<close> is
  \<open>Timestamp.value\<close>, the nanoseconds since 1970-01-01, and orders two timestamps.
\<close>

record timestamp =
  epoch :: int
  hour :: nat
  dayofweek :: nat
  dayofyear :: nat
  isoweek :: nat
  month :: nat
  quarter :: nat

text \<open>
  A column has a dtype: float64 (\<open>NumCol\<close>, NaN is the missing value), datetime64
  (\<open>TimeCol\<close>, \<open>None\<close> is NaT), object (\<open>ObjCol\<close>) or categorical (\<open>CatCol\<close>, what
  \<open>pd.cut\<close> returns).  Arithmetic and comparison with a number are defined on float
  columns; on the other dtypes pandas raises \<open>TypeError\<close>.
\<close>

datatype pyobj = PStr string | PNum fl | PTime timestamp | PNone

datatype column =
    NumCol "fl list"
  | TimeCol "timestamp option list"
  | ObjCol "pyobj list"
  | CatCol "string option list"

datatype error =
    KeyError string
  | TypeError string
  | AttributeError string
  | ValueError string
  | LibraryError string

definition ebind :: "error + 'a \<Rightarrow> ('a \<Rightarrow> error + 'b) \<Rightarrow> error + 'b" where
  "ebind m f = (case m of Inl e \<Rightarrow> Inl e | Inr x \<Rightarrow> f x)"

text \<open>
  A \<open>DataFrame\<close> is the ordered list of its named columns, a Python \<open>dict\<close> the
  ordered list of its items; \<open>dict_set\<close> is \<open>d[k] = v\<close>: an existing key keeps its
  place, a new one goes to the end.
\<close>

type_synonym 'v dict = "(string \<times> 'v) list"

type_synonym table = "column dict"

fun dict_set :: "'v dict \<Rightarrow> string \<Rightarrow> 'v \<Rightarrow> 'v dict" where
  "dict_set [] k v = [(k, v)]"
| "dict_set ((k', v') # d) k v = (if k' = k then (k, v) # d else (k', v') # dict_set d k v)"

definition dict_get :: "'v dict \<Rightarrow> string \<Rightarrow> 'v option" where
  "dict_get d k = map_of d k"

definition dict_keys :: "'v dict \<Rightarrow> string list" where
  "dict_keys d = map fst d"

definition dict_values :: "'v dict \<Rightarrow> 'v list" where
  "dict_values d = map snd d"

fun col_len :: "column \<Rightarrow> nat" where
  "col_len (NumCol xs) = length xs"
| "col_len (TimeCol xs) = length xs"
| "col_len (ObjCol xs) = length xs"
| "col_len (CatCol xs) = length xs"

definition nrows :: "table \<Rightarrow> nat" where
  "nrows df = (case df of [] \<Rightarrow> 0 | (_, c) # _ \<Rightarrow> col_len c)"

text \<open>\<open>df.empty\<close>: no column or no row.\<close>

definition df_empty :: "table \<Rightarrow> bool" where
  "df_empty df = (df = [] \<or> nrows df = 0)"

text \<open>Every column of a frame has the frame's number of rows, and a name occurs once.\<close>

definition wf_table :: "table \<Rightarrow> bool" where
  "wf_table df = (distinct (dict_keys df) \<and> list_all (\<lambda>(_, c). col_len c = nrows df) df)"

text \<open>\<open>df[name]\<close> raises \<open>KeyError\<close> when the frame has no such column.\<close>

definition getcol :: "table \<Rightarrow> string \<Rightarrow> error + column" where
  "getcol df name = (case dict_get df name of None \<Rightarrow> Inl (KeyError name) | Some c \<Rightarrow> Inr c)"

fun as_num :: "column \<Rightarrow> error + fl list" where
  "as_num (NumCol xs) = Inr xs"
| "as_num _ = Inl (TypeError ''unsupported operand type(s)'')"

definition getnum :: "table \<Rightarrow> string \<Rightarrow> error + fl list" where
  "getnum df name = ebind (getcol df name) as_num"

definition setnum :: "table \<Rightarrow> string \<Rightarrow> fl list \<Rightarrow> table" where
  "setnum df name xs = dict_set df name (NumCol xs)"

subsection \<open>The pandas operations the cleaning rules use\<close>

fun emap :: "('a \<Rightarrow> error + 'b) \<Rightarrow> 'a list \<Rightarrow> error + 'b list" where
  "emap f [] = Inr []"
| "emap f (x # xs) = ebind (f x) (\<lambda>y. ebind (emap f xs) (\<lambda>ys. Inr (y # ys)))"

text \<open>
  \<open>df.fillna(0)\<close>: a missing value becomes 0 in every column.  A datetime column
  that held NaT becomes an object column, and a categorical column with a missing value
  refuses the new category.
\<close>

fun fillna0_col :: "column \<Rightarrow> error + column" where
  "fillna0_col (NumCol xs) = Inr (NumCol (map (\<lambda>x. if x = NaN then Fin 0 else x) xs))"
| "fillna0_col (TimeCol ts) =
     (if None \<in> set ts
      then Inr (ObjCol (map (\<lambda>t. case t of None \<Rightarrow> PNum (Fin 0) | Some u \<Rightarrow> PTime u) ts))
      else Inr (TimeCol ts))"
| "fillna0_col (ObjCol os) =
     Inr (ObjCol (map (\<lambda>x. if x = PNone \<or> x = PNum NaN then PNum (Fin 0) else x) os))"
| "fillna0_col (CatCol cs) =
     (if None \<in> set cs then Inl (TypeError ''Cannot setitem on a Categorical with a new category'')
      else Inr (CatCol cs))"

definition fillna0 :: "table \<Rightarrow> error + table" where
  "fillna0 df = emap (\<lambda>(name, c). ebind (fillna0_col c) (\<lambda>c'. Inr (name, c'))) df"

text \<open>\<open>series.clip(lower=0)\<close>: NaN stays NaN.\<close>

definition clip0 :: "fl \<Rightarrow> fl" where
  "clip0 x = (if flt x (Fin 0) then Fin 0 else x)"

definition clip_lower0 :: "column \<Rightarrow> error + column" where
  "clip_lower0 c = ebind (as_num c) (\<lambda>xs. Inr (NumCol (map clip0 xs)))"

text \<open>\<open>np.where(cond, a, b)\<close> with a scalar \<open>b\<close>.\<close>

definition np_where :: "bool list \<Rightarrow> fl list \<Rightarrow> fl \<Rightarrow> fl list" where
  "np_where cond a b = map2 (\<lambda>c x. if c then x else b) cond a"

definition fsum :: "fl list \<Rightarrow> fl" where
  "fsum xs = foldl fadd (Fin 0) xs"

definition fmean :: "fl list \<Rightarrow> fl" where
  "fmean xs = fdiv (fsum xs) (Fin (real (length xs)))"

text \<open>
  \<open>series.rolling(window=n)\<close>: the window of row \<open>i\<close> is the \<open>n\<close> rows ending at
  \<open>i\<close>; a row with fewer than \<open>n\<close> rows of history, or with a NaN in its window, gets
  NaN.  pandas takes an infinite cell for a missing one before it computes the statistic
  on the window.
\<close>

definition window :: "nat \<Rightarrow> fl list \<Rightarrow> nat \<Rightarrow> fl list" where
  "window n xs i = take n (drop (i + 1 - n) xs)"

definition rolling :: "nat \<Rightarrow> (fl list \<Rightarrow> fl) \<Rightarrow> fl list \<Rightarrow> fl list" where
  "rolling n stat xs =
     (let ys = map (\<lambda>x. if x = PInf \<or> x = NInf then NaN else x) xs
      in map (\<lambda>i. if i + 1 < n then NaN else stat (window n ys i)) [0..<length xs])"

definition rolling_mean :: "nat \<Rightarrow> fl list \<Rightarrow> fl list" where
  "rolling_mean n xs = rolling n fmean xs"

text \<open>\<open>series.shift(k)\<close> for \<open>k > 0\<close>, and \<open>series.shift(-1)\<close>.\<close>

definition shift :: "nat \<Rightarrow> fl list \<Rightarrow> fl list" where
  "shift k xs = take (length xs) (replicate k NaN @ xs)"

definition shift_back1 :: "fl list \<Rightarrow> fl list" where
  "shift_back1 xs = (if xs = [] then [] else tl xs @ [NaN])"

definition diff :: "fl list \<Rightarrow> fl list" where
  "diff xs = map2 fsub xs (shift 1 xs)"

text \<open>
  \<open>series.pct_change()\<close>: missing values are filled forward, then
  \<open>x / x.shift(1) - 1\<close>.
\<close>

fun ffill_from :: "fl \<Rightarrow> fl list \<Rightarrow> fl list" where
  "ffill_from prev [] = []"
| "ffill_from prev (x # xs) = (if x = NaN then prev # ffill_from prev xs else x # ffill_from x xs)"

definition ffill :: "fl list \<Rightarrow> fl list" where
  "ffill xs = ffill_from NaN xs"

definition pct_change :: "fl list \<Rightarrow> fl list" where
  "pct_change xs = (let ys = ffill xs in map2 (\<lambda>x p. fsub (fdiv x p) (Fin 1)) ys (shift 1 ys))"

section \<open>Cleaning: \<open>etl/data_processor.py\<close>\<close>

subsection \<open>\<open>DataProcessor.clean_covid_data\<close>\<close>

definition covid_numeric_cols :: "string list" where
  "covid_numeric_cols =
     [''cases'', ''deaths'', ''recovered'', ''new_cases'', ''new_deaths'', ''new_recovered'']"

text \<open>The loop over \<open>numeric_cols\<close>: a column that is absent is passed over.\<close>

fun clip_cols :: "string list \<Rightarrow> table \<Rightarrow> error + table" where
  "clip_cols [] df = Inr df"
| "clip_cols (c # cs) df =
     (if c \<in> set (dict_keys df)
      then ebind (getcol df c) (\<lambda>col. ebind (clip_lower0 col) (\<lambda>col'.
             clip_cols cs (dict_set df c col')))
      else clip_cols cs df)"

text \<open>\<open>np.where(df[den] > 0, df[num] / df[den] * 100, 0)\<close>.\<close>

definition rate_col :: "table \<Rightarrow> string \<Rightarrow> string \<Rightarrow> error + fl list" where
  "rate_col df num den =
     ebind (getnum df den) (\<lambda>d.
     ebind (getnum df num) (\<lambda>n.
       Inr (np_where (map (\<lambda>x. fgt x (Fin 0)) d)
                     (map (\<lambda>q. fmul q (Fin 100)) (map2 fdiv n d))
                     (Fin 0))))"

definition clean_covid_data :: "table \<Rightarrow> error + table" where
  "clean_covid_data df =
     (if df_empty df then Inr df
      else
        ebind (fillna0 df) (\<lambda>df1.
        ebind (clip_cols covid_numeric_cols df1) (\<lambda>df2.
        ebind (rate_col df2 ''deaths'' ''cases'') (\<lambda>cfr.
        let df3 = setnum df2 ''case_fatality_rate'' cfr in
        ebind (rate_col df3 ''recovered'' ''cases'') (\<lambda>rr.
        let df4 = setnum df3 ''recovery_rate'' rr in
        ebind (getnum df4 ''cases'') (\<lambda>cases.
        let df5 = setnum df4 ''cases_7d_avg'' (rolling_mean 7 cases) in
        ebind (getnum df5 ''deaths'') (\<lambda>deaths.
        let df6 = setnum df5 ''deaths_7d_avg'' (rolling_mean 7 deaths) in
        ebind (getnum df6 ''cases'') (\<lambda>cases'.
        let df7 = setnum df6 ''cases_growth_rate'' (pct_change cases') in
        ebind (getnum df7 ''deaths'') (\<lambda>deaths'.
        Inr (setnum df7 ''deaths_growth_rate'' (pct_change deaths')))))))))))"

text \<open>
  The rate as the specification words it: numerator / denominator * 100 when the
  denominator is positive, else 0.
\<close>

definition spec_rate :: "fl \<Rightarrow> fl \<Rightarrow> fl" where
  "spec_rate n d = (if fgt d (Fin 0) then fmul (fdiv n d) (Fin 100) else Fin 0)"

text \<open>A count that is not negative: a finite value from 0 up, or the positive infinity.\<close>

fun nonneg :: "fl \<Rightarrow> bool" where
  "nonneg (Fin a) = (0 \<le> a)"
| "nonneg PInf = True"
| "nonneg NInf = False"
| "nonneg NaN = False"

text \<open>What \<open>clip(lower=0)\<close> leaves of a column it accepts.\<close>

fun clipc :: "column \<Rightarrow> column" where
  "clipc (NumCol xs) = NumCol (map clip0 xs)"
| "clipc c = c"

subsection \<open>More pandas operations\<close>

text \<open>\<open>isna\<close> per cell; infinities are not missing values.\<close>

fun col_isna :: "column \<Rightarrow> bool list" where
  "col_isna (NumCol xs) = map (\<lambda>x. x = NaN) xs"
| "col_isna (TimeCol ts) = map (\<lambda>t. t = None) ts"
| "col_isna (ObjCol os) = map (\<lambda>x. x = PNone \<or> x = PNum NaN) os"
| "col_isna (CatCol cs) = map (\<lambda>c. c = None) cs"

definition any_na :: "table \<Rightarrow> bool list" where
  "any_na df = map (\<lambda>i. \<exists>c \<in> set (dict_values df). i < col_len c \<and> col_isna c ! i) [0..<nrows df]"

text \<open>Boolean indexing \<open>df[mask]\<close>: the rows whose mask is true, in order.\<close>

definition sel :: "bool list \<Rightarrow> 'a list \<Rightarrow> 'a list" where
  "sel keep xs = map snd (filter fst (zip keep xs))"

fun filter_col :: "bool list \<Rightarrow> column \<Rightarrow> column" where
  "filter_col keep (NumCol xs) = NumCol (sel keep xs)"
| "filter_col keep (TimeCol xs) = TimeCol (sel keep xs)"
| "filter_col keep (ObjCol xs) = ObjCol (sel keep xs)"
| "filter_col keep (CatCol xs) = CatCol (sel keep xs)"

definition filter_rows :: "bool list \<Rightarrow> table \<Rightarrow> table" where
  "filter_rows keep df = map (\<lambda>(name, c). (name, filter_col keep c)) df"

text \<open>\<open>df.dropna()\<close>: the rows without a missing value in any column.\<close>

definition dropna :: "table \<Rightarrow> table" where
  "dropna df = filter_rows (map Not (any_na df)) df"

text \<open>
  \<open>series.ewm(span=s).mean()\<close> with pandas' defaults (\<open>adjust=True\<close>,
  \<open>ignore_na=False\<close>): the average of the observations up to row \<open>t\<close>, the one
  \<open>k\<close> rows back weighted by \<open>(1 - 2/(s+1)) ^ k\<close>.
\<close>

definition ewm_mean :: "nat \<Rightarrow> fl list \<Rightarrow> fl list" where
  "ewm_mean s xs =
     map (\<lambda>t. let w = (\<lambda>i. (1 - 2 / (real s + 1)) ^ (t - i));
                  obs = filter (\<lambda>i. xs ! i \<noteq> NaN) [0..<Suc t]
              in if obs = [] then NaN
                 else fdiv (fsum (map (\<lambda>i. fmul (Fin (w i)) (xs ! i)) obs))
                           (Fin (sum_list (map w obs))))
         [0..<length xs]"

text \<open>The sample standard deviation (\<open>ddof=1\<close>) of a window.\<close>

definition fstd :: "fl list \<Rightarrow> fl" where
  "fstd xs =
     (let m = fmean xs
      in fsqrt (fdiv (fsum (map (\<lambda>x. fmul (fsub x m) (fsub x m)) xs))
                     (Fin (real (length xs) - 1))))"

definition rolling_std :: "nat \<Rightarrow> fl list \<Rightarrow> fl list" where
  "rolling_std n xs = rolling n fstd xs"

text \<open>\<open>series.where(cond, 0)\<close>: the value where the condition holds, else 0.\<close>

definition where0 :: "(fl \<Rightarrow> bool) \<Rightarrow> fl list \<Rightarrow> fl list" where
  "where0 cond xs = map (\<lambda>x. if cond x then x else Fin 0) xs"

text \<open>
  \<open>series.quantile(q)\<close>: linear interpolation between the two order statistics around
  position \<open>q * (n - 1)\<close> of the values that are not missing.
\<close>

fun insort_fl :: "fl \<Rightarrow> fl list \<Rightarrow> fl list" where
  "insort_fl x [] = [x]"
| "insort_fl x (y # ys) = (if flt y x then y # insort_fl x ys else x # y # ys)"

definition sort_fl :: "fl list \<Rightarrow> fl list" where
  "sort_fl xs = foldr insort_fl xs []"

definition quantile :: "real \<Rightarrow> fl list \<Rightarrow> fl" where
  "quantile q xs =
     (let ys = sort_fl (filter (\<lambda>x. x \<noteq> NaN) xs); n = length ys
      in if n = 0 then NaN
         else let pos = q * real (n - 1); lo = nat \<lfloor>pos\<rfloor>; hi = min (lo + 1) (n - 1)
              in fadd (ys ! lo) (fmul (fsub (ys ! hi) (ys ! lo)) (Fin (pos - real lo))))"

text \<open>
  \<open>pd.cut(series, bins, labels)\<close>: the label of the right-closed interval a value
  falls in, missing when it falls in none.
\<close>

fun cut1 :: "fl list \<Rightarrow> string list \<Rightarrow> fl \<Rightarrow> string option" where
  "cut1 (lo # hi # bs) (l # ls) x = (if flt lo x \<and> fle x hi then Some l else cut1 (hi # bs) ls x)"
| "cut1 _ _ _ = None"

definition cut :: "fl list \<Rightarrow> string list \<Rightarrow> fl list \<Rightarrow> column" where
  "cut bins labels xs = CatCol (map (cut1 bins labels) xs)"

text \<open>The \<open>.dt\<close> accessor exists on datetime columns only.\<close>

definition dt_field :: "(timestamp \<Rightarrow> nat) \<Rightarrow> column \<Rightarrow> error + fl list" where
  "dt_field f c =
     (case c of
        TimeCol ts \<Rightarrow> Inr (map (\<lambda>t. case t of None \<Rightarrow> NaN | Some u \<Rightarrow> Fin (real (f u))) ts)
      | _ \<Rightarrow> Inl (AttributeError ''Can only use .dt accessor with datetimelike values''))"

text \<open>\<open>series.isin(values).astype(int)\<close> for a list of numbers: defined on every dtype.\<close>

definition isin_int :: "real list \<Rightarrow> column \<Rightarrow> fl list" where
  "isin_int vs c =
     (case c of
        NumCol xs \<Rightarrow> map (\<lambda>x. if x \<in> Fin ` set vs then Fin 1 else Fin 0) xs
      | _ \<Rightarrow> replicate (col_len c) (Fin 0))"

text \<open>
  scikit-learn's \<open>LabelEncoder.fit_transform\<close>: the classes are the distinct values in
  ascending order, a value's code is the position of its class.  Values that have no
  common order (a column of mixed objects) are refused.
\<close>

datatype label_encoder = LabelEncoder (classes: "pyobj list")

fun index_of :: "'a list \<Rightarrow> 'a \<Rightarrow> nat" where
  "index_of [] v = 0"
| "index_of (x # xs) v = (if x = v then 0 else Suc (index_of xs v))"

definition encode :: "pyobj list \<Rightarrow> pyobj list \<Rightarrow> label_encoder \<times> fl list" where
  "encode cls vs = (LabelEncoder cls, map (\<lambda>v. Fin (real (index_of cls v))) vs)"

fun the_str :: "pyobj \<Rightarrow> string option" where
  "the_str (PStr s) = Some s"
| "the_str _ = None"

definition fit_transform :: "column \<Rightarrow> error + (label_encoder \<times> fl list)" where
  "fit_transform c =
     (case c of
        NumCol xs \<Rightarrow> Inr (encode (map PNum (remdups (sort_fl xs))) (map PNum xs))
      | ObjCol os \<Rightarrow>
          (if list_all (\<lambda>x. the_str x \<noteq> None) os
           then Inr (encode (map PStr (sort (remdups (map (the \<circ> the_str) os)))) os)
           else Inl (TypeError ''Encoders require their input argument must be uniformly strings or numbers''))
      | TimeCol ts \<Rightarrow>
          (if None \<in> set ts then Inl (TypeError ''NaT in labels'')
           else Inr (encode (map PTime (sort_key epoch (remdups (map the ts)))) (map (PTime \<circ> the) ts)))
      | CatCol cs \<Rightarrow>
          (if None \<in> set cs then Inl (TypeError ''missing value in labels'')
           else Inr (encode (map PStr (sort (remdups (map the cs)))) (map (PStr \<circ> the) cs))))"

subsection \<open>The processor's state and log\<close>

text \<open>
  \<open>DataProcessor\<close> holds three dictionaries.  \<open>scalers\<close> and \<open>imputers\<close> are written
  by \<open>prepare_ml_data\<close> only, which no pipeline step calls; their fitted objects are of
  an arbitrary type \<open>'sk\<close>.
\<close>

record 'sk processor =
  scalers :: "'sk dict"
  label_encoders :: "label_encoder dict"
  imputers :: "'sk dict"

datatype level = INFO | WARNING | ERROR

type_synonym log = "(level \<times> string) list"

text \<open>The decimal digits of a number, as an f-string prints it.\<close>

fun str_nat :: "nat \<Rightarrow> string" where
  "str_nat n = (if n < 10 then [char_of (48 + n)] else str_nat (n div 10) @ [char_of (48 + n mod 10)])"

declare str_nat.simps [simp del]

subsection \<open>\<open>DataProcessor.clean_stock_data\<close>\<close>

text \<open>
  The function in the source's order: the null guard, \<open>dropna\<close>, the filter on
  \<open>daily_return\<close>, then the indicator blocks.  Every \<open>df_clean[...]\<close> on the right of
  an assignment is a column read that raises \<open>KeyError\<close> when the column is absent.
\<close>

definition stock_moving_averages :: "table \<Rightarrow> error + table" where
  "stock_moving_averages d =
     ebind (getnum d ''close'') (\<lambda>c. let d1 = setnum d ''sma_5'' (rolling_mean 5 c) in
     ebind (getnum d1 ''close'') (\<lambda>c. let d2 = setnum d1 ''sma_20'' (rolling_mean 20 c) in
     ebind (getnum d2 ''close'') (\<lambda>c. let d3 = setnum d2 ''ema_12'' (ewm_mean 12 c) in
     ebind (getnum d3 ''close'') (\<lambda>c. Inr (setnum d3 ''ema_26'' (ewm_mean 26 c))))))"

definition stock_macd :: "table \<Rightarrow> error + table" where
  "stock_macd d =
     ebind (getnum d ''ema_12'') (\<lambda>e12.
     ebind (getnum d ''ema_26'') (\<lambda>e26. let d1 = setnum d ''macd'' (map2 fsub e12 e26) in
     ebind (getnum d1 ''macd'') (\<lambda>m. Inr (setnum d1 ''macd_signal'' (ewm_mean 9 m)))))"

definition stock_rsi :: "table \<Rightarrow> error + table" where
  "stock_rsi d =
     ebind (getnum d ''close'') (\<lambda>c.
       let delta = diff c;
           gain = rolling_mean 14 (where0 (\<lambda>x. fgt x (Fin 0)) delta);
           loss = rolling_mean 14 (map fneg (where0 (\<lambda>x. flt x (Fin 0)) delta));
           rs = map2 fdiv gain loss
       in Inr (setnum d ''rsi'' (map (\<lambda>r. fsub (Fin 100) (fdiv (Fin 100) (fadd (Fin 1) r))) rs)))"

definition stock_bollinger :: "table \<Rightarrow> error + table" where
  "stock_bollinger d =
     ebind (getnum d ''close'') (\<lambda>c. let d1 = setnum d ''bb_middle'' (rolling_mean 20 c) in
     ebind (getnum d1 ''close'') (\<lambda>c. let bb_std = rolling_std 20 c in
     ebind (getnum d1 ''bb_middle'') (\<lambda>m.
       let d2 = setnum d1 ''bb_upper'' (map2 fadd m (map (\<lambda>s. fmul s (Fin 2)) bb_std)) in
     ebind (getnum d2 ''bb_middle'') (\<lambda>m.
       Inr (setnum d2 ''bb_lower'' (map2 fsub m (map (\<lambda>s. fmul s (Fin 2)) bb_std)))))))"

definition momentum :: "nat \<Rightarrow> fl list \<Rightarrow> fl list" where
  "momentum k c = map (\<lambda>q. fsub q (Fin 1)) (map2 fdiv c (shift k c))"

definition stock_momentum :: "table \<Rightarrow> error + table" where
  "stock_momentum d =
     ebind (getnum d ''close'') (\<lambda>c. let d1 = setnum d ''momentum_5'' (momentum 5 c) in
     ebind (getnum d1 ''close'') (\<lambda>c. Inr (setnum d1 ''momentum_10'' (momentum 10 c))))"

definition stock_volume :: "table \<Rightarrow> error + table" where
  "stock_volume d =
     ebind (getnum d ''volume'') (\<lambda>v. let d1 = setnum d ''volume_sma'' (rolling_mean 20 v) in
     ebind (getnum d1 ''volume'') (\<lambda>v.
     ebind (getnum d1 ''volume_sma'') (\<lambda>s. Inr (setnum d1 ''volume_ratio'' (map2 fdiv v s)))))"

definition clean_stock_data :: "table \<Rightarrow> error + table" where
  "clean_stock_data df =
     (if df_empty df then Inr df
      else
        let df1 = dropna df in
        ebind (getnum df1 ''daily_return'') (\<lambda>ret.
        let df2 = filter_rows (map (\<lambda>r. flt (fabs r) (Fin (1 / 2))) ret) df1 in
        ebind (stock_moving_averages df2) (\<lambda>df3.
        ebind (stock_macd df3) (\<lambda>df4.
        ebind (stock_rsi df4) (\<lambda>df5.
        ebind (stock_bollinger df5) (\<lambda>df6.
        ebind (stock_momentum df6) (\<lambda>df7.
        stock_volume df7)))))))"

definition clean_stock_data_log :: "table \<Rightarrow> log" where
  "clean_stock_data_log df =
     (INFO, ''Cleaning stock data...'') #
     (if df_empty df then []
      else case clean_stock_data df of
             Inl e \<Rightarrow> []
           | Inr out \<Rightarrow> [(INFO, ''Cleaned stock data: '' @ str_nat (nrows out) @ '' records'')])"

text \<open>What \<open>clean_covid_data\<close> logs: one record on entry, one before a normal return.\<close>

definition clean_covid_data_log :: "table \<Rightarrow> log" where
  "clean_covid_data_log df =
     (INFO, ''Cleaning COVID-19 data...'') #
     (if df_empty df then []
      else case clean_covid_data df of
             Inl e \<Rightarrow> []
           | Inr out \<Rightarrow> [(INFO, ''Cleaned COVID-19 data: '' @ str_nat (nrows out) @ '' records'')])"

subsection \<open>\<open>DataProcessor.clean_weather_data\<close>\<close>

definition weather_numeric_cols :: "string list" where
  "weather_numeric_cols = [''temperature'', ''humidity'', ''pressure'', ''wind_speed'']"

text \<open>The outlier loop: each column that is present filters the rows left by the ones before.\<close>

fun iqr_filter :: "string list \<Rightarrow> table \<Rightarrow> error + table" where
  "iqr_filter [] df = Inr df"
| "iqr_filter (c # cs) df =
     (if c \<in> set (dict_keys df)
      then ebind (getnum df c) (\<lambda>xs.
             let q1 = quantile (1 / 4) xs; q3 = quantile (3 / 4) xs; iqr = fsub q3 q1;
                 lower_bound = fsub q1 (fmul (Fin (3 / 2)) iqr);
                 upper_bound = fadd q3 (fmul (Fin (3 / 2)) iqr)
             in iqr_filter cs (filter_rows (map (\<lambda>x. fge x lower_bound \<and> fle x upper_bound) xs) df))
      else iqr_filter cs df)"

definition weather_features :: "table \<Rightarrow> error + table" where
  "weather_features d =
     ebind (getnum d ''temperature'') (\<lambda>t.
       let d1 = setnum d ''temp_fahrenheit'' (map (\<lambda>x. fadd (fdiv (fmul x (Fin 9)) (Fin 5)) (Fin 32)) t) in
     ebind (getcol d1 ''temperature'') (\<lambda>c. let d2 = dict_set d1 ''feels_like'' c in
     ebind (ebind (getcol d2 ''datetime'') (dt_field hour)) (\<lambda>h. let d3 = setnum d2 ''hour'' h in
     ebind (ebind (getcol d3 ''datetime'') (dt_field dayofweek)) (\<lambda>w. let d4 = setnum d3 ''day_of_week'' w in
     ebind (ebind (getcol d4 ''datetime'') (dt_field month)) (\<lambda>m. Inr (setnum d4 ''month'' m))))))"

definition clean_weather_data :: "'sk processor \<Rightarrow> table \<Rightarrow> error + ('sk processor \<times> table)" where
  "clean_weather_data st df =
     (if df_empty df then Inr (st, df)
      else
        let df1 = dropna df in
        ebind (iqr_filter weather_numeric_cols df1) (\<lambda>df2.
        ebind (weather_features df2) (\<lambda>df3.
        if ''description'' \<in> set (dict_keys df3)
        then ebind (getcol df3 ''description'') (\<lambda>c.
             ebind (fit_transform c) (\<lambda>(le, codes).
               Inr (st\<lparr>label_encoders := dict_set (label_encoders st) ''weather_description'' le\<rparr>,
                    setnum df3 ''weather_code'' codes)))
        else Inr (st, df3))))"

subsection \<open>\<open>DataProcessor.clean_public_data\<close>\<close>

definition clean_public_data :: "table \<Rightarrow> error + table" where
  "clean_public_data df =
     (if df_empty df then Inr df
      else
        let df1 = dropna df in
        ebind (getnum df1 ''population'') (\<lambda>p.
        let df2 = filter_rows (map (\<lambda>x. fgt x (Fin 0)) p) df1 in
        ebind (getnum df2 ''population'') (\<lambda>p.
        let df3 = setnum df2 ''population_millions'' (map (\<lambda>x. fdiv x (Fin 1000000)) p) in
        ebind (getnum df3 ''population'') (\<lambda>p.
        let df4 = setnum df3 ''log_population'' (map flog p) in
        ebind (getnum df4 ''population'') (\<lambda>p.
        Inr (dict_set df4 ''population_category''
               (cut [Fin 0, Fin 10000000, Fin 50000000, Fin 100000000, PInf]
                    [''Small'', ''Medium'', ''Large'', ''Very Large''] p)))))))"

subsection \<open>\<open>DataProcessor.create_features\<close>\<close>

text \<open>\<open>series.shift(k)\<close> keeps the dtype; the rows without a predecessor are missing.\<close>

definition shift_fill :: "nat \<Rightarrow> 'a \<Rightarrow> 'a list \<Rightarrow> 'a list" where
  "shift_fill k fill xs = take (length xs) (replicate k fill @ xs)"

fun shift_col :: "nat \<Rightarrow> column \<Rightarrow> column" where
  "shift_col k (NumCol xs) = NumCol (shift k xs)"
| "shift_col k (TimeCol xs) = TimeCol (shift_fill k None xs)"
| "shift_col k (ObjCol xs) = ObjCol (shift_fill k (PNum NaN) xs)"
| "shift_col k (CatCol xs) = CatCol (shift_fill k None xs)"

definition covid_features :: "table \<Rightarrow> error + table" where
  "covid_features d =
     ebind (ebind (getcol d ''date'') (dt_field dayofyear)) (\<lambda>a. let d1 = setnum d ''day_of_year'' a in
     ebind (ebind (getcol d1 ''date'') (dt_field isoweek)) (\<lambda>b. let d2 = setnum d1 ''week_of_year'' b in
     ebind (ebind (getcol d2 ''date'') (dt_field month)) (\<lambda>c. let d3 = setnum d2 ''month'' c in
     ebind (getcol d3 ''cases'') (\<lambda>x. let d4 = dict_set d3 ''cases_lag_1'' (shift_col 1 x) in
     ebind (getcol d4 ''cases'') (\<lambda>x. let d5 = dict_set d4 ''cases_lag_7'' (shift_col 7 x) in
     ebind (getcol d5 ''deaths'') (\<lambda>x. Inr (dict_set d5 ''deaths_lag_1'' (shift_col 1 x))))))))"

definition stock_features :: "table \<Rightarrow> error + table" where
  "stock_features d =
     ebind (getnum d ''close'') (\<lambda>c. ebind (getnum d ''open'') (\<lambda>o'.
       let d1 = setnum d ''price_change'' (map2 fsub c o') in
     ebind (getnum d1 ''price_change'') (\<lambda>pc. ebind (getnum d1 ''open'') (\<lambda>o'.
       let d2 = setnum d1 ''price_change_pct'' (map2 fdiv pc o') in
     ebind (getnum d2 ''high'') (\<lambda>h. ebind (getnum d2 ''low'') (\<lambda>l.
       let d3 = setnum d2 ''high_low_ratio'' (map2 fdiv h l) in
     ebind (getnum d3 ''close'') (\<lambda>c. ebind (getnum d3 ''open'') (\<lambda>o'.
       let d4 = setnum d3 ''close_open_ratio'' (map2 fdiv c o') in
     ebind (ebind (getcol d4 ''date'') (dt_field dayofweek)) (\<lambda>w. let d5 = setnum d4 ''day_of_week'' w in
     ebind (ebind (getcol d5 ''date'') (dt_field month)) (\<lambda>m. let d6 = setnum d5 ''month'' m in
     ebind (ebind (getcol d6 ''date'') (dt_field quarter)) (\<lambda>q.
       Inr (setnum d6 ''quarter'' q))))))))))))"

definition weather_seasonal :: "table \<Rightarrow> error + table" where
  "weather_seasonal d =
     ebind (getcol d ''month'') (\<lambda>m. let d1 = setnum d ''is_summer'' (isin_int [6, 7, 8] m) in
     ebind (getcol d1 ''month'') (\<lambda>m. let d2 = setnum d1 ''is_winter'' (isin_int [12, 1, 2] m) in
     ebind (getcol d2 ''day_of_week'') (\<lambda>w. let d3 = setnum d2 ''is_weekend'' (isin_int [5, 6] w) in
     ebind (getnum d3 ''temperature'') (\<lambda>t.
       Inr (dict_set d3 ''temp_category''
              (cut [NInf, Fin 0, Fin 10, Fin 20, Fin 30, PInf]
                   [''Freezing'', ''Cold'', ''Mild'', ''Warm'', ''Hot''] t))))))"

definition create_features :: "table \<Rightarrow> string \<Rightarrow> error + table" where
  "create_features df data_type =
     (if data_type = ''covid'' then covid_features df
      else if data_type = ''stock'' then stock_features df
      else if data_type = ''weather'' then weather_seasonal df
      else Inr df)"

subsection \<open>\<open>DataProcessor.process_all_data\<close>\<close>

text \<open>
  One turn of the loop body up to the feature step: the cleaner chosen by the source's
  name stores its table under that name.  Nothing here catches an exception.
\<close>

definition clean_source ::
  "'sk processor \<Rightarrow> string \<Rightarrow> table \<Rightarrow> table dict \<Rightarrow> error + ('sk processor \<times> table dict)" where
  "clean_source st source_name df processed_data =
     (if source_name = ''covid''
      then ebind (clean_covid_data df) (\<lambda>t. Inr (st, dict_set processed_data source_name t))
      else if source_name = ''weather''
      then ebind (clean_weather_data st df) (\<lambda>(st', t). Inr (st', dict_set processed_data source_name t))
      else if source_name = ''stock''
      then ebind (clean_stock_data df) (\<lambda>t. Inr (st, dict_set processed_data source_name t))
      else if source_name = ''public''
      then ebind (clean_public_data df) (\<lambda>t. Inr (st, dict_set processed_data source_name t))
      else Inr (st, processed_data))"

definition add_features :: "string \<Rightarrow> table dict \<Rightarrow> error + table dict" where
  "add_features source_name processed_data =
     (case dict_get processed_data source_name of
        None \<Rightarrow> Inr processed_data
      | Some t \<Rightarrow> ebind (create_features t source_name) (\<lambda>t'.
                    Inr (dict_set processed_data source_name t')))"

text \<open>
  The loop over \<open>data_sources.items()\<close>.  An exception leaves the loop and the function:
  the result is the processor as it stood and the error, the sources not yet reached are
  never looked at.
\<close>

fun process_loop ::
  "'sk processor \<Rightarrow> table dict \<Rightarrow> table dict \<Rightarrow> 'sk processor \<times> (error + table dict)" where
  "process_loop st [] processed_data = (st, Inr processed_data)"
| "process_loop st ((source_name, df) # rest) processed_data =
     (if df_empty df then process_loop st rest processed_data
      else case clean_source st source_name df processed_data of
             Inl e \<Rightarrow> (st, Inl e)
           | Inr (st1, processed1) \<Rightarrow>
               (case add_features source_name processed1 of
                  Inl e \<Rightarrow> (st1, Inl e)
                | Inr processed2 \<Rightarrow> process_loop st1 rest processed2))"

definition process_all_data ::
  "'sk processor \<Rightarrow> table dict \<Rightarrow> 'sk processor \<times> (error + table dict)" where
  "process_all_data st data_sources = process_loop st data_sources []"

subsection \<open>Notions used to state and prove the properties\<close>

text \<open>All columns of a frame have \<open>n\<close> rows.\<close>

definition uniform :: "nat \<Rightarrow> table \<Rightarrow> bool" where
  "uniform n df = list_all (\<lambda>(_, c). col_len c = n) df"

text \<open>\<open>extends S d d'\<close>: the frame \<open>d'\<close> differs from \<open>d\<close> in the columns named in \<open>S\<close> at
  most, and is as regular as \<open>d\<close>.\<close>

definition extends :: "string set \<Rightarrow> table \<Rightarrow> table \<Rightarrow> bool" where
  "extends S d d' \<longleftrightarrow>
     (\<forall>k. k \<notin> S \<longrightarrow> dict_get d' k = dict_get d k) \<and>
     (\<forall>n. uniform n d \<longrightarrow> uniform n d') \<and>
     (distinct (dict_keys d) \<longrightarrow> distinct (dict_keys d')) \<and>
     (d \<noteq> [] \<longrightarrow> d' \<noteq> [])"

definition stock_indicator_cols :: "string set" where
  "stock_indicator_cols =
     {''sma_5'', ''sma_20'', ''ema_12'', ''ema_26'', ''macd'', ''macd_signal'', ''rsi'',
      ''bb_middle'', ''bb_upper'', ''bb_lower'', ''momentum_5'', ''momentum_10'',
      ''volume_sma'', ''volume_ratio''}"

text \<open>A column that, when present, is a float column.\<close>

definition num_or_absent :: "table \<Rightarrow> string \<Rightarrow> bool" where
  "num_or_absent df k = (case dict_get df k of None \<Rightarrow> True | Some c \<Rightarrow> (\<exists>xs. c = NumCol xs))"

text \<open>The columns \<open>clean_covid_data\<close> derives.\<close>

definition covid_derived_cols :: "string set" where
  "covid_derived_cols = {''case_fatality_rate'', ''recovery_rate'', ''cases_7d_avg'',
           ''deaths_7d_avg'', ''cases_growth_rate'', ''deaths_growth_rate''}"

text \<open>
  The effect of a run on the processor: nothing, or the weather encoder stored under its
  key.  \<open>later b a\<close> is the encoder left by two stores in a row.
\<close>

definition store_encoder :: "label_encoder option \<Rightarrow> 'sk processor \<Rightarrow> 'sk processor" where
  "store_encoder u st =
     (case u of None \<Rightarrow> st
      | Some le \<Rightarrow> st\<lparr>label_encoders := dict_set (label_encoders st) ''weather_description'' le\<rparr>)"

definition later :: "'a option \<Rightarrow> 'a option \<Rightarrow> 'a option" where
  "later b a = (case b of None \<Rightarrow> a | Some x \<Rightarrow> Some x)"


section \<open>Training and prediction: \<open>models/ml_models.py\<close>\<close>

subsection \<open>scikit-learn and xgboost, as the code calls them\<close>

text \<open>
  The estimators and metrics are library code.  The model takes them as a record of
  functions over an arbitrary type \<open>'est\<close> of fitted estimators; each may raise.  An
  estimator is constructed from its class and the arguments the code passes, the random
  seed among them, so a library function applied twice to the same arguments returns the
  same value: that is what a fixed seed means.  Metrics that do not raise are finite
  numbers (scikit-learn rejects non-finite input).
\<close>

datatype estimator_spec =
    RandomForestRegressor nat nat
  | LinearRegression
  | XGBRegressor nat nat
  | SVR string
  | RandomForestClassifier nat nat
  | LogisticRegression nat
  | SVC nat

text \<open>\<open>classification_report(..., output_dict=True)\<close>: per label, the named scores.\<close>

type_synonym report = "(string \<times> real) list dict"

record 'est sklearn =
  train_test_split :: "table \<Rightarrow> column \<Rightarrow> real \<Rightarrow> nat \<Rightarrow> bool \<Rightarrow> error + (table \<times> table \<times> column \<times> column)"
  fit :: "estimator_spec \<Rightarrow> table \<Rightarrow> column \<Rightarrow> error + 'est"
  predict :: "'est \<Rightarrow> table \<Rightarrow> error + column"
  mean_squared_error :: "column \<Rightarrow> column \<Rightarrow> error + real"
  r2_score :: "column \<Rightarrow> column \<Rightarrow> error + real"
  accuracy_score :: "column \<Rightarrow> column \<Rightarrow> error + real"
  classification_report :: "column \<Rightarrow> column \<Rightarrow> error + report"
  feature_importances :: "'est \<Rightarrow> real list option"

subsection \<open>The trainer's state\<close>

record reg_metrics =
  mse :: real
  r2 :: real
  rmse :: real

record cls_metrics =
  accuracy :: real
  report_of :: report

datatype performance = RegPerf "reg_metrics dict" | ClsPerf "cls_metrics dict"

record metadata =
  features :: "string list"
  best_model :: string
  performance :: performance
  trained_date :: string

record 'est ml_models =
  models :: "'est dict"
  model_metadata :: "metadata dict"
  feature_importance :: "(string \<times> real) list dict"

subsection \<open>Selecting the best candidate\<close>

text \<open>
  \<open>max(values, key=...)\<close> keeps the first of the greatest elements and raises on an empty
  sequence; \<open>list.index\<close> gives the first position of an equal element.
\<close>

fun py_max :: "('a \<Rightarrow> real) \<Rightarrow> 'a list \<Rightarrow> 'a option" where
  "py_max key [] = None"
| "py_max key (x # xs) = Some (foldl (\<lambda>m y. if key m < key y then y else m) x xs)"

fun py_index :: "'a list \<Rightarrow> 'a \<Rightarrow> nat option" where
  "py_index [] v = None"
| "py_index (x # xs) v = (if x = v then Some 0 else map_option Suc (py_index xs v))"

text \<open>
  \<open>list(results.keys())[list(results.values()).index(max(results.values(), key=...))]\<close>.
\<close>

definition best_name :: "('m \<Rightarrow> real) \<Rightarrow> 'm dict \<Rightarrow> error + string" where
  "best_name key results =
     (case py_max key (dict_values results) of
        None \<Rightarrow> Inl (ValueError ''max() arg is an empty sequence'')
      | Some m \<Rightarrow>
          (case py_index (dict_values results) m of
             None \<Rightarrow> Inl (ValueError ''value is not in list'')
           | Some i \<Rightarrow> Inr (dict_keys results ! i)))"

text \<open>
  The loop over the candidate estimators of a regression task.  The state is
  \<open>(best_model, best_score, results)\<close>.  Any exception in the \<open>try\<close> block, which can
  only come from one of the four library calls, skips the candidate and leaves the state
  as it was.
\<close>

definition evaluate_regressor ::
  "'est sklearn \<Rightarrow> estimator_spec \<Rightarrow> table \<Rightarrow> column \<Rightarrow> table \<Rightarrow> column \<Rightarrow> error + ('est \<times> reg_metrics)" where
  "evaluate_regressor sk model X_train y_train X_test y_test =
     ebind (fit sk model X_train y_train) (\<lambda>est.
     ebind (predict sk est X_test) (\<lambda>y_pred.
     ebind (mean_squared_error sk y_test y_pred) (\<lambda>m.
     ebind (r2_score sk y_test y_pred) (\<lambda>r.
       Inr (est, \<lparr>mse = m, r2 = r, rmse = sqrt m\<rparr>)))))"

fun train_regressors ::
  "'est sklearn \<Rightarrow> (string \<times> estimator_spec) list \<Rightarrow> table \<Rightarrow> column \<Rightarrow> table \<Rightarrow> column \<Rightarrow>
   'est option \<times> fl \<times> reg_metrics dict \<Rightarrow> 'est option \<times> fl \<times> reg_metrics dict" where
  "train_regressors sk [] X_train y_train X_test y_test s = s"
| "train_regressors sk ((name, model) # rest) X_train y_train X_test y_test (best, best_score, results) =
     (case evaluate_regressor sk model X_train y_train X_test y_test of
        Inl e \<Rightarrow> train_regressors sk rest X_train y_train X_test y_test (best, best_score, results)
      | Inr (est, m) \<Rightarrow>
          train_regressors sk rest X_train y_train X_test y_test
            (if fgt (Fin (r2 m)) best_score
             then (Some est, Fin (r2 m), dict_set results name m)
             else (best, best_score, dict_set results name m)))"

definition evaluate_classifier ::
  "'est sklearn \<Rightarrow> estimator_spec \<Rightarrow> table \<Rightarrow> column \<Rightarrow> table \<Rightarrow> column \<Rightarrow> error + ('est \<times> cls_metrics)" where
  "evaluate_classifier sk model X_train y_train X_test y_test =
     ebind (fit sk model X_train y_train) (\<lambda>est.
     ebind (predict sk est X_test) (\<lambda>y_pred.
     ebind (accuracy_score sk y_test y_pred) (\<lambda>a.
     ebind (classification_report sk y_test y_pred) (\<lambda>rep.
       Inr (est, \<lparr>accuracy = a, report_of = rep\<rparr>)))))"

fun train_classifiers ::
  "'est sklearn \<Rightarrow> (string \<times> estimator_spec) list \<Rightarrow> table \<Rightarrow> column \<Rightarrow> table \<Rightarrow> column \<Rightarrow>
   'est option \<times> fl \<times> cls_metrics dict \<Rightarrow> 'est option \<times> fl \<times> cls_metrics dict" where
  "train_classifiers sk [] X_train y_train X_test y_test s = s"
| "train_classifiers sk ((name, model) # rest) X_train y_train X_test y_test (best, best_score, results) =
     (case evaluate_classifier sk model X_train y_train X_test y_test of
        Inl e \<Rightarrow> train_classifiers sk rest X_train y_train X_test y_test (best, best_score, results)
      | Inr (est, m) \<Rightarrow>
          train_classifiers sk rest X_train y_train X_test y_test
            (if fgt (Fin (accuracy m)) best_score
             then (Some est, Fin (accuracy m), dict_set results name m)
             else (best, best_score, dict_set results name m)))"

text \<open>
  Storing the winner: the estimator, its metadata and, when the estimator has
  \<open>feature_importances_\<close>, the importances zipped with the feature names.
\<close>

definition store_model ::
  "'est sklearn \<Rightarrow> string \<Rightarrow> 'est ml_models \<Rightarrow> string \<Rightarrow> 'est \<Rightarrow> string list \<Rightarrow> string \<Rightarrow>
   performance \<Rightarrow> 'est ml_models" where
  "store_model sk now st key est available_features name perf =
     st\<lparr>models := dict_set (models st) key est,
        model_metadata := dict_set (model_metadata st) key
          \<lparr>features = available_features, best_model = name, performance = perf,
           trained_date = now\<rparr>,
        feature_importance :=
          (case feature_importances sk est of
             None \<Rightarrow> feature_importance st
           | Some imp \<Rightarrow> dict_set (feature_importance st) key (zip available_features imp))\<rparr>"

text \<open>\<open>series.shift(-1)\<close> on any dtype, and \<open>df[cols]\<close> for a list of columns.\<close>

fun shift_back_col :: "column \<Rightarrow> column" where
  "shift_back_col (NumCol xs) = NumCol (shift_back1 xs)"
| "shift_back_col (TimeCol xs) = TimeCol (if xs = [] then [] else tl xs @ [None])"
| "shift_back_col (ObjCol xs) = ObjCol (if xs = [] then [] else tl xs @ [PNum NaN])"
| "shift_back_col (CatCol xs) = CatCol (if xs = [] then [] else tl xs @ [None])"

definition select_cols :: "table \<Rightarrow> string list \<Rightarrow> error + table" where
  "select_cols df cols = emap (\<lambda>c. ebind (getcol df c) (\<lambda>col. Inr (c, col))) cols"

subsection \<open>The training functions\<close>

text \<open>
  \<open>train_covid_forecasting_model\<close> and \<open>train_stock_prediction_model\<close> are the same
  code up to their constants: the row floor, the feature list and its floor, the column
  whose next value is the target, the target's name, the candidate estimators and the
  key the winner is stored under.  \<open>train_forecasting_model\<close> is that code, with the
  constants in a record.  \<open>now\<close> is what \<open>datetime.now().isoformat()\<close> returns.
  A return of \<open>{}\<close> is the empty list of results.
\<close>

record train_config =
  min_rows :: nat
  feature_cols :: "string list"
  min_features :: nat
  source_col :: string
  target_col :: string
  candidates :: "(string \<times> estimator_spec) list"
  model_key :: string

definition train_forecasting_model ::
  "train_config \<Rightarrow> 'est sklearn \<Rightarrow> string \<Rightarrow> 'est ml_models \<Rightarrow> table \<Rightarrow>
   error + ('est ml_models \<times> reg_metrics dict)" where
  "train_forecasting_model cfg sk now st df =
     (if df_empty df \<or> nrows df < min_rows cfg then Inr (st, [])
      else
        let available_features = filter (\<lambda>c. c \<in> set (dict_keys df)) (feature_cols cfg) in
        if length available_features < min_features cfg then Inr (st, [])
        else
          ebind (getcol df (source_col cfg)) (\<lambda>src.
          let df_model = dropna (dict_set df (target_col cfg) (shift_back_col src)) in
          if nrows df_model < min_rows cfg then Inr (st, [])
          else
            ebind (select_cols df_model available_features) (\<lambda>X.
            ebind (getcol df_model (target_col cfg)) (\<lambda>y.
            ebind (train_test_split sk X y (1 / 5) 42 False) (\<lambda>(X_train, X_test, y_train, y_test).
            case train_regressors sk (candidates cfg) X_train y_train X_test y_test (None, NInf, []) of
              (best, best_score, results) \<Rightarrow>
                (case best of
                   None \<Rightarrow> Inr (st, [])
                 | Some est \<Rightarrow>
                     ebind (best_name r2 results) (\<lambda>name.
                       Inr (store_model sk now st (model_key cfg) est available_features name
                              (RegPerf results),
                            results))))))))"

definition covid_config :: train_config where
  "covid_config =
     \<lparr>min_rows = 10,
      feature_cols =
        [''cases'', ''deaths'', ''recovered'', ''new_cases'', ''new_deaths'',
         ''case_fatality_rate'', ''recovery_rate'', ''cases_7d_avg'', ''deaths_7d_avg'',
         ''cases_growth_rate'', ''deaths_growth_rate'', ''day_of_year'', ''week_of_year'',
         ''month''],
      min_features = 3,
      source_col = ''cases'',
      target_col = ''target_cases'',
      candidates =
        [(''random_forest'', RandomForestRegressor 100 42),
         (''linear_regression'', LinearRegression),
         (''xgboost'', XGBRegressor 100 42)],
      model_key = ''covid_forecast''\<rparr>"

definition stock_config :: train_config where
  "stock_config =
     \<lparr>min_rows = 20,
      feature_cols =
        [''open'', ''high'', ''low'', ''volume'', ''daily_return'', ''volatility'', ''sma_5'',
         ''sma_20'', ''ema_12'', ''ema_26'', ''macd'', ''macd_signal'', ''rsi'', ''bb_middle'',
         ''bb_upper'', ''bb_lower'', ''momentum_5'', ''momentum_10'', ''volume_sma'',
         ''volume_ratio'', ''price_change'', ''price_change_pct'', ''high_low_ratio'',
         ''close_open_ratio'', ''day_of_week'', ''month'', ''quarter''],
      min_features = 5,
      source_col = ''close'',
      target_col = ''target_close'',
      candidates =
        [(''random_forest'', RandomForestRegressor 100 42),
         (''xgboost'', XGBRegressor 100 42),
         (''svr'', SVR ''rbf'')],
      model_key = ''stock_prediction''\<rparr>"

definition train_covid_forecasting_model ::
  "'est sklearn \<Rightarrow> string \<Rightarrow> 'est ml_models \<Rightarrow> table \<Rightarrow> error + ('est ml_models \<times> reg_metrics dict)" where
  "train_covid_forecasting_model = train_forecasting_model covid_config"

definition train_stock_prediction_model ::
  "'est sklearn \<Rightarrow> string \<Rightarrow> 'est ml_models \<Rightarrow> table \<Rightarrow> error + ('est ml_models \<times> reg_metrics dict)" where
  "train_stock_prediction_model = train_forecasting_model stock_config"

definition weather_feature_cols :: "string list" where
  "weather_feature_cols =
     [''temperature'', ''humidity'', ''pressure'', ''wind_speed'', ''temp_fahrenheit'', ''hour'',
      ''day_of_week'', ''month'', ''is_summer'', ''is_winter'', ''is_weekend'']"

definition weather_models :: "(string \<times> estimator_spec) list" where
  "weather_models =
     [(''random_forest'', RandomForestClassifier 100 42),
      (''logistic_regression'', LogisticRegression 42),
      (''svc'', SVC 42)]"

definition train_weather_classification_model ::
  "'est sklearn \<Rightarrow> string \<Rightarrow> 'est ml_models \<Rightarrow> table \<Rightarrow> error + ('est ml_models \<times> cls_metrics dict)" where
  "train_weather_classification_model sk now st df =
     (if df_empty df \<or> nrows df < 10 then Inr (st, [])
      else
        let available_features = filter (\<lambda>c. c \<in> set (dict_keys df)) weather_feature_cols in
        if length available_features < 3 then Inr (st, [])
        else
          ebind (getnum df ''temperature'') (\<lambda>t.
          let df_model = dropna (dict_set df ''weather_category''
                (cut [NInf, Fin 0, Fin 15, Fin 25, PInf] [''Cold'', ''Cool'', ''Warm'', ''Hot''] t)) in
          if nrows df_model < 10 then Inr (st, [])
          else
            ebind (select_cols df_model available_features) (\<lambda>X.
            ebind (getcol df_model ''weather_category'') (\<lambda>y.
            ebind (train_test_split sk X y (1 / 5) 42 True) (\<lambda>(X_train, X_test, y_train, y_test).
            case train_classifiers sk weather_models X_train y_train X_test y_test (None, NInf, []) of
              (best, best_score, results) \<Rightarrow>
                (case best of
                   None \<Rightarrow> Inr (st, [])
                 | Some est \<Rightarrow>
                     ebind (best_name accuracy results) (\<lambda>name.
                       Inr (store_model sk now st ''weather_classification'' est available_features
                              name (ClsPerf results),
                            results))))))))"

subsection \<open>\<open>MLModels.make_prediction\<close>\<close>

text \<open>
  \<open>X.fillna(X.mean())\<close>, as pandas 2 computes it.  The mean of a column is taken over
  the cells of the supplied rows that are not missing; a column without any keeps its
  missing cells.  An object column is averaged when every cell is a number or missing
  (\<open>None\<close> is what a null feature of a one-row frame becomes), and the fill turns it into
  a float column; with any other cell the mean raises \<open>TypeError\<close>, as it does on a
  categorical column.  A datetime column is averaged on its nanosecond values, the mean
  truncated to a whole nanosecond.
\<close>

definition mean_skipna :: "fl list \<Rightarrow> fl" where
  "mean_skipna xs = (let ys = filter (\<lambda>x. x \<noteq> NaN) xs in if ys = [] then NaN else fmean ys)"

fun obj_num :: "pyobj \<Rightarrow> fl option" where
  "obj_num (PNum x) = Some x"
| "obj_num PNone = Some NaN"
| "obj_num (PStr s) = None"
| "obj_num (PTime t) = None"

fun num_view :: "column \<Rightarrow> fl list option" where
  "num_view (NumCol xs) = Some xs"
| "num_view (ObjCol os) =
     (if list_all (\<lambda>x. obj_num x \<noteq> None) os then Some (map (the \<circ> obj_num) os) else None)"
| "num_view (TimeCol ts) = None"
| "num_view (CatCol cs) = None"

text \<open>
  The calendar fields of a nanosecond value: the proleptic Gregorian date of its day, the
  day of the week from Monday = 0, and the ISO 8601 week.
\<close>

definition leap_year :: "int \<Rightarrow> bool" where
  "leap_year y = ((y mod 4 = 0 \<and> y mod 100 \<noteq> 0) \<or> y mod 400 = 0)"

definition civil_from_days :: "int \<Rightarrow> int \<times> int \<times> int" where
  "civil_from_days days =
     (let z = days + 719468;
          era = z div 146097;
          doe = z - era * 146097;
          yoe = (doe - doe div 1460 + doe div 36524 - doe div 146096) div 365;
          doy = doe - (365 * yoe + yoe div 4 - yoe div 100);
          mp = (5 * doy + 2) div 153;
          d = doy - (153 * mp + 2) div 5 + 1;
          m = (if mp < 10 then mp + 3 else mp - 9);
          y = yoe + era * 400 + (if m \<le> 2 then 1 else 0)
      in (y, m, d))"

definition day_of_year :: "int \<Rightarrow> int \<Rightarrow> int \<Rightarrow> int" where
  "day_of_year y m d = 275 * m div 9 - (if leap_year y then 1 else 2) * ((m + 9) div 12) + d - 30"

definition iso_weeks_in_year :: "int \<Rightarrow> int" where
  "iso_weeks_in_year y =
     (let p = (\<lambda>y. (y + y div 4 - y div 100 + y div 400) mod 7)
      in if p y = 4 \<or> p (y - 1) = 3 then 53 else 52)"

definition iso_week :: "int \<Rightarrow> int \<Rightarrow> int \<Rightarrow> int" where
  "iso_week y doy wd =
     (let w = (doy - (wd + 1) + 10) div 7
      in if w < 1 then iso_weeks_in_year (y - 1)
         else if w > iso_weeks_in_year y then 1 else w)"

definition timestamp_of_value :: "int \<Rightarrow> timestamp" where
  "timestamp_of_value v =
     (let days = v div 86400000000000;
          secs = (v mod 86400000000000) div 1000000000;
          wd = (days + 3) mod 7;
          (y, m, d) = civil_from_days days;
          doy = day_of_year y m d
      in \<lparr>epoch = v, hour = nat (secs div 3600), dayofweek = nat wd, dayofyear = nat doy,
          isoweek = nat (iso_week y doy wd), month = nat m, quarter = nat ((m - 1) div 3 + 1)\<rparr>)"

definition mean_timestamp :: "timestamp option list \<Rightarrow> timestamp option" where
  "mean_timestamp ts =
     (let vs = map (epoch \<circ> the) (filter (\<lambda>t. t \<noteq> None) ts);
          total = sum_list vs;
          n = int (length vs)
      in if vs = [] then None
         else Some (timestamp_of_value (if total < 0 then - ((- total) div n) else total div n)))"

fun fillna_mean_col :: "column \<Rightarrow> error + column" where
  "fillna_mean_col (NumCol xs) =
     Inr (NumCol (map (\<lambda>x. if x = NaN then mean_skipna xs else x) xs))"
| "fillna_mean_col (ObjCol os) =
     (case num_view (ObjCol os) of
        None \<Rightarrow> Inl (TypeError ''Could not convert to numeric'')
      | Some xs \<Rightarrow> Inr (NumCol (map (\<lambda>x. if x = NaN then mean_skipna xs else x) xs)))"
| "fillna_mean_col (TimeCol ts) =
     Inr (TimeCol (map (\<lambda>t. case t of None \<Rightarrow> mean_timestamp ts | Some u \<Rightarrow> Some u) ts))"
| "fillna_mean_col (CatCol cs) =
     Inl (TypeError ''Categorical does not support reduction mean'')"

definition fillna_mean :: "table \<Rightarrow> error + table" where
  "fillna_mean X = emap (\<lambda>(name, c). ebind (fillna_mean_col c) (\<lambda>c'. Inr (name, c'))) X"

text \<open>The rows as they reach the estimator: the trained features present, then the fill.\<close>

definition prepare_features :: "metadata \<Rightarrow> table \<Rightarrow> error + table" where
  "prepare_features md feats =
     (let available_features = filter (\<lambda>c. c \<in> set (dict_keys feats)) (features md) in
      ebind (select_cols feats available_features) fillna_mean)"

definition make_prediction ::
  "'est sklearn \<Rightarrow> 'est ml_models \<Rightarrow> string \<Rightarrow> table \<Rightarrow> error + column" where
  "make_prediction sk st model_name feats =
     (case dict_get (models st) model_name of
        None \<Rightarrow> Inl (ValueError (''Model '' @ model_name @ '' not found''))
      | Some model \<Rightarrow>
          (case dict_get (model_metadata st) model_name of
             None \<Rightarrow> Inl (KeyError model_name)
           | Some md \<Rightarrow> ebind (prepare_features md feats) (predict sk model)))"

subsection \<open>\<open>MLModels.train_all_models\<close>\<close>

text \<open>
  The three trainers in turn, each only if its table is there.  An exception in one
  leaves the function at once; the models stored before it stay stored.
\<close>

definition train_all_models ::
  "'est sklearn \<Rightarrow> string \<Rightarrow> 'est ml_models \<Rightarrow> table dict \<Rightarrow>
   'est ml_models \<times> (error + performance dict)" where
  "train_all_models sk now st processed_data =
     (case (case dict_get processed_data ''covid'' of
              None \<Rightarrow> Inr (st, [])
            | Some df \<Rightarrow> ebind (train_covid_forecasting_model sk now st df) (\<lambda>(st1, r).
                           Inr (st1, dict_set [] ''covid'' (RegPerf r)))) of
        Inl e \<Rightarrow> (st, Inl e)
      | Inr (st1, results1) \<Rightarrow>
     (case (case dict_get processed_data ''stock'' of
              None \<Rightarrow> Inr (st1, results1)
            | Some df \<Rightarrow> ebind (train_stock_prediction_model sk now st1 df) (\<lambda>(st2, r).
                           Inr (st2, dict_set results1 ''stock'' (RegPerf r)))) of
        Inl e \<Rightarrow> (st1, Inl e)
      | Inr (st2, results2) \<Rightarrow>
     (case (case dict_get processed_data ''weather'' of
              None \<Rightarrow> Inr (st2, results2)
            | Some df \<Rightarrow> ebind (train_weather_classification_model sk now st2 df) (\<lambda>(st3, r).
                           Inr (st3, dict_set results2 ''weather'' (ClsPerf r)))) of
        Inl e \<Rightarrow> (st2, Inl e)
      | Inr (st3, results3) \<Rightarrow> (st3, Inr results3))))"

subsection \<open>Notions used to state the training and prediction properties\<close>

text \<open>
  A column that, when present, holds numbers and missing values only: a float column, or
  an object column of numbers and \<open>None\<close>.
\<close>

definition numeric_or_absent :: "table \<Rightarrow> string \<Rightarrow> bool" where
  "numeric_or_absent df k = (case dict_get df k of None \<Rightarrow> True | Some c \<Rightarrow> num_view c \<noteq> None)"

text \<open>What the fill makes of such a column.\<close>

definition filled :: "column \<Rightarrow> column" where
  "filled c =
     (case num_view c of
        None \<Rightarrow> c
      | Some xs \<Rightarrow> NumCol (map (\<lambda>x. if x = NaN then mean_skipna xs else x) xs))"

text \<open>
  A training function in two steps.  The first evaluates the candidates and reads neither
  the trainer's state nor the clock: it gives the estimator kept, the features used, the
  name recorded and the result dictionary, or nothing when the function returns \<open>{}\<close>
  early.  The second stores them.  The lemmas \<open>train_forecasting_model_outcome\<close> and
  \<open>train_weather_classification_model_outcome\<close> show that the training functions are
  the composition of the two.
\<close>

definition finish_training ::
  "'est sklearn \<Rightarrow> string \<Rightarrow> ('m dict \<Rightarrow> performance) \<Rightarrow> string \<Rightarrow> 'est ml_models \<Rightarrow>
   error + ('est \<times> string list \<times> string \<times> 'm dict) option \<Rightarrow> error + ('est ml_models \<times> 'm dict)" where
  "finish_training sk key perf now st r =
     (case r of
        Inl e \<Rightarrow> Inl e
      | Inr None \<Rightarrow> Inr (st, [])
      | Inr (Some (est, av, name, results)) \<Rightarrow>
          Inr (store_model sk now st key est av name (perf results), results))"

definition forecasting_outcome ::
  "train_config \<Rightarrow> 'est sklearn \<Rightarrow> table \<Rightarrow>
   error + ('est \<times> string list \<times> string \<times> reg_metrics dict) option" where
  "forecasting_outcome cfg sk df =
     (if df_empty df \<or> nrows df < min_rows cfg then Inr None
      else
        let available_features = filter (\<lambda>c. c \<in> set (dict_keys df)) (feature_cols cfg) in
        if length available_features < min_features cfg then Inr None
        else
          ebind (getcol df (source_col cfg)) (\<lambda>src.
          let df_model = dropna (dict_set df (target_col cfg) (shift_back_col src)) in
          if nrows df_model < min_rows cfg then Inr None
          else
            ebind (select_cols df_model available_features) (\<lambda>X.
            ebind (getcol df_model (target_col cfg)) (\<lambda>y.
            ebind (train_test_split sk X y (1 / 5) 42 False) (\<lambda>(X_train, X_test, y_train, y_test).
            case train_regressors sk (candidates cfg) X_train y_train X_test y_test (None, NInf, []) of
              (best, best_score, results) \<Rightarrow>
                (case best of
                   None \<Rightarrow> Inr None
                 | Some est \<Rightarrow>
                     ebind (best_name r2 results) (\<lambda>name.
                       Inr (Some (est, available_features, name, results)))))))))"

definition classification_outcome ::
  "'est sklearn \<Rightarrow> table \<Rightarrow> error + ('est \<times> string list \<times> string \<times> cls_metrics dict) option" where
  "classification_outcome sk df =
     (if df_empty df \<or> nrows df < 10 then Inr None
      else
        let available_features = filter (\<lambda>c. c \<in> set (dict_keys df)) weather_feature_cols in
        if length available_features < 3 then Inr None
        else
          ebind (getnum df ''temperature'') (\<lambda>t.
          let df_model = dropna (dict_set df ''weather_category''
                (cut [NInf, Fin 0, Fin 15, Fin 25, PInf] [''Cold'', ''Cool'', ''Warm'', ''Hot''] t)) in
          if nrows df_model < 10 then Inr None
          else
            ebind (select_cols df_model available_features) (\<lambda>X.
            ebind (getcol df_model ''weather_category'') (\<lambda>y.
            ebind (train_test_split sk X y (1 / 5) 42 True) (\<lambda>(X_train, X_test, y_train, y_test).
            case train_classifiers sk weather_models X_train y_train X_test y_test (None, NInf, []) of
              (best, best_score, results) \<Rightarrow>
                (case best of
                   None \<Rightarrow> Inr None
                 | Some est \<Rightarrow>
                     ebind (best_name accuracy results) (\<lambda>name.
                       Inr (Some (est, available_features, name, results)))))))))"

text \<open>
  The candidate at position \<open>i\<close> has the greatest score and is the first to have it.
\<close>

definition first_max :: "('m \<Rightarrow> real) \<Rightarrow> 'm list \<Rightarrow> nat \<Rightarrow> bool" where
  "first_max key ms i \<longleftrightarrow>
     i < length ms \<and> (\<forall>j < length ms. key (ms ! j) \<le> key (ms ! i)) \<and>
     (\<forall>j < i. key (ms ! j) < key (ms ! i))"

text \<open>
  The candidate loop over any evaluation function and score, and what holds of its state
  after every pass: the estimator kept is the one of the first result with the greatest
  score, evaluated from a candidate of that name.
\<close>

fun select_loop ::
  "('c \<Rightarrow> error + ('est \<times> 'm)) \<Rightarrow> ('m \<Rightarrow> real) \<Rightarrow> (string \<times> 'c) list \<Rightarrow>
   'est option \<times> fl \<times> 'm dict \<Rightarrow> 'est option \<times> fl \<times> 'm dict" where
  "select_loop ev key [] s = s"
| "select_loop ev key ((name, model) # rest) (best, best_score, results) =
     (case ev model of
        Inl e \<Rightarrow> select_loop ev key rest (best, best_score, results)
      | Inr (est, m) \<Rightarrow>
          select_loop ev key rest
            (if fgt (Fin (key m)) best_score
             then (Some est, Fin (key m), dict_set results name m)
             else (best, best_score, dict_set results name m)))"

definition loop_inv ::
  "('c \<Rightarrow> error + ('est \<times> 'm)) \<Rightarrow> ('m \<Rightarrow> real) \<Rightarrow> (string \<times> 'c) set \<Rightarrow>
   'est option \<times> fl \<times> 'm dict \<Rightarrow> bool" where
  "loop_inv ev key D s =
     (case s of (best, best_score, results) \<Rightarrow>
        set (dict_keys results) \<subseteq> fst ` D \<and>
        (case best of
           None \<Rightarrow> results = [] \<and> best_score = NInf
         | Some est \<Rightarrow>
             (\<exists>i. first_max key (dict_values results) i \<and>
                  best_score = Fin (key (snd (results ! i))) \<and>
                  (\<exists>model. (fst (results ! i), model) \<in> D \<and> ev model = Inr (est, snd (results ! i))))))"

text \<open>
  \<open>selected key results name m\<close>: the entry \<open>name\<close> of the result dictionary holds the
  metrics \<open>m\<close>, and it is the first entry, in insertion order, with the greatest score.
\<close>

definition selected :: "('m \<Rightarrow> real) \<Rightarrow> 'm dict \<Rightarrow> string \<Rightarrow> 'm \<Rightarrow> bool" where
  "selected key results name m \<longleftrightarrow>
     (\<exists>i. first_max key (dict_values results) i \<and> results ! i = (name, m))"

text \<open>
  The part of a training function before the candidate loop: the features used and the
  four partitions that \<open>train_test_split\<close> returns, or nothing when the function returns
  \<open>{}\<close> early.  The lemmas \<open>forecasting_outcome_partitions\<close> and
  \<open>classification_outcome_partitions\<close> show that the loop runs on these.
\<close>

definition forecasting_partitions ::
  "train_config \<Rightarrow> 'est sklearn \<Rightarrow> table \<Rightarrow>
   error + (string list \<times> table \<times> table \<times> column \<times> column) option" where
  "forecasting_partitions cfg sk df =
     (if df_empty df \<or> nrows df < min_rows cfg then Inr None
      else
        let available_features = filter (\<lambda>c. c \<in> set (dict_keys df)) (feature_cols cfg) in
        if length available_features < min_features cfg then Inr None
        else
          ebind (getcol df (source_col cfg)) (\<lambda>src.
          let df_model = dropna (dict_set df (target_col cfg) (shift_back_col src)) in
          if nrows df_model < min_rows cfg then Inr None
          else
            ebind (select_cols df_model available_features) (\<lambda>X.
            ebind (getcol df_model (target_col cfg)) (\<lambda>y.
            ebind (train_test_split sk X y (1 / 5) 42 False) (\<lambda>(X_train, X_test, y_train, y_test).
              Inr (Some (available_features, X_train, X_test, y_train, y_test)))))))"

definition classification_partitions ::
  "'est sklearn \<Rightarrow> table \<Rightarrow> error + (string list \<times> table \<times> table \<times> column \<times> column) option" where
  "classification_partitions sk df =
     (if df_empty df \<or> nrows df < 10 then Inr None
      else
        let available_features = filter (\<lambda>c. c \<in> set (dict_keys df)) weather_feature_cols in
        if length available_features < 3 then Inr None
        else
          ebind (getnum df ''temperature'') (\<lambda>t.
          let df_model = dropna (dict_set df ''weather_category''
                (cut [NInf, Fin 0, Fin 15, Fin 25, PInf] [''Cold'', ''Cool'', ''Warm'', ''Hot''] t)) in
          if nrows df_model < 10 then Inr None
          else
            ebind (select_cols df_model available_features) (\<lambda>X.
            ebind (getcol df_model ''weather_category'') (\<lambda>y.
            ebind (train_test_split sk X y (1 / 5) 42 True) (\<lambda>(X_train, X_test, y_train, y_test).
              Inr (Some (available_features, X_train, X_test, y_train, y_test)))))))"

text \<open>
  The candidates whose evaluation does not raise, in the order they are written, each with
  its metrics.
\<close>

definition survivors :: "('c \<Rightarrow> error + ('est \<times> 'm)) \<Rightarrow> (string \<times> 'c) list \<Rightarrow> 'm dict" where
  "survivors ev cs =
     concat (map (\<lambda>(name, model). case ev model of Inl e \<Rightarrow> [] | Inr (est, m) \<Rightarrow> [(name, m)]) cs)"

text \<open>
  What a caller can observe of a training call: the returned result dictionary and, when it
  is not empty, the name, features and performance recorded under the model's key and the
  estimator stored there.
\<close>

definition observed ::
  "string \<Rightarrow> error + ('est ml_models \<times> 'm dict) \<Rightarrow>
   error + ('m dict \<times> (string \<times> string list \<times> performance) option \<times> 'est option)" where
  "observed key run =
     (case run of
        Inl e \<Rightarrow> Inl e
      | Inr (st, results) \<Rightarrow>
          Inr (results,
               if results = [] then None
               else map_option (\<lambda>md. (best_model md, features md, performance md))
                      (dict_get (model_metadata st) key),
               if results = [] then None else dict_get (models st) key))"

subsection \<open>A concrete library for the examples\<close>

text \<open>
  The two regression metrics as scikit-learn computes them on finite float columns of one
  length: the mean of the squared residuals, and one minus the residual sum of squares
  over the total sum of squares (1 or 0 when the target is constant).
\<close>

fun the_fin :: "fl \<Rightarrow> real" where
  "the_fin (Fin a) = a"
| "the_fin _ = 0"

fun is_fin :: "fl \<Rightarrow> bool" where
  "is_fin (Fin a) = True"
| "is_fin _ = False"

definition finite_pair :: "column \<Rightarrow> column \<Rightarrow> (real list \<times> real list) option" where
  "finite_pair y p =
     (case (y, p) of
        (NumCol ys, NumCol ps) \<Rightarrow>
          (if length ys = length ps \<and> ys \<noteq> [] \<and> list_all is_fin (ys @ ps)
           then Some (map the_fin ys, map the_fin ps) else None)
      | _ \<Rightarrow> None)"

definition ss_res :: "real list \<Rightarrow> real list \<Rightarrow> real" where
  "ss_res ys ps = sum_list (map2 (\<lambda>y p. (y - p)\<^sup>2) ys ps)"

definition ss_tot :: "real list \<Rightarrow> real" where
  "ss_tot ys = sum_list (map (\<lambda>y. (y - sum_list ys / real (length ys))\<^sup>2) ys)"

definition sk_mean_squared_error :: "column \<Rightarrow> column \<Rightarrow> error + real" where
  "sk_mean_squared_error y p =
     (case finite_pair y p of
        None \<Rightarrow> Inl (ValueError ''Input contains NaN or inconsistent numbers of samples'')
      | Some (ys, ps) \<Rightarrow> Inr (ss_res ys ps / real (length ys)))"

definition sk_r2_score :: "column \<Rightarrow> column \<Rightarrow> error + real" where
  "sk_r2_score y p =
     (case finite_pair y p of
        None \<Rightarrow> Inl (ValueError ''Input contains NaN or inconsistent numbers of samples'')
      | Some (ys, ps) \<Rightarrow>
          Inr (if ss_tot ys = 0 then (if ss_res ys ps = 0 then 1 else 0)
               else 1 - ss_res ys ps / ss_tot ys))"

text \<open>
  A library whose estimators predict one constant each (3 for the random forest, 2 for the
  linear regression; every other estimator fails to fit), and which holds out the first
  two rows; the same library with every fit failing; and a library whose estimators reject
  the rows they are given.
\<close>

definition constant_predictors :: "real sklearn" where
  "constant_predictors =
     \<lparr>train_test_split = (\<lambda>X y test_size random_state stratify.
        let test = map (\<lambda>i. i < 2) [0..<nrows X]
        in Inr (filter_rows (map Not test) X, filter_rows test X,
                filter_col (map Not test) y, filter_col test y)),
      fit = (\<lambda>model X y.
        case model of
          RandomForestRegressor n s \<Rightarrow> Inr 3
        | LinearRegression \<Rightarrow> Inr 2
        | _ \<Rightarrow> Inl (LibraryError ''fit failed'')),
      predict = (\<lambda>est X. Inr (NumCol (replicate (nrows X) (Fin est)))),
      mean_squared_error = sk_mean_squared_error,
      r2_score = sk_r2_score,
      accuracy_score = (\<lambda>y_true y_pred. Inl (ValueError ''not a classification'')),
      classification_report = (\<lambda>y_true y_pred. Inl (ValueError ''not a classification'')),
      feature_importances = (\<lambda>est. None)\<rparr>"

definition failing_fit :: "real sklearn" where
  "failing_fit = constant_predictors\<lparr>fit := (\<lambda>model X y. Inl (LibraryError ''fit failed''))\<rparr>"

definition rejecting_sklearn :: "unit sklearn" where
  "rejecting_sklearn =
     \<lparr>train_test_split = (\<lambda>X y test_size random_state stratify. Inl (ValueError ''not called'')),
      fit = (\<lambda>model X y. Inr ()),
      predict = (\<lambda>est X.
        Inl (ValueError ''X has 1 features, but LinearRegression is expecting 2 features as input'')),
      mean_squared_error = (\<lambda>y_true y_pred. Inr 0),
      r2_score = (\<lambda>y_true y_pred. Inr 0),
      accuracy_score = (\<lambda>y_true y_pred. Inr 0),
      classification_report = (\<lambda>y_true y_pred. Inr []),
      feature_importances = (\<lambda>est. None)\<rparr>"

text \<open>
  Eleven days of counts, and the partitions the library above makes of them once the
  target column is added and the last day dropped.
\<close>

definition covid_sample :: table where
  "covid_sample =
     [(''cases'', NumCol [Fin 5, Fin 1, Fin 1, Fin 2, Fin 3, Fin 4, Fin 5, Fin 6, Fin 7, Fin 8, Fin 9]),
      (''deaths'', NumCol [Fin 0, Fin 0, Fin 0, Fin 0, Fin 1, Fin 1, Fin 1, Fin 1, Fin 2, Fin 2, Fin 2]),
      (''month'', NumCol [Fin 1, Fin 1, Fin 1, Fin 1, Fin 1, Fin 1, Fin 1, Fin 1, Fin 1, Fin 1, Fin 1])]"

definition covid_train_X :: table where
  "covid_train_X =
     [(''cases'', NumCol [Fin 1, Fin 2, Fin 3, Fin 4, Fin 5, Fin 6, Fin 7, Fin 8]),
      (''deaths'', NumCol [Fin 0, Fin 0, Fin 1, Fin 1, Fin 1, Fin 1, Fin 2, Fin 2]),
      (''month'', NumCol [Fin 1, Fin 1, Fin 1, Fin 1, Fin 1, Fin 1, Fin 1, Fin 1])]"

definition covid_test_X :: table where
  "covid_test_X =
     [(''cases'', NumCol [Fin 5, Fin 1]), (''deaths'', NumCol [Fin 0, Fin 0]),
      (''month'', NumCol [Fin 1, Fin 1])]"

definition covid_train_y :: column where
  "covid_train_y = NumCol [Fin 2, Fin 3, Fin 4, Fin 5, Fin 6, Fin 7, Fin 8, Fin 9]"

definition covid_test_y :: column where
  "covid_test_y = NumCol [Fin 1, Fin 1]"

section \<open>The pipeline: \<open>etl/main.py\<close>\<close>

text \<open>
  \<open>str(e)\<close>: a \<open>KeyError\<close> prints the key quoted, the other exceptions their message.
\<close>

fun str_error :: "error \<Rightarrow> string" where
  "str_error (KeyError k) = CHR 0x27 # k @ [CHR 0x27]"
| "str_error (TypeError m) = m"
| "str_error (AttributeError m) = m"
| "str_error (ValueError m) = m"
| "str_error (LibraryError m) = m"

text \<open>
  The clock, read as \<open>isoformat()\<close> and through the two \<open>strftime\<close> patterns; the model
  takes one reading for the whole run.
\<close>

record clock =
  isoformat :: string
  ymd :: string
  ymd_hms :: string

record source_record =
  records :: nat
  columns :: "string list"
  collected_at :: string

text \<open>
  The dictionary \<open>pipeline_results\<close>; the key \<open>insights\<close> is absent until step 5 sets it.
\<close>

record 'i pipeline_results =
  timestamp :: string
  status :: string
  data_sources :: "source_record dict"
  models_trained :: "performance dict"
  errors :: "string list"
  insights :: "'i option"

text \<open>
  What the run reaches outside the three modules: the collector, the files it writes, and
  the summary step \<open>generate_insights\<close>, each with the exception it may raise.  The
  properties below hold for every such environment.
\<close>

record ('est, 'i) env =
  collect_all_data :: "error + table dict"
  to_csv :: "table \<Rightarrow> string \<Rightarrow> error + unit"
  save_models :: "'est ml_models \<Rightarrow> string \<Rightarrow> error + unit"
  generate_insights :: "table dict \<Rightarrow> error + 'i"
  dump_results :: "'i pipeline_results \<Rightarrow> string \<Rightarrow> error + unit"

text \<open>Step 1's loop: one record per source, and the raw table written when it has rows.\<close>

fun save_raw ::
  "('est, 'i) env \<Rightarrow> clock \<Rightarrow> table dict \<Rightarrow> source_record dict \<Rightarrow>
   source_record dict \<times> error option" where
  "save_raw io clk [] ds = (ds, None)"
| "save_raw io clk ((source_name, df) # rest) ds =
     (let ds1 = dict_set ds source_name
            \<lparr>records = nrows df, columns = dict_keys df, collected_at = isoformat clk\<rparr>
      in if df_empty df then save_raw io clk rest ds1
         else case to_csv io df (''../data/raw_'' @ source_name @ ''_'' @ ymd clk @ ''.csv'') of
                Inl e \<Rightarrow> (ds1, Some e)
              | Inr u \<Rightarrow> save_raw io clk rest ds1)"

text \<open>Step 2's loop over the processed tables.\<close>

fun save_processed :: "('est, 'i) env \<Rightarrow> clock \<Rightarrow> table dict \<Rightarrow> error + unit" where
  "save_processed io clk [] = Inr ()"
| "save_processed io clk ((source_name, df) # rest) =
     (if df_empty df then save_processed io clk rest
      else case to_csv io df (''../data/processed_'' @ source_name @ ''_'' @ ymd clk @ ''.csv'') of
             Inl e \<Rightarrow> Inl e
           | Inr u \<Rightarrow> save_processed io clk rest)"

text \<open>Step 3's loop: a result dictionary is recorded when it is not empty.\<close>

fun truthy :: "performance \<Rightarrow> bool" where
  "truthy (RegPerf r) = (r \<noteq> [])"
| "truthy (ClsPerf r) = (r \<noteq> [])"

fun record_models :: "performance dict \<Rightarrow> performance dict \<Rightarrow> performance dict" where
  "record_models [] mt = mt"
| "record_models ((model_name, results) # rest) mt =
     record_models rest (if truthy results then dict_set mt model_name results else mt)"

text \<open>
  The body of the \<open>try\<close> block: the processor, the trainer and the results as they stand
  when the block is left, and the exception that left it, if any.  No step has a handler
  of its own.
\<close>

definition pipeline_steps ::
  "('est, 'i) env \<Rightarrow> clock \<Rightarrow> 'est sklearn \<Rightarrow> 'sk processor \<Rightarrow> 'est ml_models \<Rightarrow>
   'i pipeline_results \<Rightarrow> 'sk processor \<times> 'est ml_models \<times> 'i pipeline_results \<times> error option" where
  "pipeline_steps io clk sk st ml res =
     (case collect_all_data io of
        Inl e \<Rightarrow> (st, ml, res, Some e)
      | Inr raw_data \<Rightarrow>
     (case save_raw io clk raw_data (data_sources res) of
        (ds, Some e) \<Rightarrow> (st, ml, res\<lparr>data_sources := ds\<rparr>, Some e)
      | (ds, None) \<Rightarrow>
     (let res1 = res\<lparr>data_sources := ds\<rparr> in
      case process_all_data st raw_data of
        (st1, Inl e) \<Rightarrow> (st1, ml, res1, Some e)
      | (st1, Inr processed_data) \<Rightarrow>
     (case save_processed io clk processed_data of
        Inl e \<Rightarrow> (st1, ml, res1, Some e)
      | Inr u \<Rightarrow>
     (case train_all_models sk (isoformat clk) ml processed_data of
        (ml1, Inl e) \<Rightarrow> (st1, ml1, res1, Some e)
      | (ml1, Inr model_results) \<Rightarrow>
     (let res2 = res1\<lparr>models_trained := record_models model_results (models_trained res1)\<rparr> in
      case (if models ml1 \<noteq> []
            then save_models io ml1 (''../models/trained_models_'' @ ymd clk @ ''.joblib'')
            else Inr ()) of
        Inl e \<Rightarrow> (st1, ml1, res2, Some e)
      | Inr u \<Rightarrow>
     (case generate_insights io processed_data of
        Inl e \<Rightarrow> (st1, ml1, res2, Some e)
      | Inr ins \<Rightarrow>
     (let res3 = res2\<lparr>insights := Some ins\<rparr> in
      case dump_results io res3 (''../data/pipeline_results_'' @ ymd_hms clk @ ''.json'') of
        Inl e \<Rightarrow> (st1, ml1, res3, Some e)
      | Inr u \<Rightarrow> (st1, ml1, res3, None)))))))))"

text \<open>
  \<open>ETLPipeline.run_full_pipeline\<close>: the one handler of the run marks it failed and
  appends the exception's text to \<open>errors\<close>.
\<close>

definition initial_results :: "clock \<Rightarrow> 'i pipeline_results" where
  "initial_results clk =
     \<lparr>timestamp = isoformat clk, status = ''completed'', data_sources = [],
      models_trained = [], errors = [], insights = None\<rparr>"

definition run_full_pipeline ::
  "('est, 'i) env \<Rightarrow> clock \<Rightarrow> 'est sklearn \<Rightarrow> 'sk processor \<Rightarrow> 'est ml_models \<Rightarrow>
   'sk processor \<times> 'est ml_models \<times> 'i pipeline_results" where
  "run_full_pipeline io clk sk st ml =
     (case pipeline_steps io clk sk st ml (initial_results clk) of
        (st1, ml1, res, None) \<Rightarrow> (st1, ml1, res)
      | (st1, ml1, res, Some e) \<Rightarrow>
          (st1, ml1, res\<lparr>status := ''failed'', errors := errors res @ [str_error e]\<rparr>))"

subsection \<open>Notions used to state the pipeline's properties\<close>

text \<open>
  The cleaner that a source's name selects in \<open>process_all_data\<close>, with the processor it
  leaves; a name that is none of the four selects no cleaner.
\<close>

definition cleaner ::
  "'sk processor \<Rightarrow> string \<Rightarrow> table \<Rightarrow> (error + 'sk processor \<times> table) option" where
  "cleaner st source_name df =
     (if source_name = ''covid'' then Some (ebind (clean_covid_data df) (\<lambda>t. Inr (st, t)))
      else if source_name = ''weather'' then Some (clean_weather_data st df)
      else if source_name = ''stock'' then Some (ebind (clean_stock_data df) (\<lambda>t. Inr (st, t)))
      else if source_name = ''public'' then Some (ebind (clean_public_data df) (\<lambda>t. Inr (st, t)))
      else None)"


subsection \<open>A concrete environment for the examples\<close>

text \<open>
  An environment for the examples: the collector returns the given tables, every write
  succeeds, and the summary lists the sources that were processed.
\<close>

definition quiet_env :: "table dict \<Rightarrow> (unit, string list) env" where
  "quiet_env raw =
     \<lparr>collect_all_data = Inr raw,
      to_csv = (\<lambda>df path. Inr ()),
      save_models = (\<lambda>ml path. Inr ()),
      generate_insights = (\<lambda>processed_data. Inr (dict_keys processed_data)),
      dump_results = (\<lambda>res path. Inr ())\<rparr>"

definition noon :: clock where
  "noon = \<lparr>isoformat = ''2024-01-01T12:00:00'', ymd = ''20240101'', ymd_hms = ''20240101_120000''\<rparr>"

text \<open>Ten days of counts without the \<open>cases\<close> column, and one scraped country.\<close>

definition counts_without_cases :: table where
  "counts_without_cases =
     [(''deaths'', NumCol [Fin 0, Fin 0, Fin 0, Fin 0, Fin 1, Fin 1, Fin 1, Fin 1, Fin 2, Fin 2]),
      (''recovered'', NumCol [Fin 0, Fin 1, Fin 1, Fin 2, Fin 2, Fin 3, Fin 3, Fin 4, Fin 4, Fin 5]),
      (''month'', NumCol [Fin 1, Fin 1, Fin 1, Fin 1, Fin 1, Fin 1, Fin 1, Fin 1, Fin 1, Fin 1])]"

definition population_sample :: table where
  "population_sample =
     [(''country'', ObjCol [PStr ''India'']), (''population'', NumCol [Fin 1400000000])]"

text \<open>
  A library whose split raises; ten weather readings at noon of one day, and the table
  that cleaning and featurizing make of them; counts without a \<open>date\<close> column; prices
  without \<open>close\<close> and readings without \<open>temperature\<close>, long enough to be trained on.
\<close>

definition failing_split :: "unit sklearn" where
  "failing_split =
     rejecting_sklearn\<lparr>train_test_split := (\<lambda>X y test_size random_state stratify.
        Inl (ValueError ''The least populated class in y has only 1 member''))\<rparr>"

definition new_year_noon :: timestamp where
  "new_year_noon =
     \<lparr>epoch = 1704110400000000000, hour = 12, dayofweek = 0, dayofyear = 1, isoweek = 1,
      month = 1, quarter = 1\<rparr>"

definition weather_sample :: table where
  "weather_sample =
     [(''temperature'',
       NumCol [Fin 20, Fin 20, Fin 20, Fin 20, Fin 20, Fin 20, Fin 20, Fin 20, Fin 20, Fin 20]),
      (''datetime'',
       TimeCol [Some new_year_noon, Some new_year_noon, Some new_year_noon, Some new_year_noon,
                Some new_year_noon, Some new_year_noon, Some new_year_noon, Some new_year_noon,
                Some new_year_noon, Some new_year_noon])]"

definition weather_processed :: table where
  "weather_processed =
     [(''temperature'',
       NumCol [Fin 20, Fin 20, Fin 20, Fin 20, Fin 20, Fin 20, Fin 20, Fin 20, Fin 20, Fin 20]),
      (''datetime'',
       TimeCol [Some new_year_noon, Some new_year_noon, Some new_year_noon, Some new_year_noon,
                Some new_year_noon, Some new_year_noon, Some new_year_noon, Some new_year_noon,
                Some new_year_noon, Some new_year_noon]),
      (''temp_fahrenheit'',
       NumCol [Fin 68, Fin 68, Fin 68, Fin 68, Fin 68, Fin 68, Fin 68, Fin 68, Fin 68, Fin 68]),
      (''feels_like'',
       NumCol [Fin 20, Fin 20, Fin 20, Fin 20, Fin 20, Fin 20, Fin 20, Fin 20, Fin 20, Fin 20]),
      (''hour'',
       NumCol [Fin 12, Fin 12, Fin 12, Fin 12, Fin 12, Fin 12, Fin 12, Fin 12, Fin 12, Fin 12]),
      (''day_of_week'',
       NumCol [Fin 0, Fin 0, Fin 0, Fin 0, Fin 0, Fin 0, Fin 0, Fin 0, Fin 0, Fin 0]),
      (''month'',
       NumCol [Fin 1, Fin 1, Fin 1, Fin 1, Fin 1, Fin 1, Fin 1, Fin 1, Fin 1, Fin 1]),
      (''is_summer'',
       NumCol [Fin 0, Fin 0, Fin 0, Fin 0, Fin 0, Fin 0, Fin 0, Fin 0, Fin 0, Fin 0]),
      (''is_winter'',
       NumCol [Fin 1, Fin 1, Fin 1, Fin 1, Fin 1, Fin 1, Fin 1, Fin 1, Fin 1, Fin 1]),
      (''is_weekend'',
       NumCol [Fin 0, Fin 0, Fin 0, Fin 0, Fin 0, Fin 0, Fin 0, Fin 0, Fin 0, Fin 0]),
      (''temp_category'',
       CatCol [Some ''Mild'', Some ''Mild'', Some ''Mild'', Some ''Mild'', Some ''Mild'',
               Some ''Mild'', Some ''Mild'', Some ''Mild'', Some ''Mild'', Some ''Mild''])]"


definition counts_without_date :: table where
  "counts_without_date =
     [(''cases'', NumCol [Fin 4]), (''deaths'', NumCol [Fin 2]), (''recovered'', NumCol [Fin 1])]"

definition prices_without_close :: table where
  "prices_without_close =
     [(''open'', NumCol (replicate 20 (Fin 10))), (''high'', NumCol (replicate 20 (Fin 11))),
      (''low'', NumCol (replicate 20 (Fin 9))), (''volume'', NumCol (replicate 20 (Fin 100))),
      (''month'', NumCol (replicate 20 (Fin 1)))]"

definition readings_without_temperature :: table where
  "readings_without_temperature =
     [(''humidity'', NumCol (replicate 10 (Fin 50))), (''pressure'', NumCol (replicate 10 (Fin 1000))),
      (''wind_speed'', NumCol (replicate 10 (Fin 3)))]"


section \<open>Properties of the model\<close>

subsection \<open>Dictionaries and the error monad\<close>

lemma ebind_Inr_iff: "ebind m f = Inr y \<longleftrightarrow> (\<exists>x. m = Inr x \<and> f x = Inr y)"
  by (cases m) (simp_all add: ebind_def)

lemma ebind_Inl_iff: "ebind m f = Inl e \<longleftrightarrow> (m = Inl e \<or> (\<exists>x. m = Inr x \<and> f x = Inl e))"
  by (cases m) (simp_all add: ebind_def)

lemma dict_get_dict_set: "dict_get (dict_set d k v) k' = (if k' = k then Some v else dict_get d k')"
  by (induction d k v rule: dict_set.induct) (auto simp: dict_get_def)

lemma dict_keys_dict_set: "set (dict_keys (dict_set d k v)) = insert k (set (dict_keys d))"
  by (induction d k v rule: dict_set.induct) (auto simp: dict_keys_def)

lemma getcol_dict_set: "getcol (dict_set d k v) k' = (if k' = k then Inr v else getcol d k')"
  by (simp add: getcol_def dict_get_dict_set)

lemma getnum_setnum: "getnum (setnum d k xs) k' = (if k' = k then Inr xs else getnum d k')"
  by (simp add: getnum_def setnum_def getcol_dict_set ebind_def)

lemma mem_keys_iff: "k \<in> set (dict_keys d) \<longleftrightarrow> dict_get d k \<noteq> None"
  by (simp add: dict_keys_def dict_get_def map_of_eq_None_iff)


subsection \<open>Cleaning of the counts domain\<close>

lemma clip0_idem: "clip0 (clip0 x) = clip0 x"
  by (cases x) (auto simp: clip0_def)

lemma clipc_idem: "clipc (clipc c) = clipc c"
  by (cases c) (simp_all add: clip0_idem)

lemma clip_lower0_Inr: "clip_lower0 c = Inr c' \<Longrightarrow> c' = clipc c"
  by (cases c) (auto simp: clip_lower0_def ebind_def)

lemma clip_cols_get:
  "clip_cols cs df = Inr df' \<Longrightarrow>
   dict_get df' k = map_option (\<lambda>c. if k \<in> set cs then clipc c else c) (dict_get df k)"
proof (induction cs arbitrary: df)
  case Nil
  then show ?case by (simp add: option.map_ident)
next
  case (Cons c cs)
  show ?case
  proof (cases "c \<in> set (dict_keys df)")
    case False
    with Cons.prems have "clip_cols cs df = Inr df'" by simp
    from Cons.IH[OF this] False show ?thesis
      by (cases "k = c") (auto simp: mem_keys_iff)
  next
    case True
    with Cons.prems obtain col col' where
      g: "getcol df c = Inr col" and cl: "clip_lower0 col = Inr col'"
      and r: "clip_cols cs (dict_set df c col') = Inr df'"
      by (auto simp: ebind_Inr_iff)
    from g have dg: "dict_get df c = Some col"
      by (auto simp: getcol_def split: option.splits)
    from cl have col': "col' = clipc col" by (rule clip_lower0_Inr)
    from Cons.IH[OF r] dg col' show ?thesis
      by (auto simp: dict_get_dict_set clipc_idem split: option.splits)
  qed
qed

lemma emap_fillna_get:
  "emap (\<lambda>(name, c). ebind (fillna0_col c) (\<lambda>c'. Inr (name, c'))) df = Inr df1 \<Longrightarrow>
   dict_get df1 k = Some c' \<Longrightarrow> \<exists>c. dict_get df k = Some c \<and> fillna0_col c = Inr c'"
proof (induction df arbitrary: df1)
  case Nil
  then show ?case by (simp add: dict_get_def)
next
  case (Cons p df)
  obtain name c where p: "p = (name, c)" by (cases p)
  from Cons.prems(1) p obtain c1 rest where
    c1: "fillna0_col c = Inr c1" and rest: "emap (\<lambda>(name, c). ebind (fillna0_col c) (\<lambda>c'. Inr (name, c'))) df = Inr rest"
    and df1: "df1 = (name, c1) # rest"
    by (auto simp: ebind_Inr_iff)
  show ?case
  proof (cases "k = name")
    case True
    with Cons.prems(2) df1 c1 p show ?thesis by (simp add: dict_get_def)
  next
    case False
    with Cons.prems(2) df1 have "dict_get rest k = Some c'" by (simp add: dict_get_def)
    from Cons.IH[OF rest this] False p show ?thesis by (simp add: dict_get_def)
  qed
qed

lemma fillna0_get:
  "fillna0 df = Inr df1 \<Longrightarrow> dict_get df1 k = Some c' \<Longrightarrow>
   \<exists>c. dict_get df k = Some c \<and> fillna0_col c = Inr c'"
  unfolding fillna0_def by (rule emap_fillna_get)

lemma fillna0_col_NumCol:
  "fillna0_col c = Inr (NumCol xs) \<Longrightarrow> NaN \<notin> set xs"
  by (cases c) (auto split: if_splits)


lemma clip0_nonneg: "x \<noteq> NaN \<Longrightarrow> nonneg (clip0 x)"
  by (cases x) (auto simp: clip0_def)

lemma getnum_Some: "getnum df k = Inr xs \<longleftrightarrow> dict_get df k = Some (NumCol xs)"
  apply (auto simp: getnum_def getcol_def ebind_def split: option.splits sum.splits)
  subgoal for c by (cases c) auto
  done

lemma cleaned_nonneg:
  assumes f: "fillna0 df = Inr df1" and c: "clip_cols cs df1 = Inr df2"
    and k: "k \<in> set cs" and g: "getnum df2 k = Inr xs"
  shows "\<forall>x\<in>set xs. nonneg x"
proof -
  from g have "dict_get df2 k = Some (NumCol xs)" by (simp add: getnum_Some)
  with clip_cols_get[OF c, of k] k have "map_option clipc (dict_get df1 k) = Some (NumCol xs)"
    by simp
  then obtain c1 where
    c1: "dict_get df1 k = Some c1" and x: "NumCol xs = clipc c1" by (cases "dict_get df1 k") auto
  from x obtain ys where ys: "c1 = NumCol ys" "xs = map clip0 ys" by (cases c1) auto
  from fillna0_get[OF f c1] ys obtain c0 where "fillna0_col c0 = Inr (NumCol ys)" by auto
  then have "NaN \<notin> set ys" by (rule fillna0_col_NumCol)
  with ys show ?thesis by (auto intro!: clip0_nonneg)
qed

lemma rate_col_Inr:
  "rate_col df num den = Inr r \<Longrightarrow>
   \<exists>n d. getnum df num = Inr n \<and> getnum df den = Inr d \<and> r = map2 spec_rate n d"
  apply (auto simp: rate_col_def ebind_Inr_iff np_where_def)
  apply (rule nth_equalityI)
   apply (simp_all add: spec_rate_def)
  done

lemma spec_rate_Fin:
  "0 < d \<Longrightarrow> spec_rate (Fin n) (Fin d) = Fin (n / d * 100)"
  by (simp add: spec_rate_def fgt_def)

lemma spec_rate_zero: "spec_rate n (Fin 0) = Fin 0"
  by (simp add: spec_rate_def fgt_def)

text \<open>
  C4 (as amended).  On a table that is not empty and that \<open>clean_covid_data\<close> accepts,
  the output holds the cleaned counts, none of them negative or missing, and each rate
  column is the specification's rate of its numerator and denominator, row by row.  That
  rate is exactly 0 when the denominator is 0; for a finite numerator and a positive
  finite denominator it is numerator / denominator * 100, which is never negative and is
  at most 100 exactly when the numerator does not exceed the denominator.  The code puts
  no upper bound on a rate: deaths above cases give a rate above 100.
\<close>

theorem clean_covid_data_rates:
  assumes ok: "clean_covid_data df = Inr out" and ne: "\<not> df_empty df"
  shows "\<exists>cases deaths recovered.
           getnum out ''cases'' = Inr cases \<and> getnum out ''deaths'' = Inr deaths \<and>
           getnum out ''recovered'' = Inr recovered \<and>
           getnum out ''case_fatality_rate'' = Inr (map2 spec_rate deaths cases) \<and>
           getnum out ''recovery_rate'' = Inr (map2 spec_rate recovered cases) \<and>
           (\<forall>x \<in> set cases \<union> set deaths \<union> set recovered. nonneg x) \<and>
           (\<forall>n. spec_rate n (Fin 0) = Fin 0) \<and>
           (\<forall>n d. 0 \<le> n \<and> 0 < d \<longrightarrow>
              spec_rate (Fin n) (Fin d) = Fin (n / d * 100) \<and> 0 \<le> n / d * 100 \<and>
              (n / d * 100 \<le> 100 \<longleftrightarrow> n \<le> d))"
proof -
  from ok ne have "\<exists>df1 df2 cfr rr.
    fillna0 df = Inr df1 \<and> clip_cols covid_numeric_cols df1 = Inr df2
    \<and> rate_col df2 ''deaths'' ''cases'' = Inr cfr
    \<and> rate_col (setnum df2 ''case_fatality_rate'' cfr) ''recovered'' ''cases'' = Inr rr
    \<and> (\<exists>a b a' b'. out = setnum (setnum (setnum (setnum (setnum (setnum df2
        ''case_fatality_rate'' cfr) ''recovery_rate'' rr) ''cases_7d_avg'' a) ''deaths_7d_avg'' b)
        ''cases_growth_rate'' a') ''deaths_growth_rate'' b')"
    unfolding clean_covid_data_def by (simp add: ebind_Inr_iff Let_def) blast
  then obtain df1 df2 cfr rr where
    f: "fillna0 df = Inr df1" and c: "clip_cols covid_numeric_cols df1 = Inr df2"
    and cfr: "rate_col df2 ''deaths'' ''cases'' = Inr cfr"
    and rr: "rate_col (setnum df2 ''case_fatality_rate'' cfr) ''recovered'' ''cases'' = Inr rr"
    and out: "\<exists>a b a' b'. out = setnum (setnum (setnum (setnum (setnum (setnum df2
        ''case_fatality_rate'' cfr) ''recovery_rate'' rr) ''cases_7d_avg'' a) ''deaths_7d_avg'' b)
        ''cases_growth_rate'' a') ''deaths_growth_rate'' b'"
    by blast
  from rate_col_Inr[OF cfr] obtain deaths cases where
    d: "getnum df2 ''deaths'' = Inr deaths" and cs: "getnum df2 ''cases'' = Inr cases"
    and cfr_eq: "cfr = map2 spec_rate deaths cases" by auto
  from rate_col_Inr[OF rr] cs obtain recovered where
    r: "getnum df2 ''recovered'' = Inr recovered" and rr_eq: "rr = map2 spec_rate recovered cases"
    by (auto simp: getnum_setnum)
  have nn: "\<forall>x \<in> set cases \<union> set deaths \<union> set recovered. nonneg x"
    using cleaned_nonneg[OF f c _ cs] cleaned_nonneg[OF f c _ d] cleaned_nonneg[OF f c _ r]
    by (auto simp: covid_numeric_cols_def)
  have arith: "\<forall>n d::real. 0 \<le> n \<and> 0 < d \<longrightarrow>
              spec_rate (Fin n) (Fin d) = Fin (n / d * 100) \<and> 0 \<le> n / d * 100 \<and>
              (n / d * 100 \<le> 100 \<longleftrightarrow> n \<le> d)"
    by (auto simp: spec_rate_Fin divide_le_eq)
  from out obtain a b a' b' where out': "out = setnum (setnum (setnum (setnum (setnum (setnum df2
        ''case_fatality_rate'' cfr) ''recovery_rate'' rr) ''cases_7d_avg'' a) ''deaths_7d_avg'' b)
        ''cases_growth_rate'' a') ''deaths_growth_rate'' b'" by blast
  show ?thesis
    apply (rule exI[of _ cases], rule exI[of _ deaths], rule exI[of _ recovered])
    using d cs r cfr_eq rr_eq nn arith
    by (simp add: out' getnum_setnum spec_rate_zero)
qed


lemmas covid_eval =
  clean_covid_data_def df_empty_def nrows_def fillna0_def ebind_def covid_numeric_cols_def
  dict_keys_def getcol_def dict_get_def clip_lower0_def clip0_def rate_col_def getnum_def
  setnum_def np_where_def fgt_def Let_def rolling_mean_def rolling_def pct_change_def
  ffill_def shift_def fsub_def

theorem clean_covid_data_rates_witness:
  "clean_covid_data
     [(''cases'', NumCol [Fin 4, Fin 0]), (''deaths'', NumCol [Fin 2, Fin 0]),
      (''recovered'', NumCol [Fin 1, NaN])] =
   Inr [(''cases'', NumCol [Fin 4, Fin 0]), (''deaths'', NumCol [Fin 2, Fin 0]),
        (''recovered'', NumCol [Fin 1, Fin 0]),
        (''case_fatality_rate'', NumCol [Fin 50, Fin 0]),
        (''recovery_rate'', NumCol [Fin 25, Fin 0]),
        (''cases_7d_avg'', NumCol [NaN, NaN]), (''deaths_7d_avg'', NumCol [NaN, NaN]),
        (''cases_growth_rate'', NumCol [NaN, Fin (- 1)]),
        (''deaths_growth_rate'', NumCol [NaN, Fin (- 1)])] \<and>
   map2 spec_rate [Fin 2, Fin 0] [Fin 4, Fin 0] = [Fin 50, Fin 0] \<and>
   map2 spec_rate [Fin 1, Fin 0] [Fin 4, Fin 0] = [Fin 25, Fin 0]"
  (is "?run = Inr ?out \<and> ?a \<and> ?b")
proof -
  have run: "?run = Inr ?out"
    by (simp add: covid_eval)
  have ne: "\<not> df_empty [(''cases'', NumCol [Fin 4, Fin 0]), (''deaths'', NumCol [Fin 2, Fin 0]),
      (''recovered'', NumCol [Fin 1, NaN])]"
    by (simp add: df_empty_def nrows_def)
  from clean_covid_data_rates[OF run ne] obtain cases deaths recovered where
    "getnum ?out ''cases'' = Inr cases" "getnum ?out ''deaths'' = Inr deaths"
    "getnum ?out ''recovered'' = Inr recovered"
    "getnum ?out ''case_fatality_rate'' = Inr (map2 spec_rate deaths cases)"
    "getnum ?out ''recovery_rate'' = Inr (map2 spec_rate recovered cases)"
    by blast
  then have "?a \<and> ?b"
    by (simp add: getnum_def getcol_def dict_get_def ebind_def)
  with run show ?thesis by blast
qed

text \<open>
  C4 as stated fails: one case and five deaths, a positive denominator, give a case
  fatality rate of 500, outside [0, 100].
\<close>

theorem clean_covid_data_rate_above_100:
  "clean_covid_data
     [(''cases'', NumCol [Fin 1]), (''deaths'', NumCol [Fin 5]), (''recovered'', NumCol [Fin 0])] =
   Inr [(''cases'', NumCol [Fin 1]), (''deaths'', NumCol [Fin 5]), (''recovered'', NumCol [Fin 0]),
        (''case_fatality_rate'', NumCol [Fin 500]), (''recovery_rate'', NumCol [Fin 0]),
        (''cases_7d_avg'', NumCol [NaN]), (''deaths_7d_avg'', NumCol [NaN]),
        (''cases_growth_rate'', NumCol [NaN]), (''deaths_growth_rate'', NumCol [NaN])] \<and>
   fgt (Fin 1) (Fin 0) \<and> \<not> fle (Fin 500) (Fin 100)"
  by (simp add: covid_eval fle_def)

subsection \<open>Regular frames\<close>

lemma uniform_dict_set:
  "uniform n d \<Longrightarrow> col_len c = n \<Longrightarrow> uniform n (dict_set d k c)"
  by (induction d k c rule: dict_set.induct) (auto simp: uniform_def)

lemma uniform_setnum: "uniform n d \<Longrightarrow> length xs = n \<Longrightarrow> uniform n (setnum d k xs)"
  by (simp add: setnum_def uniform_dict_set)

lemma uniform_get: "uniform n d \<Longrightarrow> dict_get d k = Some c \<Longrightarrow> col_len c = n"
  by (induction d) (auto simp: uniform_def dict_get_def split: if_splits)

lemma uniform_getnum: "uniform n d \<Longrightarrow> getnum d k = Inr xs \<Longrightarrow> length xs = n"
  using uniform_get[of n d k "NumCol xs"] by (simp add: getnum_Some)

lemma uniform_getcol: "uniform n d \<Longrightarrow> getcol d k = Inr c \<Longrightarrow> col_len c = n"
  using uniform_get[of n d k c] by (auto simp: getcol_def split: option.splits)

lemma distinct_dict_set: "distinct (dict_keys d) \<Longrightarrow> distinct (dict_keys (dict_set d k v))"
proof (induction d k v rule: dict_set.induct)
  case (1 k v)
  then show ?case by (simp add: dict_keys_def)
next
  case (2 k' v' d k v)
  have "set (map fst (dict_set d k v)) = insert k (fst ` set d)"
    using dict_keys_dict_set[of d k v] by (simp add: dict_keys_def)
  with 2 show ?case by (auto simp: dict_keys_def)
qed

lemma nrows_uniform: "uniform n d \<Longrightarrow> d \<noteq> [] \<Longrightarrow> nrows d = n"
  by (cases d) (auto simp: uniform_def nrows_def)

lemma wf_table_uniform: "wf_table d \<longleftrightarrow> distinct (dict_keys d) \<and> uniform (nrows d) d"
  by (simp add: wf_table_def uniform_def)

lemma dict_set_nonempty: "dict_set d k v \<noteq> []"
  by (cases d) (auto split: if_splits)

lemma length_sel: "length keep = length xs \<Longrightarrow> length (sel keep xs) = length (filter id keep)"
proof (induction keep arbitrary: xs)
  case Nil
  then show ?case by (simp add: sel_def)
next
  case (Cons b keep)
  then obtain y ys where "xs = y # ys" by (cases xs) auto
  with Cons show ?case by (auto simp: sel_def)
qed

lemma sel_map: "sel (map P xs) xs = filter P xs"
  by (induction xs) (auto simp: sel_def)

lemma col_len_filter_col:
  "col_len c = length keep \<Longrightarrow> col_len (filter_col keep c) = length (filter id keep)"
  by (cases c) (simp_all add: length_sel)

lemma uniform_filter_rows:
  "uniform n d \<Longrightarrow> length keep = n \<Longrightarrow> uniform (length (filter id keep)) (filter_rows keep d)"
  by (induction d) (auto simp: uniform_def filter_rows_def col_len_filter_col)

lemma dict_keys_filter_rows: "dict_keys (filter_rows keep d) = dict_keys d"
  by (induction d) (auto simp: filter_rows_def dict_keys_def)

lemma dict_get_filter_rows:
  "dict_get (filter_rows keep d) k = map_option (filter_col keep) (dict_get d k)"
  by (induction d) (auto simp: filter_rows_def dict_get_def)

lemma length_any_na: "length (any_na d) = nrows d"
  by (simp add: any_na_def)

lemma uniform_dropna:
  "uniform (nrows d) d \<Longrightarrow> uniform (length (filter id (map Not (any_na d)))) (dropna d)"
  unfolding dropna_def by (rule uniform_filter_rows) (simp_all add: length_any_na)

lemma length_rolling: "length (rolling n stat xs) = length xs"
  by (simp add: rolling_def)

lemma length_shift: "length (shift k xs) = length xs"
  by (simp add: shift_def)

lemma length_ewm: "length (ewm_mean s xs) = length xs"
  by (simp add: ewm_mean_def)

lemmas len_simps = length_rolling length_shift length_ewm rolling_mean_def rolling_std_def
  diff_def where0_def momentum_def

lemma extends_refl: "extends S d d"
  by (simp add: extends_def)

lemma extends_trans: "extends S d d' \<Longrightarrow> extends T d' d'' \<Longrightarrow> extends (S \<union> T) d d''"
  by (auto simp: extends_def)

lemma extends_mono: "extends S d d' \<Longrightarrow> S \<subseteq> T \<Longrightarrow> extends T d d'"
  by (auto simp: extends_def)

lemma extends_setnum:
  "(\<And>n. uniform n d \<Longrightarrow> length xs = n) \<Longrightarrow> extends {k} d (setnum d k xs)"
  by (auto simp: extends_def setnum_def dict_get_dict_set uniform_dict_set distinct_dict_set
      dict_set_nonempty)

lemma extends_dict_set:
  "(\<And>n. uniform n d \<Longrightarrow> col_len c = n) \<Longrightarrow> extends {k} d (dict_set d k c)"
  by (auto simp: extends_def dict_get_dict_set uniform_dict_set distinct_dict_set
      dict_set_nonempty)

lemma extends_setnum_step:
  assumes "extends S d d1" and "\<And>n. uniform n d \<Longrightarrow> length xs = n"
  shows "extends (insert k S) d (setnum d1 k xs)"
  using assms
  by (auto simp: extends_def setnum_def dict_get_dict_set uniform_dict_set distinct_dict_set
      dict_set_nonempty)

lemma extends_dict_set_step:
  assumes "extends S d d1" and "\<And>n. uniform n d \<Longrightarrow> col_len c = n"
  shows "extends (insert k S) d (dict_set d1 k c)"
  using assms
  by (auto simp: extends_def dict_get_dict_set uniform_dict_set distinct_dict_set
      dict_set_nonempty)

subsection \<open>Cleaning of the market-series domain\<close>

lemma stock_macd_extends:
  "stock_macd d = Inr d' \<Longrightarrow> extends {''macd'', ''macd_signal''} d d'"
  apply (clarsimp simp: stock_macd_def ebind_Inr_iff Let_def)
  apply (rule extends_mono)
   apply (rule extends_setnum_step extends_refl)+
    apply (auto simp: len_simps getnum_setnum dest!: uniform_getnum[rotated])
  done

lemma stock_rsi_extends:
  "stock_rsi d = Inr d' \<Longrightarrow> extends {''rsi''} d d'"
  apply (clarsimp simp: stock_rsi_def ebind_Inr_iff Let_def)
  apply (rule extends_mono)
   apply (rule extends_setnum_step extends_refl)+
    apply (auto simp: len_simps getnum_setnum dest!: uniform_getnum[rotated])
  done

lemma stock_bollinger_extends:
  "stock_bollinger d = Inr d' \<Longrightarrow> extends {''bb_middle'', ''bb_upper'', ''bb_lower''} d d'"
  apply (clarsimp simp: stock_bollinger_def ebind_Inr_iff Let_def)
  apply (rule extends_mono)
   apply (rule extends_setnum_step extends_refl)+
    apply (auto simp: len_simps getnum_setnum dest!: uniform_getnum[rotated])
  done

lemma stock_momentum_extends:
  "stock_momentum d = Inr d' \<Longrightarrow> extends {''momentum_5'', ''momentum_10''} d d'"
  apply (clarsimp simp: stock_momentum_def ebind_Inr_iff Let_def)
  apply (rule extends_mono)
   apply (rule extends_setnum_step extends_refl)+
    apply (auto simp: len_simps getnum_setnum dest!: uniform_getnum[rotated])
  done

lemma stock_volume_extends:
  "stock_volume d = Inr d' \<Longrightarrow> extends {''volume_sma'', ''volume_ratio''} d d'"
  apply (clarsimp simp: stock_volume_def ebind_Inr_iff Let_def)
  apply (rule extends_mono)
   apply (rule extends_setnum_step extends_refl)+
    apply (auto simp: len_simps getnum_setnum dest!: uniform_getnum[rotated])
  done

lemma stock_moving_averages_extends:
  "stock_moving_averages d = Inr d' \<Longrightarrow> extends {''sma_5'', ''sma_20'', ''ema_12'', ''ema_26''} d d'"
  apply (clarsimp simp: stock_moving_averages_def ebind_Inr_iff Let_def)
  apply (rule extends_mono)
   apply (rule extends_setnum_step extends_refl)+
    apply (auto simp: len_simps getnum_setnum dest!: uniform_getnum[rotated])
  done

lemma stock_indicators_extend:
  assumes "stock_moving_averages d2 = Inr d3" "stock_macd d3 = Inr d4" "stock_rsi d4 = Inr d5"
    "stock_bollinger d5 = Inr d6" "stock_momentum d6 = Inr d7" "stock_volume d7 = Inr out"
  shows "extends stock_indicator_cols d2 out"
  by (rule extends_mono[OF extends_trans[OF extends_trans[OF extends_trans[OF extends_trans[OF
      extends_trans[OF stock_moving_averages_extends[OF assms(1)] stock_macd_extends[OF assms(2)]]
      stock_rsi_extends[OF assms(3)]] stock_bollinger_extends[OF assms(4)]]
      stock_momentum_extends[OF assms(5)]] stock_volume_extends[OF assms(6)]]])
    (auto simp: stock_indicator_cols_def)

lemma small_return: "flt (fabs r) (Fin (1 / 2)) \<Longrightarrow> \<exists>x. r = Fin x \<and> \<bar>x\<bar> < 1 / 2"
  by (cases r) auto

lemma length_filter_id_map: "length (filter id (map P xs)) = length (filter P xs)"
  by (induction xs) auto

lemma filter_rows_nonempty: "d \<noteq> [] \<Longrightarrow> filter_rows keep d \<noteq> []"
  by (simp add: filter_rows_def)

text \<open>
  C8.  Every row that the market-series cleaning returns has a finite \<open>daily_return\<close>
  of absolute value below 0.5 (so at most 0.5), whole rows are dropped (the output is a
  regular frame), and on a table that is not empty the output's \<open>daily_return\<close>
  column is the one left by \<open>dropna\<close> without the rows whose absolute return is not
  below 0.5: a row with a return of 0.8 is dropped and the row count falls by the number
  of such rows.
\<close>

theorem clean_stock_data_returns:
  assumes ok: "clean_stock_data df = Inr out" and wf: "wf_table df"
  shows "wf_table out \<and>
         (\<forall>rs. getnum out ''daily_return'' = Inr rs \<longrightarrow>
            length rs = nrows out \<and> (\<forall>r \<in> set rs. \<exists>x. r = Fin x \<and> \<bar>x\<bar> < 1 / 2)) \<and>
         (\<not> df_empty df \<longrightarrow>
            (\<exists>ret. getnum (dropna df) ''daily_return'' = Inr ret \<and>
               getnum out ''daily_return'' = Inr (filter (\<lambda>r. flt (fabs r) (Fin (1 / 2))) ret) \<and>
               nrows out = length ret - length (filter (\<lambda>r. \<not> flt (fabs r) (Fin (1 / 2))) ret)))"
proof (cases "df_empty df")
  case True
  with ok have out: "out = df" by (simp add: clean_stock_data_def)
  have "length rs = nrows df \<and> rs = []" if "getnum df ''daily_return'' = Inr rs" for rs
  proof -
    from wf have "uniform (nrows df) df" by (simp add: wf_table_uniform)
    from uniform_getnum[OF this that] have l: "length rs = nrows df" .
    from that have "df \<noteq> []" by (auto simp: getnum_Some dict_get_def)
    with True have "nrows df = 0" by (simp add: df_empty_def)
    with l show ?thesis by simp
  qed
  with True wf out show ?thesis by auto
next
  case False
  let ?P = "\<lambda>r. flt (fabs r) (Fin (1 / 2))"
  let ?d1 = "dropna df"
  from ok False have "\<exists>ret d3 d4 d5 d6 d7. getnum ?d1 ''daily_return'' = Inr ret \<and>
      stock_moving_averages (filter_rows (map ?P ret) ?d1) = Inr d3 \<and> stock_macd d3 = Inr d4 \<and>
      stock_rsi d4 = Inr d5 \<and> stock_bollinger d5 = Inr d6 \<and> stock_momentum d6 = Inr d7 \<and>
      stock_volume d7 = Inr out"
    unfolding clean_stock_data_def by (simp add: ebind_Inr_iff Let_def)
  then obtain ret d3 d4 d5 d6 d7 where
    ret: "getnum ?d1 ''daily_return'' = Inr ret"
    and b: "stock_moving_averages (filter_rows (map ?P ret) ?d1) = Inr d3" "stock_macd d3 = Inr d4"
      "stock_rsi d4 = Inr d5" "stock_bollinger d5 = Inr d6" "stock_momentum d6 = Inr d7"
      "stock_volume d7 = Inr out"
    by blast
  let ?d2 = "filter_rows (map ?P ret) ?d1"
  have ext: "extends stock_indicator_cols ?d2 out"
    by (rule stock_indicators_extend[OF b])
  from wf have u0: "uniform (nrows df) df" and dist: "distinct (dict_keys df)"
    by (simp_all add: wf_table_uniform)
  have u1: "uniform (length ret) ?d1"
    using uniform_dropna[OF u0] uniform_getnum[OF uniform_dropna[OF u0] ret] by simp
  have u2: "uniform (length (filter ?P ret)) ?d2"
    using uniform_filter_rows[OF u1, of "map ?P ret"] by (simp add: length_filter_id_map)
  from False have "df \<noteq> []" by (simp add: df_empty_def)
  then have "?d2 \<noteq> []" by (simp add: dropna_def filter_rows_nonempty)
  with ext have ne: "out \<noteq> []" by (simp add: extends_def)
  from ext u2 have u3: "uniform (length (filter ?P ret)) out" by (simp add: extends_def)
  from nrows_uniform[OF u3 ne] have n: "nrows out = length (filter ?P ret)" .
  have "distinct (dict_keys ?d2)"
    using dist by (simp add: dropna_def dict_keys_filter_rows)
  with ext have "distinct (dict_keys out)" by (simp add: extends_def)
  with u3 n have wf': "wf_table out" by (simp add: wf_table_uniform)
  have "dict_get out ''daily_return'' = dict_get ?d2 ''daily_return''"
    using ext by (simp add: extends_def stock_indicator_cols_def)
  also have "\<dots> = Some (NumCol (filter ?P ret))"
    using ret by (simp add: dict_get_filter_rows getnum_Some sel_map)
  finally have g: "getnum out ''daily_return'' = Inr (filter ?P ret)"
    by (simp add: getnum_Some)
  have cnt: "length (filter ?P ret) = length ret - length (filter (\<lambda>r. \<not> ?P r) ret)"
    using sum_length_filter_compl[of ?P ret] by simp
  from wf' g n ret cnt False show ?thesis
    by (auto dest: small_return)
qed

lemma stock_indicators_ok:
  assumes "getnum d ''close'' = Inr c" and "getnum d ''volume'' = Inr v"
  shows "\<exists>out. ebind (stock_moving_averages d) (\<lambda>df3.
        ebind (stock_macd df3) (\<lambda>df4.
        ebind (stock_rsi df4) (\<lambda>df5.
        ebind (stock_bollinger df5) (\<lambda>df6.
        ebind (stock_momentum df6) (\<lambda>df7.
        stock_volume df7))))) = Inr out"
  using assms
  by (simp add: stock_moving_averages_def stock_macd_def stock_rsi_def stock_bollinger_def
      stock_momentum_def stock_volume_def ebind_def getnum_setnum Let_def)

lemma getnum_filter_rows:
  "getnum d k = Inr xs \<Longrightarrow> getnum (filter_rows keep d) k = Inr (sel keep xs)"
  by (simp add: getnum_Some dict_get_filter_rows)

lemma clean_stock_data_ok:
  assumes "\<not> df_empty df" and "getnum (dropna df) ''daily_return'' = Inr r"
    and "getnum (dropna df) ''close'' = Inr c" and "getnum (dropna df) ''volume'' = Inr v"
  shows "\<exists>out. clean_stock_data df = Inr out"
  using assms stock_indicators_ok[OF getnum_filter_rows[OF assms(3)] getnum_filter_rows[OF assms(4)]]
  by (simp add: clean_stock_data_def ebind_def Let_def)

lemma getnum_dropna:
  "getnum d k = Inr xs \<Longrightarrow> getnum (dropna d) k = Inr (sel (map Not (any_na d)) xs)"
  unfolding dropna_def by (rule getnum_filter_rows)

theorem clean_stock_data_returns_witness:
  "\<exists>out. clean_stock_data
            [(''close'', NumCol [Fin 100, Fin 180, Fin 171]),
             (''volume'', NumCol [Fin 10, Fin 20, Fin 30]),
             (''daily_return'', NumCol [Fin (1 / 10), Fin (4 / 5), Fin (- (1 / 20))])] = Inr out \<and>
          wf_table out \<and> nrows out = 2 \<and>
          getnum out ''daily_return'' = Inr [Fin (1 / 10), Fin (- (1 / 20))]"
proof -
  let ?T = "[(''close'', NumCol [Fin 100, Fin 180, Fin 171]),
             (''volume'', NumCol [Fin 10, Fin 20, Fin 30]),
             (''daily_return'', NumCol [Fin (1 / 10), Fin (4 / 5), Fin (- (1 / 20))])]"
  have dn: "dropna ?T = ?T"
    by (simp add: dropna_def any_na_def nrows_def dict_values_def filter_rows_def sel_def upt_rec)
  have ne: "\<not> df_empty ?T" by (simp add: df_empty_def nrows_def)
  have wf: "wf_table ?T" by (simp add: wf_table_def dict_keys_def nrows_def)
  have g: "getnum ?T ''daily_return'' = Inr [Fin (1 / 10), Fin (4 / 5), Fin (- (1 / 20))]"
    "getnum ?T ''close'' = Inr [Fin 100, Fin 180, Fin 171]"
    "getnum ?T ''volume'' = Inr [Fin 10, Fin 20, Fin 30]"
    by (simp_all add: getnum_def getcol_def dict_get_def ebind_def)
  have g': "getnum (dropna ?T) ''daily_return'' = Inr [Fin (1 / 10), Fin (4 / 5), Fin (- (1 / 20))]"
    "getnum (dropna ?T) ''close'' = Inr [Fin 100, Fin 180, Fin 171]"
    "getnum (dropna ?T) ''volume'' = Inr [Fin 10, Fin 20, Fin 30]"
    unfolding dn by (rule g)+
  from clean_stock_data_ok[OF ne g'] obtain out where ok: "clean_stock_data ?T = Inr out"
    by blast
  from clean_stock_data_returns[OF ok wf] ne obtain ret where
    w: "wf_table out" and r: "getnum (dropna ?T) ''daily_return'' = Inr ret"
    and o: "getnum out ''daily_return'' = Inr (filter (\<lambda>r. flt (fabs r) (Fin (1 / 2))) ret)"
    and n: "nrows out = length ret - length (filter (\<lambda>r. \<not> flt (fabs r) (Fin (1 / 2))) ret)"
    by blast
  from r g'(1) have ret: "ret = [Fin (1 / 10), Fin (4 / 5), Fin (- (1 / 20))]" by simp
  from w o n have
    "wf_table out \<and> nrows out = 2 \<and> getnum out ''daily_return'' = Inr [Fin (1 / 10), Fin (- (1 / 20))]"
    unfolding ret by simp
  with ok show ?thesis by blast
qed

subsection \<open>Absent columns\<close>

lemma emap_fillna_fwd:
  "emap (\<lambda>(name, c). ebind (fillna0_col c) (\<lambda>c'. Inr (name, c'))) df = Inr df1 \<Longrightarrow>
   (case dict_get df k of None \<Rightarrow> dict_get df1 k = None
    | Some c \<Rightarrow> \<exists>c'. fillna0_col c = Inr c' \<and> dict_get df1 k = Some c')"
proof (induction df arbitrary: df1)
  case Nil
  then show ?case by (simp add: dict_get_def)
next
  case (Cons p df)
  obtain name c where p: "p = (name, c)" by (cases p)
  from Cons.prems(1) p obtain c1 rest where
    c1: "fillna0_col c = Inr c1" and rest: "emap (\<lambda>(name, c). ebind (fillna0_col c) (\<lambda>c'. Inr (name, c'))) df = Inr rest"
    and df1: "df1 = (name, c1) # rest"
    by (auto simp: ebind_Inr_iff)
  from Cons.IH[OF rest] df1 c1 p show ?case
    by (auto simp: dict_get_def split: option.splits)
qed

lemma fillna0_fwd:
  "fillna0 df = Inr df1 \<Longrightarrow>
   (case dict_get df k of None \<Rightarrow> dict_get df1 k = None
    | Some c \<Rightarrow> \<exists>c'. fillna0_col c = Inr c' \<and> dict_get df1 k = Some c')"
  unfolding fillna0_def by (rule emap_fillna_fwd)

lemma fillna0_num_or_absent:
  "fillna0 df = Inr df1 \<Longrightarrow> num_or_absent df k \<Longrightarrow> num_or_absent df1 k"
  using fillna0_fwd[of df df1 k] by (auto simp: num_or_absent_def split: option.splits)

lemma fillna0_absent: "fillna0 df = Inr df1 \<Longrightarrow> dict_get df1 k = None \<longleftrightarrow> dict_get df k = None"
  using fillna0_fwd[of df df1 k] by (auto split: option.splits)

lemma clip_cols_ok:
  "\<forall>k \<in> set cs. num_or_absent df k \<Longrightarrow> \<exists>df'. clip_cols cs df = Inr df'"
proof (induction cs arbitrary: df)
  case Nil
  then show ?case by simp
next
  case (Cons c cs)
  show ?case
  proof (cases "c \<in> set (dict_keys df)")
    case False
    with Cons show ?thesis by simp
  next
    case True
    with Cons.prems obtain xs where xs: "dict_get df c = Some (NumCol xs)"
      by (auto simp: num_or_absent_def mem_keys_iff split: option.splits)
    have "\<forall>k \<in> set cs. num_or_absent (dict_set df c (NumCol (map clip0 xs))) k"
      using Cons.prems by (auto simp: num_or_absent_def dict_get_dict_set)
    from Cons.IH[OF this] True xs show ?thesis
      by (simp add: getcol_def clip_lower0_def ebind_def)
  qed
qed

lemma clip_cols_absent:
  "clip_cols cs df = Inr df' \<Longrightarrow> dict_get df' k = None \<longleftrightarrow> dict_get df k = None"
  by (simp add: clip_cols_get)

lemma clip_cols_num:
  "clip_cols cs df = Inr df' \<Longrightarrow> dict_get df k = Some (NumCol xs) \<Longrightarrow>
   \<exists>ys. dict_get df' k = Some (NumCol ys)"
  by (simp add: clip_cols_get)

lemma getnum_absent: "dict_get df k = None \<Longrightarrow> getnum df k = Inl (KeyError k)"
  by (simp add: getnum_def getcol_def ebind_def)

lemma dict_get_setnum: "dict_get (setnum d k xs) k' = (if k' = k then Some (NumCol xs) else dict_get d k')"
  by (simp add: setnum_def dict_get_dict_set)

lemma ebind_Inr: "ebind (Inr x) f = f x"
  by (simp add: ebind_def)

lemma getnum_present: "getnum d k = Inr xs \<Longrightarrow> dict_get d k \<noteq> None"
  by (simp add: getnum_Some)

lemma clean_covid_data_reads:
  assumes ok: "clean_covid_data df = Inr out" and ne: "\<not> df_empty df"
  shows "\<forall>k \<in> {''cases'', ''deaths'', ''recovered''}. dict_get df k \<noteq> None"
proof -
  from ok ne have "\<exists>df1 df2 cfr rr.
    fillna0 df = Inr df1 \<and> clip_cols covid_numeric_cols df1 = Inr df2
    \<and> rate_col df2 ''deaths'' ''cases'' = Inr cfr
    \<and> rate_col (setnum df2 ''case_fatality_rate'' cfr) ''recovered'' ''cases'' = Inr rr"
    unfolding clean_covid_data_def by (simp add: ebind_Inr_iff Let_def) blast
  then obtain df1 df2 cfr rr where
    f: "fillna0 df = Inr df1" and c: "clip_cols covid_numeric_cols df1 = Inr df2"
    and cfr: "rate_col df2 ''deaths'' ''cases'' = Inr cfr"
    and rr: "rate_col (setnum df2 ''case_fatality_rate'' cfr) ''recovered'' ''cases'' = Inr rr"
    by blast
  from cfr have "dict_get df2 ''cases'' \<noteq> None" "dict_get df2 ''deaths'' \<noteq> None"
    by (auto simp: rate_col_def ebind_Inr_iff dest: getnum_present)
  moreover from rr have "dict_get df2 ''recovered'' \<noteq> None"
    by (auto simp: rate_col_def ebind_Inr_iff getnum_setnum dest: getnum_present)
  ultimately show ?thesis
    by (simp add: clip_cols_absent[OF c] fillna0_absent[OF f])
qed

lemma clean_covid_data_unfold:
  assumes ne: "\<not> df_empty df" and f: "fillna0 df = Inr df1"
    and c: "clip_cols covid_numeric_cols df1 = Inr df2"
  shows "clean_covid_data df =
        ebind (rate_col df2 ''deaths'' ''cases'') (\<lambda>cfr.
        let df3 = setnum df2 ''case_fatality_rate'' cfr in
        ebind (rate_col df3 ''recovered'' ''cases'') (\<lambda>rr.
        let df4 = setnum df3 ''recovery_rate'' rr in
        ebind (getnum df4 ''cases'') (\<lambda>cases.
        let df5 = setnum df4 ''cases_7d_avg'' (rolling_mean 7 cases) in
        ebind (getnum df5 ''deaths'') (\<lambda>deaths.
        let df6 = setnum df5 ''deaths_7d_avg'' (rolling_mean 7 deaths) in
        ebind (getnum df6 ''cases'') (\<lambda>cases'.
        let df7 = setnum df6 ''cases_growth_rate'' (pct_change cases') in
        ebind (getnum df7 ''deaths'') (\<lambda>deaths'.
        Inr (setnum df7 ''deaths_growth_rate'' (pct_change deaths'))))))))"
  using ne f c by (simp only: clean_covid_data_def ebind_Inr if_False)

lemma clean_covid_data_tail:
  assumes ne: "\<not> df_empty df" and f: "fillna0 df = Inr df1"
    and c: "clip_cols covid_numeric_cols df1 = Inr df2"
    and g: "getnum df2 ''cases'' = Inr cs" "getnum df2 ''deaths'' = Inr ds"
      "getnum df2 ''recovered'' = Inr rs"
  shows "\<exists>out. clean_covid_data df = Inr out \<and>
           (\<forall>k. k \<notin> covid_derived_cols \<longrightarrow> dict_get out k = dict_get df2 k) \<and>
           (\<forall>k \<in> covid_derived_cols. dict_get out k \<noteq> None)"
  unfolding clean_covid_data_unfold[OF ne f c] covid_derived_cols_def using g
  by (simp add: rate_col_def ebind_def getnum_setnum Let_def dict_get_setnum)

lemma clean_covid_data_ok:
  assumes ne: "\<not> df_empty df" and f: "fillna0 df = Inr df1"
    and num: "\<forall>k \<in> set covid_numeric_cols. num_or_absent df k"
    and req: "\<forall>k \<in> {''cases'', ''deaths'', ''recovered''}. dict_get df k \<noteq> None"
  shows "\<exists>out. clean_covid_data df = Inr out \<and>
           (\<forall>k. k \<notin> covid_derived_cols \<longrightarrow> (dict_get out k = None \<longleftrightarrow> dict_get df k = None)) \<and>
           (\<forall>k \<in> covid_derived_cols. dict_get out k \<noteq> None) \<and>
           (\<forall>k \<in> set covid_numeric_cols. \<forall>xs. getnum out k = Inr xs \<longrightarrow> (\<forall>x \<in> set xs. nonneg x))"
proof -
  from num have "\<forall>k \<in> set covid_numeric_cols. num_or_absent df1 k"
    by (auto intro: fillna0_num_or_absent[OF f])
  from clip_cols_ok[OF this] obtain df2 where c: "clip_cols covid_numeric_cols df1 = Inr df2"
    by blast
  have "\<exists>xs. getnum df2 k = Inr xs" if "k \<in> {''cases'', ''deaths'', ''recovered''}" for k
  proof -
    from that num have "num_or_absent df k" by (auto simp: covid_numeric_cols_def)
    with f have "num_or_absent df1 k" by (rule fillna0_num_or_absent)
    moreover from that req have "dict_get df1 k \<noteq> None" by (auto simp: fillna0_absent[OF f])
    ultimately obtain xs where "dict_get df1 k = Some (NumCol xs)"
      by (auto simp: num_or_absent_def split: option.splits)
    from clip_cols_num[OF c this] show ?thesis by (simp add: getnum_Some)
  qed
  from this[of "''cases''"] this[of "''deaths''"] this[of "''recovered''"]
  obtain cs ds rs where g: "getnum df2 ''cases'' = Inr cs" "getnum df2 ''deaths'' = Inr ds"
    "getnum df2 ''recovered'' = Inr rs" by auto
  from clean_covid_data_tail[OF ne f c g] obtain out where
    out: "clean_covid_data df = Inr out"
    and same: "\<forall>k. k \<notin> covid_derived_cols \<longrightarrow> dict_get out k = dict_get df2 k"
    and new: "\<forall>k \<in> covid_derived_cols. dict_get out k \<noteq> None"
    by blast
  have nn: "\<forall>x \<in> set xs. nonneg x" if "k \<in> set covid_numeric_cols" "getnum out k = Inr xs" for k xs
  proof -
    from that(1) have "k \<notin> covid_derived_cols"
      by (auto simp: covid_numeric_cols_def covid_derived_cols_def)
    with same that(2) have "getnum df2 k = Inr xs" by (simp add: getnum_Some)
    from cleaned_nonneg[OF f c that(1) this] show ?thesis .
  qed
  have "dict_get out k = None \<longleftrightarrow> dict_get df k = None" if "k \<notin> covid_derived_cols" for k
    using same that by (simp add: clip_cols_absent[OF c] fillna0_absent[OF f])
  with out new nn show ?thesis by blast
qed

lemma dict_get_dropna_None: "dict_get (dropna d) k = None \<longleftrightarrow> dict_get d k = None"
  by (simp add: dropna_def dict_get_filter_rows)

lemma extends_present: "extends S d d' \<Longrightarrow> k \<notin> S \<Longrightarrow> dict_get d' k = dict_get d k"
  by (simp add: extends_def)

lemma clean_stock_data_reads:
  assumes ok: "clean_stock_data df = Inr out" and ne: "\<not> df_empty df"
  shows "dict_get df ''daily_return'' \<noteq> None \<and> dict_get df ''close'' \<noteq> None \<and>
         dict_get df ''volume'' \<noteq> None"
proof -
  let ?P = "\<lambda>r. flt (fabs r) (Fin (1 / 2))"
  let ?d1 = "dropna df"
  from ok ne have "\<exists>ret d3 d4 d5 d6 d7. getnum ?d1 ''daily_return'' = Inr ret \<and>
      stock_moving_averages (filter_rows (map ?P ret) ?d1) = Inr d3 \<and> stock_macd d3 = Inr d4 \<and>
      stock_rsi d4 = Inr d5 \<and> stock_bollinger d5 = Inr d6 \<and> stock_momentum d6 = Inr d7 \<and>
      stock_volume d7 = Inr out"
    unfolding clean_stock_data_def by (simp add: ebind_Inr_iff Let_def)
  then obtain ret d3 d4 d5 d6 d7 where
    ret: "getnum ?d1 ''daily_return'' = Inr ret"
    and b: "stock_moving_averages (filter_rows (map ?P ret) ?d1) = Inr d3" "stock_macd d3 = Inr d4"
      "stock_rsi d4 = Inr d5" "stock_bollinger d5 = Inr d6" "stock_momentum d6 = Inr d7"
    and v: "stock_volume d7 = Inr out"
    by blast
  let ?d2 = "filter_rows (map ?P ret) ?d1"
  from getnum_present[OF ret] have r: "dict_get df ''daily_return'' \<noteq> None"
    by (simp add: dict_get_dropna_None)
  from b(1) have "dict_get ?d2 ''close'' \<noteq> None"
    by (auto simp: stock_moving_averages_def ebind_Inr_iff dest: getnum_present)
  then have c: "dict_get df ''close'' \<noteq> None"
    by (simp add: dict_get_filter_rows dict_get_dropna_None)
  have "extends ({''sma_5'', ''sma_20'', ''ema_12'', ''ema_26''} \<union> {''macd'', ''macd_signal''} \<union>
      {''rsi''} \<union> {''bb_middle'', ''bb_upper'', ''bb_lower''} \<union> {''momentum_5'', ''momentum_10''}) ?d2 d7"
    by (rule extends_trans[OF extends_trans[OF extends_trans[OF extends_trans[OF
        stock_moving_averages_extends[OF b(1)] stock_macd_extends[OF b(2)]]
        stock_rsi_extends[OF b(3)]] stock_bollinger_extends[OF b(4)]]
        stock_momentum_extends[OF b(5)]])
  then have "dict_get d7 ''volume'' = dict_get ?d2 ''volume''"
    by (rule extends_present) simp
  moreover from v have "dict_get d7 ''volume'' \<noteq> None"
    by (auto simp: stock_volume_def ebind_Inr_iff dest: getnum_present)
  ultimately have "dict_get df ''volume'' \<noteq> None"
    by (simp add: dict_get_filter_rows dict_get_dropna_None)
  with r c show ?thesis by simp
qed

lemma not_Inr_Inl: "(\<forall>y. m \<noteq> Inr y) \<Longrightarrow> \<exists>e. m = Inl e"
  by (cases m) auto

lemma covid_log_levels: "set (map fst (clean_covid_data_log df)) \<subseteq> {INFO}"
  by (auto simp: clean_covid_data_log_def split: sum.splits)

lemma stock_log_levels: "set (map fst (clean_stock_data_log df)) \<subseteq> {INFO}"
  by (auto simp: clean_stock_data_log_def split: sum.splits)

lemma covid_clipped:
  assumes f: "fillna0 df = Inr df1"
    and num: "\<forall>k \<in> set covid_numeric_cols. num_or_absent df k"
  shows "\<exists>df2. clip_cols covid_numeric_cols df1 = Inr df2 \<and>
           (\<forall>k. dict_get df2 k = None \<longleftrightarrow> dict_get df k = None) \<and>
           (\<forall>k \<in> set covid_numeric_cols. dict_get df k \<noteq> None \<longrightarrow> (\<exists>xs. getnum df2 k = Inr xs))"
proof -
  from num have n1: "\<forall>k \<in> set covid_numeric_cols. num_or_absent df1 k"
    by (auto intro: fillna0_num_or_absent[OF f])
  from clip_cols_ok[OF this] obtain df2 where c: "clip_cols covid_numeric_cols df1 = Inr df2"
    by blast
  have a: "dict_get df2 k = None \<longleftrightarrow> dict_get df k = None" for k
    by (simp add: clip_cols_absent[OF c] fillna0_absent[OF f])
  have "\<exists>xs. getnum df2 k = Inr xs"
    if "k \<in> set covid_numeric_cols" "dict_get df k \<noteq> None" for k
  proof -
    from that n1 have "num_or_absent df1 k" by simp
    moreover from that have "dict_get df1 k \<noteq> None" by (simp add: fillna0_absent[OF f])
    ultimately obtain xs where "dict_get df1 k = Some (NumCol xs)"
      by (auto simp: num_or_absent_def split: option.splits)
    from clip_cols_num[OF c this] show ?thesis by (simp add: getnum_Some)
  qed
  with c a show ?thesis by blast
qed

lemma clean_covid_data_first_absent:
  assumes ne: "\<not> df_empty df" and f: "fillna0 df = Inr df1"
    and num: "\<forall>k \<in> set covid_numeric_cols. num_or_absent df k"
  shows "(dict_get df ''cases'' = None \<longrightarrow> clean_covid_data df = Inl (KeyError ''cases'')) \<and>
         (dict_get df ''cases'' \<noteq> None \<and> dict_get df ''deaths'' = None \<longrightarrow>
            clean_covid_data df = Inl (KeyError ''deaths'')) \<and>
         (dict_get df ''cases'' \<noteq> None \<and> dict_get df ''deaths'' \<noteq> None \<and>
          dict_get df ''recovered'' = None \<longrightarrow>
            clean_covid_data df = Inl (KeyError ''recovered''))"
proof -
  from covid_clipped[OF f num] obtain df2 where
    c: "clip_cols covid_numeric_cols df1 = Inr df2"
    and a: "\<And>k. dict_get df2 k = None \<longleftrightarrow> dict_get df k = None"
    and p: "\<And>k. k \<in> set covid_numeric_cols \<Longrightarrow> dict_get df k \<noteq> None \<Longrightarrow> \<exists>xs. getnum df2 k = Inr xs"
    by blast
  note u = clean_covid_data_unfold[OF ne f c]
  have 1: "clean_covid_data df = Inl (KeyError ''cases'')" if "dict_get df ''cases'' = None"
  proof -
    from that a have "getnum df2 ''cases'' = Inl (KeyError ''cases'')"
      by (simp add: getnum_absent)
    then show ?thesis unfolding u by (simp add: rate_col_def ebind_def)
  qed
  have 2: "clean_covid_data df = Inl (KeyError ''deaths'')"
    if "dict_get df ''cases'' \<noteq> None" "dict_get df ''deaths'' = None"
  proof -
    from p[of "''cases''"] that(1) obtain cs where "getnum df2 ''cases'' = Inr cs"
      by (auto simp: covid_numeric_cols_def)
    moreover from that(2) a have "getnum df2 ''deaths'' = Inl (KeyError ''deaths'')"
      by (simp add: getnum_absent)
    ultimately show ?thesis unfolding u by (simp add: rate_col_def ebind_def)
  qed
  have 3: "clean_covid_data df = Inl (KeyError ''recovered'')"
    if "dict_get df ''cases'' \<noteq> None" "dict_get df ''deaths'' \<noteq> None"
      "dict_get df ''recovered'' = None"
  proof -
    from p[of "''cases''"] that(1) obtain cs where "getnum df2 ''cases'' = Inr cs"
      by (auto simp: covid_numeric_cols_def)
    moreover from p[of "''deaths''"] that(2) obtain ds where "getnum df2 ''deaths'' = Inr ds"
      by (auto simp: covid_numeric_cols_def)
    moreover from that(3) a have "getnum df2 ''recovered'' = Inl (KeyError ''recovered'')"
      by (simp add: getnum_absent)
    ultimately show ?thesis unfolding u
      by (simp add: rate_col_def ebind_def getnum_setnum Let_def)
  qed
  from 1 2 3 show ?thesis by blast
qed

lemma stock_indicators_without_volume:
  assumes "getnum d ''close'' = Inr c" and "dict_get d ''volume'' = None"
  shows "ebind (stock_moving_averages d) (\<lambda>df3.
        ebind (stock_macd df3) (\<lambda>df4.
        ebind (stock_rsi df4) (\<lambda>df5.
        ebind (stock_bollinger df5) (\<lambda>df6.
        ebind (stock_momentum df6) (\<lambda>df7.
        stock_volume df7))))) = Inl (KeyError ''volume'')"
  using assms(1) getnum_absent[OF assms(2)]
  by (simp add: stock_moving_averages_def stock_macd_def stock_rsi_def stock_bollinger_def
      stock_momentum_def stock_volume_def ebind_def getnum_setnum Let_def)

lemma clean_stock_data_first_absent:
  assumes ne: "\<not> df_empty df"
  shows "(dict_get df ''daily_return'' = None \<longrightarrow>
            clean_stock_data df = Inl (KeyError ''daily_return'')) \<and>
         ((\<exists>r. dict_get df ''daily_return'' = Some (NumCol r)) \<and> dict_get df ''close'' = None \<longrightarrow>
            clean_stock_data df = Inl (KeyError ''close'')) \<and>
         ((\<exists>r. dict_get df ''daily_return'' = Some (NumCol r)) \<and>
          (\<exists>c. dict_get df ''close'' = Some (NumCol c)) \<and> dict_get df ''volume'' = None \<longrightarrow>
            clean_stock_data df = Inl (KeyError ''volume''))"
proof (intro conjI impI)
  assume "dict_get df ''daily_return'' = None"
  then have "getnum (dropna df) ''daily_return'' = Inl (KeyError ''daily_return'')"
    by (simp add: getnum_absent dict_get_dropna_None)
  with ne show "clean_stock_data df = Inl (KeyError ''daily_return'')"
    by (simp add: clean_stock_data_def ebind_def)
next
  assume h: "(\<exists>r. dict_get df ''daily_return'' = Some (NumCol r)) \<and> dict_get df ''close'' = None"
  then obtain r where "getnum df ''daily_return'' = Inr r" by (auto simp: getnum_Some)
  from getnum_dropna[OF this] obtain r' where r': "getnum (dropna df) ''daily_return'' = Inr r'"
    by blast
  from h have "getnum (filter_rows keep (dropna df)) ''close'' = Inl (KeyError ''close'')" for keep
    by (simp add: getnum_absent dict_get_filter_rows dict_get_dropna_None)
  with ne r' show "clean_stock_data df = Inl (KeyError ''close'')"
    by (simp add: clean_stock_data_def stock_moving_averages_def ebind_def Let_def)
next
  assume h: "(\<exists>r. dict_get df ''daily_return'' = Some (NumCol r)) \<and>
          (\<exists>c. dict_get df ''close'' = Some (NumCol c)) \<and> dict_get df ''volume'' = None"
  then obtain r c where "getnum df ''daily_return'' = Inr r" and c: "getnum df ''close'' = Inr c"
    by (auto simp: getnum_Some)
  from getnum_dropna[OF this(1)] obtain r' where r': "getnum (dropna df) ''daily_return'' = Inr r'"
    by blast
  let ?d2 = "filter_rows (map (\<lambda>r. flt (fabs r) (Fin (1 / 2))) r') (dropna df)"
  from getnum_filter_rows[OF getnum_dropna[OF c]] have c2: "\<exists>c'. getnum ?d2 ''close'' = Inr c'"
    by blast
  from h have v2: "dict_get ?d2 ''volume'' = None"
    by (simp add: dict_get_filter_rows dict_get_dropna_None)
  from c2 obtain c' where "getnum ?d2 ''close'' = Inr c'" by blast
  from stock_indicators_without_volume[OF this v2] ne r'
  show "clean_stock_data df = Inl (KeyError ''volume'')"
    by (simp add: clean_stock_data_def ebind_def Let_def)
qed


text \<open>
  C5 (as amended).  On a table that is not empty, that \<open>fillna\<close> accepts and whose
  count columns are float columns where present, the counts cleaning raises \<open>KeyError\<close>
  naming the first of \<open>cases\<close>, \<open>deaths\<close>, \<open>recovered\<close> that is absent: these
  columns are read without a check.  Only the clipping rule checks for its column: with
  the three counts present the cleaning returns a table in which each of \<open>new_cases\<close>,
  \<open>new_deaths\<close>, \<open>new_recovered\<close> is absent exactly when it was absent from the input,
  every derived column is present and every clipped column is free of negative and
  missing values.  On a table that is not empty the market-series cleaning raises
  \<open>KeyError\<close> naming the first of \<open>daily_return\<close>, \<open>close\<close>, \<open>volume\<close> that is absent,
  the ones before it being float columns.  Neither function ever logs a warning.
\<close>

theorem cleaning_absent_column:
  assumes ne: "\<not> df_empty df"
  shows "((\<exists>df1. fillna0 df = Inr df1) \<and> (\<forall>k \<in> set covid_numeric_cols. num_or_absent df k) \<longrightarrow>
            (dict_get df ''cases'' = None \<longrightarrow> clean_covid_data df = Inl (KeyError ''cases'')) \<and>
            (dict_get df ''cases'' \<noteq> None \<and> dict_get df ''deaths'' = None \<longrightarrow>
               clean_covid_data df = Inl (KeyError ''deaths'')) \<and>
            (dict_get df ''cases'' \<noteq> None \<and> dict_get df ''deaths'' \<noteq> None \<and>
             dict_get df ''recovered'' = None \<longrightarrow>
               clean_covid_data df = Inl (KeyError ''recovered'')) \<and>
            (dict_get df ''cases'' \<noteq> None \<and> dict_get df ''deaths'' \<noteq> None \<and>
             dict_get df ''recovered'' \<noteq> None \<longrightarrow>
               (\<exists>out. clean_covid_data df = Inr out \<and>
                  (\<forall>c \<in> {''new_cases'', ''new_deaths'', ''new_recovered''}.
                     dict_get out c = None \<longleftrightarrow> dict_get df c = None) \<and>
                  (\<forall>k \<in> covid_derived_cols. dict_get out k \<noteq> None) \<and>
                  (\<forall>k \<in> set covid_numeric_cols. \<forall>xs. getnum out k = Inr xs \<longrightarrow>
                     (\<forall>x \<in> set xs. nonneg x))))) \<and>
         (dict_get df ''daily_return'' = None \<longrightarrow>
            clean_stock_data df = Inl (KeyError ''daily_return'')) \<and>
         ((\<exists>r. dict_get df ''daily_return'' = Some (NumCol r)) \<and> dict_get df ''close'' = None \<longrightarrow>
            clean_stock_data df = Inl (KeyError ''close'')) \<and>
         ((\<exists>r. dict_get df ''daily_return'' = Some (NumCol r)) \<and>
          (\<exists>c. dict_get df ''close'' = Some (NumCol c)) \<and> dict_get df ''volume'' = None \<longrightarrow>
            clean_stock_data df = Inl (KeyError ''volume'')) \<and>
         WARNING \<notin> set (map fst (clean_covid_data_log df)) \<and>
         WARNING \<notin> set (map fst (clean_stock_data_log df))"
proof -
  have covid: "(\<exists>df1. fillna0 df = Inr df1) \<and> (\<forall>k \<in> set covid_numeric_cols. num_or_absent df k) \<longrightarrow>
            (dict_get df ''cases'' = None \<longrightarrow> clean_covid_data df = Inl (KeyError ''cases'')) \<and>
            (dict_get df ''cases'' \<noteq> None \<and> dict_get df ''deaths'' = None \<longrightarrow>
               clean_covid_data df = Inl (KeyError ''deaths'')) \<and>
            (dict_get df ''cases'' \<noteq> None \<and> dict_get df ''deaths'' \<noteq> None \<and>
             dict_get df ''recovered'' = None \<longrightarrow>
               clean_covid_data df = Inl (KeyError ''recovered'')) \<and>
            (dict_get df ''cases'' \<noteq> None \<and> dict_get df ''deaths'' \<noteq> None \<and>
             dict_get df ''recovered'' \<noteq> None \<longrightarrow>
               (\<exists>out. clean_covid_data df = Inr out \<and>
                  (\<forall>c \<in> {''new_cases'', ''new_deaths'', ''new_recovered''}.
                     dict_get out c = None \<longleftrightarrow> dict_get df c = None) \<and>
                  (\<forall>k \<in> covid_derived_cols. dict_get out k \<noteq> None) \<and>
                  (\<forall>k \<in> set covid_numeric_cols. \<forall>xs. getnum out k = Inr xs \<longrightarrow>
                     (\<forall>x \<in> set xs. nonneg x))))"
  proof (rule impI)
    assume h: "(\<exists>df1. fillna0 df = Inr df1) \<and> (\<forall>k \<in> set covid_numeric_cols. num_or_absent df k)"
    from h obtain df1 where f: "fillna0 df = Inr df1" by blast
    from h have num: "\<forall>k \<in> set covid_numeric_cols. num_or_absent df k" by simp
    have ok: "\<exists>out. clean_covid_data df = Inr out \<and>
                  (\<forall>c \<in> {''new_cases'', ''new_deaths'', ''new_recovered''}.
                     dict_get out c = None \<longleftrightarrow> dict_get df c = None) \<and>
                  (\<forall>k \<in> covid_derived_cols. dict_get out k \<noteq> None) \<and>
                  (\<forall>k \<in> set covid_numeric_cols. \<forall>xs. getnum out k = Inr xs \<longrightarrow>
                     (\<forall>x \<in> set xs. nonneg x))"
      if req: "dict_get df ''cases'' \<noteq> None \<and> dict_get df ''deaths'' \<noteq> None \<and>
             dict_get df ''recovered'' \<noteq> None"
    proof -
      from req have "\<forall>k \<in> {''cases'', ''deaths'', ''recovered''}. dict_get df k \<noteq> None" by simp
      from clean_covid_data_ok[OF ne f num this] obtain out where
        o: "clean_covid_data df = Inr out"
        "\<forall>k. k \<notin> covid_derived_cols \<longrightarrow> (dict_get out k = None \<longleftrightarrow> dict_get df k = None)"
        "\<forall>k \<in> covid_derived_cols. dict_get out k \<noteq> None"
        "\<forall>k \<in> set covid_numeric_cols. \<forall>xs. getnum out k = Inr xs \<longrightarrow> (\<forall>x \<in> set xs. nonneg x)"
        by blast
      have "\<forall>c \<in> {''new_cases'', ''new_deaths'', ''new_recovered''}.
          dict_get out c = None \<longleftrightarrow> dict_get df c = None"
        using o(2) by (simp add: covid_derived_cols_def)
      with o(1,3,4) show ?thesis by blast
    qed
    note fa = clean_covid_data_first_absent[OF ne f num]
    from ok have ok': "dict_get df ''cases'' \<noteq> None \<and> dict_get df ''deaths'' \<noteq> None \<and>
             dict_get df ''recovered'' \<noteq> None \<longrightarrow>
               (\<exists>out. clean_covid_data df = Inr out \<and>
                  (\<forall>c \<in> {''new_cases'', ''new_deaths'', ''new_recovered''}.
                     dict_get out c = None \<longleftrightarrow> dict_get df c = None) \<and>
                  (\<forall>k \<in> covid_derived_cols. dict_get out k \<noteq> None) \<and>
                  (\<forall>k \<in> set covid_numeric_cols. \<forall>xs. getnum out k = Inr xs \<longrightarrow>
                     (\<forall>x \<in> set xs. nonneg x)))"
      by (rule impI)
    show "(dict_get df ''cases'' = None \<longrightarrow> clean_covid_data df = Inl (KeyError ''cases'')) \<and>
            (dict_get df ''cases'' \<noteq> None \<and> dict_get df ''deaths'' = None \<longrightarrow>
               clean_covid_data df = Inl (KeyError ''deaths'')) \<and>
            (dict_get df ''cases'' \<noteq> None \<and> dict_get df ''deaths'' \<noteq> None \<and>
             dict_get df ''recovered'' = None \<longrightarrow>
               clean_covid_data df = Inl (KeyError ''recovered'')) \<and>
            (dict_get df ''cases'' \<noteq> None \<and> dict_get df ''deaths'' \<noteq> None \<and>
             dict_get df ''recovered'' \<noteq> None \<longrightarrow>
               (\<exists>out. clean_covid_data df = Inr out \<and>
                  (\<forall>c \<in> {''new_cases'', ''new_deaths'', ''new_recovered''}.
                     dict_get out c = None \<longleftrightarrow> dict_get df c = None) \<and>
                  (\<forall>k \<in> covid_derived_cols. dict_get out k \<noteq> None) \<and>
                  (\<forall>k \<in> set covid_numeric_cols. \<forall>xs. getnum out k = Inr xs \<longrightarrow>
                     (\<forall>x \<in> set xs. nonneg x))))"
      by (rule conjI[OF fa[THEN conjunct1] conjI[OF fa[THEN conjunct2, THEN conjunct1]
          conjI[OF fa[THEN conjunct2, THEN conjunct2] ok']]])
  qed
  have w: "WARNING \<notin> set (map fst (clean_covid_data_log df))"
    "WARNING \<notin> set (map fst (clean_stock_data_log df))"
    using covid_log_levels[of df] stock_log_levels[of df] by auto
  note s = clean_stock_data_first_absent[OF ne]
  show ?thesis
    by (rule conjI[OF covid conjI[OF s[THEN conjunct1] conjI[OF s[THEN conjunct2, THEN conjunct1]
        conjI[OF s[THEN conjunct2, THEN conjunct2] conjI[OF w(1) w(2)]]]]])
qed

theorem cleaning_absent_column_witness:
  "clean_covid_data [(''deaths'', NumCol [Fin 3]), (''recovered'', NumCol [Fin 1])] =
     Inl (KeyError ''cases'') \<and>
   clean_covid_data [(''cases'', NumCol [Fin 4]), (''recovered'', NumCol [Fin 1])] =
     Inl (KeyError ''deaths'') \<and>
   clean_covid_data [(''cases'', NumCol [Fin 4]), (''deaths'', NumCol [Fin 2])] =
     Inl (KeyError ''recovered'') \<and>
   (\<exists>out. clean_covid_data
             [(''cases'', NumCol [Fin 4]), (''deaths'', NumCol [Fin 2]), (''recovered'', NumCol [Fin 1])] =
           Inr out \<and> dict_get out ''new_cases'' = None \<and> dict_get out ''recovery_rate'' \<noteq> None) \<and>
   clean_stock_data [(''close'', NumCol [Fin 10]), (''volume'', NumCol [Fin 7])] =
     Inl (KeyError ''daily_return'') \<and>
   clean_stock_data [(''daily_return'', NumCol [Fin (1 / 10)]), (''volume'', NumCol [Fin 7])] =
     Inl (KeyError ''close'') \<and>
   clean_stock_data [(''daily_return'', NumCol [Fin (1 / 10)]), (''close'', NumCol [Fin 10])] =
     Inl (KeyError ''volume'')"
proof -
  let ?A = "[(''deaths'', NumCol [Fin 3]), (''recovered'', NumCol [Fin 1])]"
  let ?A2 = "[(''cases'', NumCol [Fin 4]), (''recovered'', NumCol [Fin 1])]"
  let ?A3 = "[(''cases'', NumCol [Fin 4]), (''deaths'', NumCol [Fin 2])]"
  let ?C = "[(''cases'', NumCol [Fin 4]), (''deaths'', NumCol [Fin 2]), (''recovered'', NumCol [Fin 1])]"
  let ?B = "[(''close'', NumCol [Fin 10]), (''volume'', NumCol [Fin 7])]"
  let ?B2 = "[(''daily_return'', NumCol [Fin (1 / 10)]), (''volume'', NumCol [Fin 7])]"
  let ?B3 = "[(''daily_return'', NumCol [Fin (1 / 10)]), (''close'', NumCol [Fin 10])]"
  have ne: "\<not> df_empty ?A" "\<not> df_empty ?A2" "\<not> df_empty ?A3" "\<not> df_empty ?C"
    "\<not> df_empty ?B" "\<not> df_empty ?B2" "\<not> df_empty ?B3"
    by (simp_all add: df_empty_def nrows_def)
  have h: "(\<exists>df1. fillna0 ?A = Inr df1) \<and> (\<forall>k \<in> set covid_numeric_cols. num_or_absent ?A k)"
    "(\<exists>df1. fillna0 ?A2 = Inr df1) \<and> (\<forall>k \<in> set covid_numeric_cols. num_or_absent ?A2 k)"
    "(\<exists>df1. fillna0 ?A3 = Inr df1) \<and> (\<forall>k \<in> set covid_numeric_cols. num_or_absent ?A3 k)"
    "(\<exists>df1. fillna0 ?C = Inr df1) \<and> (\<forall>k \<in> set covid_numeric_cols. num_or_absent ?C k)"
    by (simp_all add: fillna0_def ebind_def covid_numeric_cols_def num_or_absent_def dict_get_def)
  have a1: "dict_get ?A ''cases'' = None" by (simp add: dict_get_def)
  have a2: "dict_get ?A2 ''cases'' \<noteq> None \<and> dict_get ?A2 ''deaths'' = None"
    by (simp add: dict_get_def)
  have a3: "dict_get ?A3 ''cases'' \<noteq> None \<and> dict_get ?A3 ''deaths'' \<noteq> None \<and>
      dict_get ?A3 ''recovered'' = None"
    by (simp add: dict_get_def)
  have a4: "dict_get ?C ''cases'' \<noteq> None \<and> dict_get ?C ''deaths'' \<noteq> None \<and>
      dict_get ?C ''recovered'' \<noteq> None"
    by (simp add: dict_get_def)
  have b1: "dict_get ?B ''daily_return'' = None" by (simp add: dict_get_def)
  have b2: "(\<exists>r. dict_get ?B2 ''daily_return'' = Some (NumCol r)) \<and> dict_get ?B2 ''close'' = None"
    by (simp add: dict_get_def)
  have b3: "(\<exists>r. dict_get ?B3 ''daily_return'' = Some (NumCol r)) \<and>
      (\<exists>c. dict_get ?B3 ''close'' = Some (NumCol c)) \<and> dict_get ?B3 ''volume'' = None"
    by (simp add: dict_get_def)
  note k1 = cleaning_absent_column[OF ne(1), THEN conjunct1, THEN mp, OF h(1),
      THEN conjunct1, THEN mp, OF a1]
  note k2 = cleaning_absent_column[OF ne(2), THEN conjunct1, THEN mp, OF h(2),
      THEN conjunct2, THEN conjunct1, THEN mp, OF a2]
  note k3 = cleaning_absent_column[OF ne(3), THEN conjunct1, THEN mp, OF h(3),
      THEN conjunct2, THEN conjunct2, THEN conjunct1, THEN mp, OF a3]
  note k4 = cleaning_absent_column[OF ne(4), THEN conjunct1, THEN mp, OF h(4),
      THEN conjunct2, THEN conjunct2, THEN conjunct2, THEN mp, OF a4]
  note k5 = cleaning_absent_column[OF ne(5), THEN conjunct2, THEN conjunct1, THEN mp, OF b1]
  note k6 = cleaning_absent_column[OF ne(6), THEN conjunct2, THEN conjunct2, THEN conjunct1,
      THEN mp, OF b2]
  note k7 = cleaning_absent_column[OF ne(7), THEN conjunct2, THEN conjunct2, THEN conjunct2,
      THEN conjunct1, THEN mp, OF b3]
  from k4 obtain out where o: "clean_covid_data ?C = Inr out"
    and n: "\<forall>c \<in> {''new_cases'', ''new_deaths'', ''new_recovered''}.
              dict_get out c = None \<longleftrightarrow> dict_get ?C c = None"
    and d: "\<forall>k \<in> covid_derived_cols. dict_get out k \<noteq> None"
    by (elim exE conjE)
  from n have "dict_get out ''new_cases'' = None" by (simp add: dict_get_def)
  moreover from d have "dict_get out ''recovery_rate'' \<noteq> None"
    by (simp add: covid_derived_cols_def)
  ultimately have k4': "\<exists>out. clean_covid_data ?C = Inr out \<and> dict_get out ''new_cases'' = None \<and>
      dict_get out ''recovery_rate'' \<noteq> None"
    using o by (intro exI[of _ out] conjI)
  show ?thesis
    by (rule conjI[OF k1 conjI[OF k2 conjI[OF k3 conjI[OF k4' conjI[OF k5 conjI[OF k6 k7]]]]]])
qed

lemma ebind_Inl: "ebind (Inl e) f = Inl e"
  by (simp add: ebind_def)

text \<open>
  C5 as stated fails: a counts table without the \<open>cases\<close> column makes
  \<open>clean_covid_data\<close> raise \<open>KeyError\<close>, and the only log record is the entry
  message.
\<close>

theorem clean_covid_data_raises_without_cases:
  "clean_covid_data [(''deaths'', NumCol [Fin 2]), (''recovered'', NumCol [Fin 1])] = Inl (KeyError ''cases'') \<and>
   clean_covid_data_log [(''deaths'', NumCol [Fin 2]), (''recovered'', NumCol [Fin 1])] =
     [(INFO, ''Cleaning COVID-19 data...'')]"
proof -
  let ?T = "[(''deaths'', NumCol [Fin 2]), (''recovered'', NumCol [Fin 1])]"
  have ne: "\<not> df_empty ?T" by (simp add: df_empty_def nrows_def)
  have f: "fillna0 ?T = Inr ?T" by (simp add: fillna0_def ebind_def)
  have c: "clip_cols covid_numeric_cols ?T = Inr ?T"
    by (simp add: covid_numeric_cols_def dict_keys_def getcol_def dict_get_def clip_lower0_def
        clip0_def ebind_def)
  have r: "rate_col ?T ''deaths'' ''cases'' = Inl (KeyError ''cases'')"
    by (simp add: rate_col_def getnum_def getcol_def dict_get_def ebind_def)
  have run: "clean_covid_data ?T = Inl (KeyError ''cases'')"
    unfolding clean_covid_data_unfold[OF ne f c] r by (rule ebind_Inl)
  then show ?thesis using ne by (simp add: clean_covid_data_log_def)
qed

subsection \<open>The processor's state does not reach the output\<close>

lemma dict_set_twice: "dict_set (dict_set d k v) k w = dict_set d k w"
  by (induction d k v rule: dict_set.induct) auto

lemma store_encoder_twice: "store_encoder b (store_encoder a st) = store_encoder (later b a) st"
  by (auto simp: store_encoder_def later_def dict_set_twice split: option.splits)

lemma later_idem: "later a a = a"
  by (simp add: later_def split: option.splits)

lemma clean_weather_data_state:
  "\<exists>r. \<forall>st :: 'sk processor.
     clean_weather_data st df = map_sum id (\<lambda>(u, t). (store_encoder u st, t)) r"
proof -
  define r where "r =
     (if df_empty df then Inr (None, df)
      else
        ebind (iqr_filter weather_numeric_cols (dropna df)) (\<lambda>df2.
        ebind (weather_features df2) (\<lambda>df3.
        if ''description'' \<in> set (dict_keys df3)
        then ebind (getcol df3 ''description'') (\<lambda>c.
             ebind (fit_transform c) (\<lambda>(le, codes).
               Inr (Some le, setnum df3 ''weather_code'' codes)))
        else Inr (None, df3))))"
  have "clean_weather_data st df = map_sum id (\<lambda>(u, t). (store_encoder u st, t)) r"
    for st :: "'sk processor"
    unfolding r_def clean_weather_data_def
    by (auto simp: ebind_def Let_def store_encoder_def split: sum.splits prod.splits)
  then show ?thesis by blast
qed

lemma clean_source_state:
  "\<exists>r. \<forall>st :: 'sk processor.
     clean_source st name df acc = map_sum id (\<lambda>(u, t). (store_encoder u st, t)) r"
proof -
  from clean_weather_data_state[where 'sk = 'sk, of df] obtain w where
    w: "\<And>st :: 'sk processor.
      clean_weather_data st df = map_sum id (\<lambda>(u, t). (store_encoder u st, t)) w" by blast
  define r where "r =
     (if name = ''covid''
      then ebind (clean_covid_data df) (\<lambda>t. Inr (None, dict_set acc name t))
      else if name = ''weather''
      then ebind w (\<lambda>(u, t). Inr (u, dict_set acc name t))
      else if name = ''stock''
      then ebind (clean_stock_data df) (\<lambda>t. Inr (None, dict_set acc name t))
      else if name = ''public''
      then ebind (clean_public_data df) (\<lambda>t. Inr (None, dict_set acc name t))
      else Inr (None, acc))"
  have "clean_source st name df acc = map_sum id (\<lambda>(u, t). (store_encoder u st, t)) r"
    for st :: "'sk processor"
    unfolding r_def clean_source_def w
    by (auto simp: ebind_def store_encoder_def split: sum.splits prod.splits)
  then show ?thesis by blast
qed

lemma process_loop_state:
  "\<exists>u res. \<forall>st :: 'sk processor. process_loop st srcs acc = (store_encoder u st, res)"
proof (induction srcs arbitrary: acc)
  case Nil
  have "\<forall>st :: 'sk processor. process_loop st [] acc = (store_encoder None st, Inr acc)"
    by (simp add: store_encoder_def)
  then show ?case by blast
next
  case (Cons p srcs)
  obtain name df where p: "p = (name, df)" by (cases p)
  show ?case
  proof (cases "df_empty df")
    case True
    with Cons.IH[of acc] p show ?thesis by simp
  next
    case False
    from clean_source_state[where 'sk = 'sk, of name df acc] obtain r where
      r: "\<And>st :: 'sk processor.
        clean_source st name df acc = map_sum id (\<lambda>(u, t). (store_encoder u st, t)) r" by blast
    show ?thesis
    proof (cases r)
      case (Inl e)
      with r p False have "\<forall>st :: 'sk processor.
          process_loop st (p # srcs) acc = (store_encoder None st, Inl e)"
        by (simp add: store_encoder_def)
      then show ?thesis by blast
    next
      case (Inr ut)
      obtain u1 acc1 where ut: "ut = (u1, acc1)" by (cases ut)
      show ?thesis
      proof (cases "add_features name acc1")
        case (Inl e)
        with r p False Inr ut have "\<forall>st :: 'sk processor.
            process_loop st (p # srcs) acc = (store_encoder u1 st, Inl e)"
          by simp
        then show ?thesis by blast
      next
        case acc2: (Inr acc2)
        from Cons.IH[of acc2] obtain u2 res where
          ih: "\<And>st :: 'sk processor. process_loop st srcs acc2 = (store_encoder u2 st, res)"
          by blast
        from r p False Inr ut acc2 ih have "\<forall>st :: 'sk processor.
            process_loop st (p # srcs) acc = (store_encoder (later u2 u1) st, res)"
          by (simp add: store_encoder_twice)
        then show ?thesis by blast
      qed
    qed
  qed
qed

text \<open>
  C9.  Cleaning and featurizing the same raw tables twice gives the same result both
  times: the tables (or the error) that \<open>process_all_data\<close> returns do not depend on
  the processor's stored state at all, and a second run from the state the first run left
  returns the same tables and leaves the same state.  The only state a run writes is the
  weather label encoder, refitted from the table on every call; the raw tables are worked
  on as copies.  Cells are compared as the numbers they denote.
\<close>

theorem process_all_data_idempotent:
  fixes st st' :: "'sk processor"
  shows "snd (process_all_data st' srcs) = snd (process_all_data st srcs) \<and>
         process_all_data (fst (process_all_data st srcs)) srcs = process_all_data st srcs"
proof -
  from process_loop_state[where 'sk = 'sk, of srcs "[]"] obtain u res where
    "\<And>st :: 'sk processor. process_loop st srcs [] = (store_encoder u st, res)" by blast
  then show ?thesis
    by (simp add: process_all_data_def store_encoder_twice later_idem)
qed

subsection \<open>Prediction\<close>

text \<open>
  C6.  A prediction for a name that is not a key of \<open>models\<close> fails, whatever the rows,
  with the built-in \<open>ValueError\<close> carrying the message \<open>Model <name> not found\<close>.  The
  code defines no exception class of its own: the failure has the class of the errors an
  estimator raises on malformed rows.
\<close>

theorem make_prediction_unknown_model:
  assumes "model_name \<notin> set (dict_keys (models st))"
  shows "make_prediction sk st model_name feats = Inl (ValueError (''Model '' @ model_name @ '' not found''))"
  using assms by (simp add: make_prediction_def mem_keys_iff)

theorem make_prediction_unknown_model_witness:
  "''stock_prediction'' \<notin> set (dict_keys (models
      (\<lparr>models = [(''covid_forecast'', ())], model_metadata = [], feature_importance = []\<rparr>))) \<and>
   make_prediction rejecting_sklearn
     \<lparr>models = [(''covid_forecast'', ())], model_metadata = [], feature_importance = []\<rparr>
     ''stock_prediction'' [(''open'', NumCol [Fin 1])] =
   Inl (ValueError ''Model stock_prediction not found'')"
proof -
  have h: "''stock_prediction'' \<notin> set (dict_keys (models
      (\<lparr>models = [(''covid_forecast'', ())], model_metadata = [], feature_importance = []\<rparr>)))"
    by (simp add: dict_keys_def)
  from make_prediction_unknown_model[OF h, of rejecting_sklearn "[(''open'', NumCol [Fin 1])]"] h
  show ?thesis by simp
qed

text \<open>
  An unknown name and a registered model given rows of the wrong width fail with the same
  exception class; only the message tells them apart.
\<close>

theorem make_prediction_error_not_distinct:
  "make_prediction rejecting_sklearn \<lparr>models = [], model_metadata = [], feature_importance = []\<rparr>
     ''covid_forecast'' [(''cases'', NumCol [Fin 1])] =
   Inl (ValueError ''Model covid_forecast not found'') \<and>
   make_prediction rejecting_sklearn
     \<lparr>models = [(''covid_forecast'', ())],
      model_metadata = [(''covid_forecast'',
        \<lparr>features = [''cases'', ''deaths''], best_model = ''linear_regression'',
         performance = RegPerf [], trained_date = ''2024-01-01''\<rparr>)],
      feature_importance = []\<rparr>
     ''covid_forecast'' [(''cases'', NumCol [Fin 1])] =
   Inl (ValueError ''X has 1 features, but LinearRegression is expecting 2 features as input'')"
  by (simp add: make_prediction_def dict_get_def prepare_features_def dict_keys_def select_cols_def
      getcol_def ebind_def fillna_mean_def rejecting_sklearn_def)

lemma select_cols_present:
  "\<forall>c \<in> set cols. dict_get df c \<noteq> None \<Longrightarrow>
   select_cols df cols = Inr (map (\<lambda>c. (c, the (dict_get df c))) cols)"
  unfolding select_cols_def
  by (induction cols) (auto simp: getcol_def ebind_def)

lemma fillna_mean_col_view:
  "num_view c = Some xs \<Longrightarrow> fillna_mean_col c = Inr (filled c)"
  by (cases c) (auto simp: filled_def split: if_splits)

lemma fillna_mean_num:
  "\<forall>(n, c) \<in> set X. num_view c \<noteq> None \<Longrightarrow>
   fillna_mean X = Inr (map (\<lambda>(n, c). (n, filled c)) X)"
  unfolding fillna_mean_def
  by (induction X) (auto simp: fillna_mean_col_view ebind_def)

lemma dict_get_map_keys:
  "dict_get (map (\<lambda>c. (c, f c)) cols) k = (if k \<in> set cols then Some (f k) else None)"
  by (induction cols) (auto simp: dict_get_def)

text \<open>
  C3.  For a registered model whose trained features, where the supplied rows have them,
  hold numbers and missing values only (float columns, or object columns of numbers and
  \<open>None\<close> such as a null feature of a one-row frame gives), the estimator is called on the
  trained features that are present, in training order, as float columns in which each
  missing cell is replaced by the mean of the cells present in the same column of the
  supplied rows, and left missing when the column has none; a trained feature absent from
  the rows is dropped.  The prediction is whatever the estimator returns or raises on
  these rows.  Nothing is stored at training time to fill from.
\<close>

theorem make_prediction_fill:
  assumes est: "dict_get (models st) model_name = Some est"
    and md: "dict_get (model_metadata st) model_name = Some md"
    and num: "\<forall>c \<in> set (features md). numeric_or_absent feats c"
  shows "\<exists>X. prepare_features md feats = Inr X \<and>
           make_prediction sk st model_name feats = predict sk est X \<and>
           dict_keys X = filter (\<lambda>c. c \<in> set (dict_keys feats)) (features md) \<and>
           (\<forall>c \<in> set (dict_keys X). \<exists>col xs. dict_get feats c = Some col \<and>
              num_view col = Some xs \<and>
              dict_get X c = Some (NumCol (map (\<lambda>x. if x = NaN then mean_skipna xs else x) xs)))"
proof -
  let ?av = "filter (\<lambda>c. c \<in> set (dict_keys feats)) (features md)"
  let ?S = "map (\<lambda>c. (c, the (dict_get feats c))) ?av"
  let ?X = "map (\<lambda>c. (c, filled (the (dict_get feats c)))) ?av"
  have pres: "\<forall>c \<in> set ?av. dict_get feats c \<noteq> None"
    by (simp add: mem_keys_iff)
  have numc: "\<exists>col xs. dict_get feats c = Some col \<and> num_view col = Some xs" if "c \<in> set ?av" for c
    using that num by (auto simp: numeric_or_absent_def mem_keys_iff split: option.splits)
  have s: "select_cols feats ?av = Inr ?S"
    by (rule select_cols_present[OF pres])
  have "\<forall>(n, c) \<in> set ?S. num_view c \<noteq> None"
    using numc by fastforce
  from fillna_mean_num[OF this] have f: "fillna_mean ?S = Inr ?X"
    by (simp add: comp_def)
  have p: "prepare_features md feats = Inr ?X"
    by (simp add: prepare_features_def s f ebind_def)
  have k: "dict_keys ?X = ?av"
    by (simp add: dict_keys_def comp_def)
  have v: "\<exists>col xs. dict_get feats c = Some col \<and> num_view col = Some xs \<and>
      dict_get ?X c = Some (NumCol (map (\<lambda>x. if x = NaN then mean_skipna xs else x) xs))"
    if "c \<in> set (dict_keys ?X)" for c
  proof -
    from that k have c: "c \<in> set ?av" by simp
    from numc[OF c] obtain col xs where xs: "dict_get feats c = Some col" "num_view col = Some xs"
      by blast
    from c have "dict_get ?X c = Some (filled (the (dict_get feats c)))"
      by (simp only: dict_get_map_keys if_True)
    with xs show ?thesis by (simp add: filled_def)
  qed
  have m: "make_prediction sk st model_name feats = predict sk est ?X"
    by (simp add: make_prediction_def est md p ebind_def)
  from p m k v show ?thesis by blast
qed

theorem make_prediction_fill_witness:
  "make_prediction rejecting_sklearn
     \<lparr>models = [(''covid_forecast'', ())],
      model_metadata = [(''covid_forecast'',
        \<lparr>features = [''cases'', ''deaths''], best_model = ''linear_regression'',
         performance = RegPerf [], trained_date = ''2024-01-01''\<rparr>)],
      feature_importance = []\<rparr>
     ''covid_forecast'' [(''deaths'', NumCol [Fin 1, NaN, Fin 3])] =
   predict rejecting_sklearn () [(''deaths'', NumCol [Fin 1, Fin 2, Fin 3])] \<and>
   make_prediction rejecting_sklearn
     \<lparr>models = [(''covid_forecast'', ())],
      model_metadata = [(''covid_forecast'',
        \<lparr>features = [''cases'', ''deaths''], best_model = ''linear_regression'',
         performance = RegPerf [], trained_date = ''2024-01-01''\<rparr>)],
      feature_importance = []\<rparr>
     ''covid_forecast'' [(''cases'', ObjCol [PNone]), (''deaths'', NumCol [Fin 1])] =
   predict rejecting_sklearn () [(''cases'', NumCol [NaN]), (''deaths'', NumCol [Fin 1])]"
proof -
  let ?md = "\<lparr>features = [''cases'', ''deaths''], best_model = ''linear_regression'',
         performance = RegPerf [], trained_date = ''2024-01-01''\<rparr>"
  let ?st = "\<lparr>models = [(''covid_forecast'', ())],
      model_metadata = [(''covid_forecast'', ?md)], feature_importance = []\<rparr>"
  let ?feats = "[(''deaths'', NumCol [Fin 1, NaN, Fin 3])]"
  let ?row = "[(''cases'', ObjCol [PNone]), (''deaths'', NumCol [Fin 1])]"
  have e: "dict_get (models ?st) ''covid_forecast'' = Some ()"
    and m: "dict_get (model_metadata ?st) ''covid_forecast'' = Some ?md"
    by (simp_all add: dict_get_def)
  have n: "\<forall>c \<in> set (features ?md). numeric_or_absent ?feats c"
    "\<forall>c \<in> set (features ?md). numeric_or_absent ?row c"
    by (simp_all add: numeric_or_absent_def dict_get_def)
  from make_prediction_fill[OF e m n(1), of rejecting_sklearn] obtain X where
    p: "prepare_features ?md ?feats = Inr X"
    and r: "make_prediction rejecting_sklearn ?st ''covid_forecast'' ?feats = predict rejecting_sklearn () X"
    by blast
  have "prepare_features ?md ?feats = Inr [(''deaths'', NumCol [Fin 1, Fin 2, Fin 3])]"
    by (simp add: prepare_features_def dict_keys_def select_cols_def getcol_def dict_get_def
        ebind_def fillna_mean_def mean_skipna_def fmean_def fsum_def)
  with p have "X = [(''deaths'', NumCol [Fin 1, Fin 2, Fin 3])]" by simp
  with r have a: "make_prediction rejecting_sklearn ?st ''covid_forecast'' ?feats =
      predict rejecting_sklearn () [(''deaths'', NumCol [Fin 1, Fin 2, Fin 3])]" by simp
  from make_prediction_fill[OF e m n(2), of rejecting_sklearn] obtain Y where
    q: "prepare_features ?md ?row = Inr Y"
    and t: "make_prediction rejecting_sklearn ?st ''covid_forecast'' ?row = predict rejecting_sklearn () Y"
    by blast
  have "prepare_features ?md ?row = Inr [(''cases'', NumCol [NaN]), (''deaths'', NumCol [Fin 1])]"
    by (simp add: prepare_features_def dict_keys_def select_cols_def getcol_def dict_get_def
        ebind_def fillna_mean_def mean_skipna_def fmean_def fsum_def)
  with q have "Y = [(''cases'', NumCol [NaN]), (''deaths'', NumCol [Fin 1])]" by simp
  with t have b: "make_prediction rejecting_sklearn ?st ''covid_forecast'' ?row =
      predict rejecting_sklearn () [(''cases'', NumCol [NaN]), (''deaths'', NumCol [Fin 1])]" by simp
  from a b show ?thesis by (rule conjI)
qed

text \<open>
  The fill depends on the supplied rows alone: a single row keeps its missing cell, as a
  float or as the \<open>None\<close> of a null feature, and the same missing cell becomes 2 beside a
  2 and 4 beside a 4, whatever the model was trained on.
\<close>

theorem prediction_fill_from_supplied_rows:
  "prepare_features
     \<lparr>features = [''cases''], best_model = ''linear_regression'', performance = RegPerf [],
      trained_date = ''2024-01-01''\<rparr> [(''cases'', NumCol [NaN])] =
   Inr [(''cases'', NumCol [NaN])] \<and>
   prepare_features
     \<lparr>features = [''cases''], best_model = ''linear_regression'', performance = RegPerf [],
      trained_date = ''2024-01-01''\<rparr> [(''cases'', ObjCol [PNone])] =
   Inr [(''cases'', NumCol [NaN])] \<and>
   prepare_features
     \<lparr>features = [''cases''], best_model = ''linear_regression'', performance = RegPerf [],
      trained_date = ''2024-01-01''\<rparr> [(''cases'', NumCol [Fin 2, NaN])] =
   Inr [(''cases'', NumCol [Fin 2, Fin 2])] \<and>
   prepare_features
     \<lparr>features = [''cases''], best_model = ''linear_regression'', performance = RegPerf [],
      trained_date = ''2024-01-01''\<rparr> [(''cases'', NumCol [Fin 4, NaN])] =
   Inr [(''cases'', NumCol [Fin 4, Fin 4])]"
  by (simp add: prepare_features_def dict_keys_def select_cols_def getcol_def dict_get_def
      ebind_def fillna_mean_def mean_skipna_def fmean_def fsum_def)

subsection \<open>Selection of the best candidate\<close>

lemma train_regressors_results:
  "train_regressors sk cs X_train y_train X_test y_test (b, s, r) = (b', s', r') \<Longrightarrow>
   (b \<noteq> None \<longrightarrow> r \<noteq> []) \<Longrightarrow> (b' \<noteq> None \<longrightarrow> r' \<noteq> [])"
proof (induction cs arbitrary: b s r)
  case Nil
  then show ?case by simp
next
  case (Cons c cs)
  obtain name model where c: "c = (name, model)" by (cases c)
  show ?case
  proof (cases "evaluate_regressor sk model X_train y_train X_test y_test")
    case (Inl e)
    with Cons c show ?thesis by simp
  next
    case (Inr em)
    obtain est m where em: "em = (est, m)" by (cases em)
    show ?thesis
    proof (cases "fgt (Fin (r2 m)) s")
      case True
      with Cons.prems(1) c Inr em
      have "train_regressors sk cs X_train y_train X_test y_test (Some est, Fin (r2 m), dict_set r name m) = (b', s', r')"
        by simp
      from Cons.IH[OF this] show ?thesis by (simp add: dict_set_nonempty)
    next
      case False
      with Cons.prems(1) c Inr em
      have "train_regressors sk cs X_train y_train X_test y_test (b, s, dict_set r name m) = (b', s', r')"
        by simp
      from Cons.IH[OF this] show ?thesis by (simp add: dict_set_nonempty)
    qed
  qed
qed

lemma train_classifiers_results:
  "train_classifiers sk cs X_train y_train X_test y_test (b, s, r) = (b', s', r') \<Longrightarrow>
   (b \<noteq> None \<longrightarrow> r \<noteq> []) \<Longrightarrow> (b' \<noteq> None \<longrightarrow> r' \<noteq> [])"
proof (induction cs arbitrary: b s r)
  case Nil
  then show ?case by simp
next
  case (Cons c cs)
  obtain name model where c: "c = (name, model)" by (cases c)
  show ?case
  proof (cases "evaluate_classifier sk model X_train y_train X_test y_test")
    case (Inl e)
    with Cons c show ?thesis by simp
  next
    case (Inr em)
    obtain est m where em: "em = (est, m)" by (cases em)
    show ?thesis
    proof (cases "fgt (Fin (accuracy m)) s")
      case True
      with Cons.prems(1) c Inr em
      have "train_classifiers sk cs X_train y_train X_test y_test (Some est, Fin (accuracy m), dict_set r name m) = (b', s', r')"
        by simp
      from Cons.IH[OF this] show ?thesis by (simp add: dict_set_nonempty)
    next
      case False
      with Cons.prems(1) c Inr em
      have "train_classifiers sk cs X_train y_train X_test y_test (b, s, dict_set r name m) = (b', s', r')"
        by simp
      from Cons.IH[OF this] show ?thesis by (simp add: dict_set_nonempty)
    qed
  qed
qed

lemma train_forecasting_model_outcome:
  "train_forecasting_model cfg sk now st df =
   finish_training sk (model_key cfg) RegPerf now st (forecasting_outcome cfg sk df)"
  unfolding train_forecasting_model_def forecasting_outcome_def
  by (auto simp: finish_training_def ebind_def Let_def split: sum.splits prod.splits option.splits)

lemma train_weather_classification_model_outcome:
  "train_weather_classification_model sk now st df =
   finish_training sk ''weather_classification'' ClsPerf now st (classification_outcome sk df)"
  unfolding train_weather_classification_model_def classification_outcome_def
  by (auto simp: finish_training_def ebind_def Let_def split: sum.splits prod.splits option.splits)

lemma first_max_unique: "first_max key ms i \<Longrightarrow> first_max key ms j \<Longrightarrow> i = j"
  unfolding first_max_def
  by (metis less_le_not_le linorder_neqE_nat)

lemma first_max_snoc:
  assumes "first_max key ms i"
  shows "first_max key (ms @ [m]) (if key (ms ! i) < key m then length ms else i)"
proof (cases "key (ms ! i) < key m")
  case True
  have "key ((ms @ [m]) ! j) \<le> key m" if "j < Suc (length ms)" for j
  proof (cases "j < length ms")
    case True
    with assms \<open>key (ms ! i) < key m\<close> have "key (ms ! j) \<le> key m"
      unfolding first_max_def by (meson less_le_trans less_imp_le order_trans)
    with True show ?thesis by (simp add: nth_append)
  next
    case False
    with that have "j = length ms" by simp
    then show ?thesis by simp
  qed
  moreover have "key ((ms @ [m]) ! j) < key m" if "j < length ms" for j
    using assms True that unfolding first_max_def
    by (simp add: nth_append) (meson le_less_trans)
  ultimately show ?thesis using True by (simp add: first_max_def)
next
  case False
  with assms show ?thesis
    unfolding first_max_def
    by (auto simp: nth_append less_Suc_eq)
qed

lemma foldl_max_first:
  "\<exists>i. first_max key (x # xs) i \<and>
       foldl (\<lambda>m y. if key m < key y then y else m) x xs = (x # xs) ! i"
proof (induction xs rule: rev_induct)
  case Nil
  then show ?case by (simp add: first_max_def)
next
  case (snoc y ys)
  then obtain i where i: "first_max key (x # ys) i"
    and f: "foldl (\<lambda>m y. if key m < key y then y else m) x ys = (x # ys) ! i" by blast
  from first_max_snoc[OF i, of y]
  have fm: "first_max key (x # ys @ [y]) (if key ((x # ys) ! i) < key y then length (x # ys) else i)"
    by simp
  from i have il: "i < length (x # ys)" by (simp add: first_max_def)
  show ?case
  proof (cases "key ((x # ys) ! i) < key y")
    case True
    with fm f show ?thesis
      by (intro exI[of _ "length (x # ys)"]) (simp add: nth_append)
  next
    case False
    from il have "((x # ys) @ [y]) ! i = (x # ys) ! i"
      by (simp only: nth_append if_True)
    then have e: "(x # ys @ [y]) ! i = (x # ys) ! i" by simp
    from False fm have "first_max key (x # ys @ [y]) i" by simp
    moreover from False f e
    have "foldl (\<lambda>m y. if key m < key y then y else m) x (ys @ [y]) = (x # ys @ [y]) ! i"
      by simp
    ultimately show ?thesis by blast
  qed
qed

lemma py_max_first:
  "ms \<noteq> [] \<Longrightarrow> \<exists>i. first_max key ms i \<and> py_max key ms = Some (ms ! i)"
  using foldl_max_first[of key "hd ms" "tl ms"] by (cases ms) auto

lemma py_index_first:
  "v \<in> set xs \<Longrightarrow> \<exists>j < length xs. py_index xs v = Some j \<and> xs ! j = v \<and> (\<forall>k < j. xs ! k \<noteq> v)"
proof (induction xs)
  case Nil
  then show ?case by simp
next
  case (Cons x xs)
  show ?case
  proof (cases "x = v")
    case True
    then show ?thesis by auto
  next
    case False
    with Cons obtain j where j: "j < length xs" "py_index xs v = Some j" "xs ! j = v"
      "\<forall>k < j. xs ! k \<noteq> v" by auto
    with False show ?thesis
      by (intro exI[of _ "Suc j"]) (auto simp: nth_Cons')
  qed
qed

lemma best_name_first_max:
  assumes "results \<noteq> []"
  shows "\<exists>i. first_max key (dict_values results) i \<and> best_name key results = Inr (fst (results ! i))"
proof -
  let ?vs = "dict_values results"
  from assms have "?vs \<noteq> []" by (simp add: dict_values_def)
  from py_max_first[OF this, of key] obtain i where
    i: "first_max key ?vs i" and m: "py_max key ?vs = Some (?vs ! i)" by blast
  from i have il: "i < length ?vs" by (simp add: first_max_def)
  then have "?vs ! i \<in> set ?vs" by simp
  from py_index_first[OF this] obtain j where
    j: "j < length ?vs" "py_index ?vs (?vs ! i) = Some j" "?vs ! j = ?vs ! i"
    "\<forall>k < j. ?vs ! k \<noteq> ?vs ! i" by blast
  have "j = i"
  proof (rule ccontr)
    assume ne: "j \<noteq> i"
    from j(4) il have "\<not> i < j" by blast
    with ne have "j < i" by simp
    with i have "key (?vs ! j) < key (?vs ! i)" by (simp add: first_max_def)
    with j(3) show False by simp
  qed
  with m j(2) il have "best_name key results = Inr (fst (results ! i))"
    by (simp add: best_name_def dict_keys_def dict_values_def)
  with i show ?thesis by blast
qed

lemma train_regressors_loop:
  "train_regressors sk cs X_train y_train X_test y_test s =
   select_loop (\<lambda>model. evaluate_regressor sk model X_train y_train X_test y_test) r2 cs s"
  by (induction sk cs X_train y_train X_test y_test s rule: train_regressors.induct)
     (auto split: sum.splits)

lemma train_classifiers_loop:
  "train_classifiers sk cs X_train y_train X_test y_test s =
   select_loop (\<lambda>model. evaluate_classifier sk model X_train y_train X_test y_test) accuracy cs s"
  by (induction sk cs X_train y_train X_test y_test s rule: train_classifiers.induct)
     (auto split: sum.splits)

lemma dict_set_new: "k \<notin> set (dict_keys d) \<Longrightarrow> dict_set d k v = d @ [(k, v)]"
  by (induction d k v rule: dict_set.induct) (auto simp: dict_keys_def)

lemma loop_inv_mono: "loop_inv ev key D s \<Longrightarrow> D \<subseteq> D' \<Longrightarrow> loop_inv ev key D' s"
  unfolding loop_inv_def
  by (auto split: prod.splits option.splits) blast+

lemma loop_inv_SomeI:
  "set (dict_keys results) \<subseteq> fst ` D \<Longrightarrow> first_max key (dict_values results) i \<Longrightarrow>
   s = Fin (key (snd (results ! i))) \<Longrightarrow> (fst (results ! i), model) \<in> D \<Longrightarrow>
   ev model = Inr (est, snd (results ! i)) \<Longrightarrow> loop_inv ev key D (Some est, s, results)"
  unfolding loop_inv_def by auto

lemma loop_inv_step:
  assumes inv: "loop_inv ev key D (best, best_score, results)"
    and new: "name \<notin> fst ` D"
    and ev: "ev model = Inr (est, m)"
  shows "loop_inv ev key (insert (name, model) D)
           (if fgt (Fin (key m)) best_score
            then (Some est, Fin (key m), dict_set results name m)
            else (best, best_score, dict_set results name m))"
proof -
  from inv new have nk: "name \<notin> set (dict_keys results)"
    by (auto simp: loop_inv_def)
  then have ds: "dict_set results name m = results @ [(name, m)]" by (rule dict_set_new)
  from inv have keys: "set (dict_keys (results @ [(name, m)])) \<subseteq> fst ` insert (name, model) D"
    by (auto simp: loop_inv_def dict_keys_def)
  show ?thesis
  proof (cases best)
    case None
    with inv have r: "results = []" and s: "best_score = NInf" by (simp_all add: loop_inv_def)
    have "first_max key [m] 0" by (simp add: first_max_def)
    then have "loop_inv ev key (insert (name, model) D) (Some est, Fin (key m), [(name, m)])"
      using ev by (intro loop_inv_SomeI[where i = 0 and model = model])
        (simp_all add: dict_keys_def dict_values_def)
    with r s show ?thesis by (simp add: fgt_def)
  next
    case (Some e0)
    with inv obtain i model0 where
      i: "first_max key (dict_values results) i"
      and s: "best_score = Fin (key (snd (results ! i)))"
      and m0: "(fst (results ! i), model0) \<in> D" "ev model0 = Inr (e0, snd (results ! i))"
      by (auto simp: loop_inv_def)
    from i have il: "i < length results" by (simp add: first_max_def dict_values_def)
    then have vi: "dict_values results ! i = snd (results ! i)" by (simp add: dict_values_def)
    have len: "length (dict_values results) = length results"
      and app: "dict_values (results @ [(name, m)]) = dict_values results @ [m]"
      by (simp_all add: dict_values_def)
    from first_max_snoc[OF i, of m]
    have fm: "first_max key (dict_values (results @ [(name, m)]))
        (if key (snd (results ! i)) < key m then length results else i)"
      unfolding vi len app .
    show ?thesis
    proof (cases "key (snd (results ! i)) < key m")
      case True
      with fm have "first_max key (dict_values (results @ [(name, m)])) (length results)" by simp
      then have "loop_inv ev key (insert (name, model) D)
          (Some est, Fin (key m), results @ [(name, m)])"
        using ev keys by (intro loop_inv_SomeI[where i = "length results" and model = model]) simp_all
      with True s show ?thesis unfolding ds by (simp add: fgt_def)
    next
      case False
      with fm have f: "first_max key (dict_values (results @ [(name, m)])) i" by simp
      from il have n: "(results @ [(name, m)]) ! i = results ! i" by (simp add: nth_append)
      have "loop_inv ev key (insert (name, model) D) (Some e0, best_score, results @ [(name, m)])"
        using keys f s m0 by (intro loop_inv_SomeI[where i = i and model = model0]) (simp_all add: n)
      with False s Some show ?thesis unfolding ds by (simp add: fgt_def)
    qed
  qed
qed

lemma select_loop_inv:
  "loop_inv ev key D s \<Longrightarrow> distinct (map fst cs) \<Longrightarrow> fst ` D \<inter> set (map fst cs) = {} \<Longrightarrow>
   loop_inv ev key (D \<union> set cs) (select_loop ev key cs s)"
proof (induction cs arbitrary: D s)
  case Nil
  then show ?case by simp
next
  case (Cons c cs)
  obtain name model where c: "c = (name, model)" by (cases c)
  obtain best best_score results where s: "s = (best, best_score, results)" by (cases s)
  from Cons.prems c have new: "name \<notin> fst ` D" and d: "distinct (map fst cs)"
    and nn: "name \<notin> set (map fst cs)" and disj: "fst ` D \<inter> set (map fst cs) = {}"
    by auto
  from disj nn have disj': "fst ` insert (name, model) D \<inter> set (map fst cs) = {}" by auto
  have u: "insert (name, model) D \<union> set cs = D \<union> set (c # cs)" using c by auto
  show ?case
  proof (cases "ev model")
    case (Inl e)
    from loop_inv_mono[OF Cons.prems(1), of "insert (name, model) D"]
    have "loop_inv ev key (insert (name, model) D) s" by auto
    from Cons.IH[OF this d disj'] Inl c s u show ?thesis by simp
  next
    case (Inr em)
    obtain est m where em: "em = (est, m)" by (cases em)
    from loop_inv_step[OF Cons.prems(1)[unfolded s] new Inr[unfolded em]]
    have "loop_inv ev key (insert (name, model) D)
           (if fgt (Fin (key m)) best_score
            then (Some est, Fin (key m), dict_set results name m)
            else (best, best_score, dict_set results name m))" .
    from Cons.IH[OF this d disj'] Inr em c s u show ?thesis by simp
  qed
qed

lemma select_loop_selected:
  assumes run: "select_loop ev key cs (None, NInf, []) = (Some est, best_score, results)"
    and d: "distinct (map fst cs)"
  shows "\<exists>name m model. best_name key results = Inr name \<and> selected key results name m \<and>
           (name, model) \<in> set cs \<and> ev model = Inr (est, m) \<and> results \<noteq> []"
proof -
  have "loop_inv ev key {} (None, NInf, [])" by (simp add: loop_inv_def dict_keys_def)
  from select_loop_inv[OF this d] run
  have "loop_inv ev key (set cs) (Some est, best_score, results)" by simp
  then obtain i model where
    i: "first_max key (dict_values results) i"
    and m: "(fst (results ! i), model) \<in> set cs" "ev model = Inr (est, snd (results ! i))"
    by (auto simp: loop_inv_def)
  from i have ne: "results \<noteq> []" by (auto simp: first_max_def dict_values_def)
  from best_name_first_max[OF ne, of key] obtain j where
    j: "first_max key (dict_values results) j" "best_name key results = Inr (fst (results ! j))"
    by blast
  from first_max_unique[OF i j(1)] j(2) have b: "best_name key results = Inr (fst (results ! i))"
    by simp
  have "selected key results (fst (results ! i)) (snd (results ! i))"
    using i by (auto simp: selected_def)
  with b m ne show ?thesis by blast
qed

lemma forecasting_outcome_run:
  assumes "forecasting_outcome cfg sk df = Inr (Some (est, av, name, results))"
  shows "\<exists>X_train X_test y_train y_test bs.
           train_regressors sk (candidates cfg) X_train y_train X_test y_test (None, NInf, []) =
             (Some est, bs, results) \<and> best_name r2 results = Inr name"
proof -
  from assms have "\<exists>X_train X_test y_train y_test.
      fst (train_regressors sk (candidates cfg) X_train y_train X_test y_test (None, NInf, [])) = Some est \<and>
      snd (snd (train_regressors sk (candidates cfg) X_train y_train X_test y_test (None, NInf, []))) = results \<and>
      best_name r2 results = Inr name"
    unfolding forecasting_outcome_def
    by (simp add: ebind_Inr_iff Let_def case_prod_beta split: if_splits option.splits) blast
  then show ?thesis by (metis prod.collapse)
qed

lemma classification_outcome_run:
  assumes "classification_outcome sk df = Inr (Some (est, av, name, results))"
  shows "\<exists>X_train X_test y_train y_test bs.
           train_classifiers sk weather_models X_train y_train X_test y_test (None, NInf, []) =
             (Some est, bs, results) \<and> best_name accuracy results = Inr name"
proof -
  from assms have "\<exists>X_train X_test y_train y_test.
      fst (train_classifiers sk weather_models X_train y_train X_test y_test (None, NInf, [])) = Some est \<and>
      snd (snd (train_classifiers sk weather_models X_train y_train X_test y_test (None, NInf, []))) = results \<and>
      best_name accuracy results = Inr name"
    unfolding classification_outcome_def
    by (simp add: ebind_Inr_iff Let_def case_prod_beta split: if_splits option.splits) blast
  then show ?thesis by (metis prod.collapse)
qed

lemma forecasting_outcome_selected:
  assumes o: "forecasting_outcome cfg sk df = Inr (Some (est, av, name, results))"
    and d: "distinct (map fst (candidates cfg))"
  shows "results \<noteq> [] \<and>
         (\<exists>m model X_train y_train X_test y_test.
            selected r2 results name m \<and> (name, model) \<in> set (candidates cfg) \<and>
            evaluate_regressor sk model X_train y_train X_test y_test = Inr (est, m))"
proof -
  from forecasting_outcome_run[OF o] obtain X_train X_test y_train y_test bs where
    run: "train_regressors sk (candidates cfg) X_train y_train X_test y_test (None, NInf, []) =
             (Some est, bs, results)" and b: "best_name r2 results = Inr name" by blast
  from select_loop_selected[OF run[unfolded train_regressors_loop] d] obtain name' m model where
    s: "best_name r2 results = Inr name'" "selected r2 results name' m"
    "(name', model) \<in> set (candidates cfg)"
    "evaluate_regressor sk model X_train y_train X_test y_test = Inr (est, m)" "results \<noteq> []"
    by blast
  from s(1) b have "name' = name" by simp
  with s show ?thesis by blast
qed

lemma classification_outcome_selected:
  assumes o: "classification_outcome sk df = Inr (Some (est, av, name, results))"
  shows "results \<noteq> [] \<and>
         (\<exists>m model X_train y_train X_test y_test.
            selected accuracy results name m \<and> (name, model) \<in> set weather_models \<and>
            evaluate_classifier sk model X_train y_train X_test y_test = Inr (est, m))"
proof -
  have d: "distinct (map fst weather_models)" by (simp add: weather_models_def)
  from classification_outcome_run[OF o] obtain X_train X_test y_train y_test bs where
    run: "train_classifiers sk weather_models X_train y_train X_test y_test (None, NInf, []) =
             (Some est, bs, results)" and b: "best_name accuracy results = Inr name" by blast
  from select_loop_selected[OF run[unfolded train_classifiers_loop] d] obtain name' m model where
    s: "best_name accuracy results = Inr name'" "selected accuracy results name' m"
    "(name', model) \<in> set weather_models"
    "evaluate_classifier sk model X_train y_train X_test y_test = Inr (est, m)" "results \<noteq> []"
    by blast
  from s(1) b have "name' = name" by simp
  with s show ?thesis by blast
qed

lemma distinct_candidates:
  "distinct (map fst (candidates covid_config))" "distinct (map fst (candidates stock_config))"
  by (simp_all add: covid_config_def stock_config_def)

lemma finish_training_empty:
  assumes "finish_training sk key perf now st r = Inr (st', [])"
    and "\<And>est av name results. r = Inr (Some (est, av, name, results)) \<Longrightarrow> results \<noteq> []"
  shows "st' = st"
  using assms by (auto simp: finish_training_def split: sum.splits option.splits)

lemma finish_training_nonempty:
  assumes "finish_training sk key perf now st r = Inr (st', results)" and "results \<noteq> []"
  shows "\<exists>est av name. r = Inr (Some (est, av, name, results)) \<and>
           st' = store_model sk now st key est av name (perf results)"
proof (cases r)
  case (Inl e)
  with assms show ?thesis by (simp add: finish_training_def)
next
  case (Inr o')
  show ?thesis
  proof (cases o')
    case None
    with Inr assms show ?thesis by (simp add: finish_training_def)
  next
    case (Some t)
    obtain est av name res where t: "t = (est, av, name, res)" by (cases t)
    with Inr Some assms show ?thesis by (auto simp add: finish_training_def)
  qed
qed

lemma store_model_get:
  "dict_get (models (store_model sk now st key est av name perf)) key = Some est"
  "dict_get (model_metadata (store_model sk now st key est av name perf)) key =
     Some \<lparr>features = av, best_model = name, performance = perf, trained_date = now\<rparr>"
  by (simp_all add: store_model_def dict_get_dict_set)

lemma select_loop_results:
  "distinct (map fst cs) \<Longrightarrow> set (map fst cs) \<inter> set (dict_keys acc) = {} \<Longrightarrow>
   snd (snd (select_loop ev key cs (b, s, acc))) = acc @ survivors ev cs"
proof (induction cs arbitrary: b s acc)
  case Nil
  then show ?case by (simp add: survivors_def)
next
  case (Cons c cs)
  obtain name model where c: "c = (name, model)" by (cases c)
  show ?case
  proof (cases "ev model")
    case (Inl e)
    have "snd (snd (select_loop ev key cs (b, s, acc))) = acc @ survivors ev cs"
      using Cons.prems by (intro Cons.IH) auto
    with Inl c show ?thesis by (simp add: survivors_def)
  next
    case (Inr em)
    obtain est m where em: "em = (est, m)" by (cases em)
    from Cons.prems c have new: "name \<notin> set (dict_keys acc)" by auto
    have d: "dict_set acc name m = acc @ [(name, m)]" by (rule dict_set_new[OF new])
    have pre: "distinct (map fst cs)" "set (map fst cs) \<inter> set (dict_keys (acc @ [(name, m)])) = {}"
      using Cons.prems c by (auto simp: dict_keys_def)
    have "snd (snd (select_loop ev key cs (b', s', acc @ [(name, m)]))) =
        (acc @ [(name, m)]) @ survivors ev cs" for b' s'
      by (rule Cons.IH[OF pre])
    with Inr em c d show ?thesis by (simp add: survivors_def)
  qed
qed

lemma forecasting_outcome_partitions:
  "forecasting_outcome cfg sk df =
     ebind (forecasting_partitions cfg sk df) (\<lambda>p.
       case p of
         None \<Rightarrow> Inr None
       | Some (av, X_train, X_test, y_train, y_test) \<Rightarrow>
           (case train_regressors sk (candidates cfg) X_train y_train X_test y_test (None, NInf, []) of
              (best, best_score, results) \<Rightarrow>
                (case best of
                   None \<Rightarrow> Inr None
                 | Some est \<Rightarrow> ebind (best_name r2 results) (\<lambda>name. Inr (Some (est, av, name, results))))))"
  unfolding forecasting_outcome_def forecasting_partitions_def
  by (auto simp: ebind_def Let_def split: sum.splits prod.splits option.splits)

lemma classification_outcome_partitions:
  "classification_outcome sk df =
     ebind (classification_partitions sk df) (\<lambda>p.
       case p of
         None \<Rightarrow> Inr None
       | Some (av, X_train, X_test, y_train, y_test) \<Rightarrow>
           (case train_classifiers sk weather_models X_train y_train X_test y_test (None, NInf, []) of
              (best, best_score, results) \<Rightarrow>
                (case best of
                   None \<Rightarrow> Inr None
                 | Some est \<Rightarrow>
                     ebind (best_name accuracy results) (\<lambda>name. Inr (Some (est, av, name, results))))))"
  unfolding classification_outcome_def classification_partitions_def
  by (auto simp: ebind_def Let_def split: sum.splits prod.splits option.splits)

lemma outcome_cases:
  assumes "ebind parts (\<lambda>p.
       case p of
         None \<Rightarrow> Inr None
       | Some (av, X_train, X_test, y_train, y_test) \<Rightarrow>
           (case loop X_train y_train X_test y_test of
              (best, best_score, results) \<Rightarrow>
                (case best of
                   None \<Rightarrow> Inr None
                 | Some est \<Rightarrow> ebind (bn results) (\<lambda>name. Inr (Some (est, av, name, results)))))) =
     Inr (Some (est, av, name, results))"
  shows "\<exists>X_train X_test y_train y_test bs.
           parts = Inr (Some (av, X_train, X_test, y_train, y_test)) \<and>
           loop X_train y_train X_test y_test = (Some est, bs, results) \<and>
           bn results = Inr name"
  using assms
  by (auto simp: ebind_def split: sum.splits option.splits prod.splits)

lemma evaluate_regressor_Inr:
  "evaluate_regressor sk model X_train y_train X_test y_test = Inr (est, m) \<longleftrightarrow>
   (\<exists>y_pred. fit sk model X_train y_train = Inr est \<and> predict sk est X_test = Inr y_pred \<and>
      mean_squared_error sk y_test y_pred = Inr (mse m) \<and>
      r2_score sk y_test y_pred = Inr (r2 m) \<and> rmse m = sqrt (mse m))"
  by (cases m) (auto simp: evaluate_regressor_def ebind_def split: sum.splits)

lemma evaluate_classifier_Inr:
  "evaluate_classifier sk model X_train y_train X_test y_test = Inr (est, m) \<longleftrightarrow>
   (\<exists>y_pred. fit sk model X_train y_train = Inr est \<and> predict sk est X_test = Inr y_pred \<and>
      accuracy_score sk y_test y_pred = Inr (accuracy m) \<and>
      classification_report sk y_test y_pred = Inr (report_of m))"
  by (cases m) (auto simp: evaluate_classifier_def ebind_def split: sum.splits)

lemma forecasting_outcome_held_out:
  assumes o: "forecasting_outcome cfg sk df = Inr (Some (est, av, name, results))"
    and d: "distinct (map fst (candidates cfg))"
  shows "\<exists>X_train X_test y_train y_test m model y_pred.
           forecasting_partitions cfg sk df = Inr (Some (av, X_train, X_test, y_train, y_test)) \<and>
           results = survivors (\<lambda>model. evaluate_regressor sk model X_train y_train X_test y_test)
                       (candidates cfg) \<and>
           selected r2 results name m \<and> (name, model) \<in> set (candidates cfg) \<and>
           fit sk model X_train y_train = Inr est \<and> predict sk est X_test = Inr y_pred \<and>
           mean_squared_error sk y_test y_pred = Inr (mse m) \<and>
           r2_score sk y_test y_pred = Inr (r2 m)"
proof -
  from outcome_cases[OF o[unfolded forecasting_outcome_partitions]]
  obtain X_train X_test y_train y_test bs where
    p: "forecasting_partitions cfg sk df = Inr (Some (av, X_train, X_test, y_train, y_test))"
    and l: "train_regressors sk (candidates cfg) X_train y_train X_test y_test (None, NInf, []) =
      (Some est, bs, results)"
    and b: "best_name r2 results = Inr name"
    by blast
  let ?ev = "\<lambda>model. evaluate_regressor sk model X_train y_train X_test y_test"
  from l have sl: "select_loop ?ev r2 (candidates cfg) (None, NInf, []) = (Some est, bs, results)"
    by (simp add: train_regressors_loop)
  from select_loop_results[OF d, of "[]" ?ev r2 None NInf] sl
  have r: "results = survivors ?ev (candidates cfg)" by (simp add: dict_keys_def)
  from select_loop_selected[OF sl d] obtain name' m model where
    s: "best_name r2 results = Inr name'" "selected r2 results name' m"
    "(name', model) \<in> set (candidates cfg)" "?ev model = Inr (est, m)"
    by blast
  from s(1) b have n: "name' = name" by simp
  from s(4) obtain y_pred where
    e: "fit sk model X_train y_train = Inr est" "predict sk est X_test = Inr y_pred"
    "mean_squared_error sk y_test y_pred = Inr (mse m)" "r2_score sk y_test y_pred = Inr (r2 m)"
    by (auto simp: evaluate_regressor_Inr)
  from p r s(2,3) e show ?thesis unfolding n by blast
qed

lemma classification_outcome_held_out:
  assumes o: "classification_outcome sk df = Inr (Some (est, av, name, results))"
  shows "\<exists>X_train X_test y_train y_test m model y_pred.
           classification_partitions sk df = Inr (Some (av, X_train, X_test, y_train, y_test)) \<and>
           results = survivors (\<lambda>model. evaluate_classifier sk model X_train y_train X_test y_test)
                       weather_models \<and>
           selected accuracy results name m \<and> (name, model) \<in> set weather_models \<and>
           fit sk model X_train y_train = Inr est \<and> predict sk est X_test = Inr y_pred \<and>
           accuracy_score sk y_test y_pred = Inr (accuracy m)"
proof -
  have d: "distinct (map fst weather_models)" by (simp add: weather_models_def)
  from outcome_cases[OF o[unfolded classification_outcome_partitions]]
  obtain X_train X_test y_train y_test bs where
    p: "classification_partitions sk df = Inr (Some (av, X_train, X_test, y_train, y_test))"
    and l: "train_classifiers sk weather_models X_train y_train X_test y_test (None, NInf, []) =
      (Some est, bs, results)"
    and b: "best_name accuracy results = Inr name"
    by blast
  let ?ev = "\<lambda>model. evaluate_classifier sk model X_train y_train X_test y_test"
  from l have sl: "select_loop ?ev accuracy weather_models (None, NInf, []) = (Some est, bs, results)"
    by (simp add: train_classifiers_loop)
  from select_loop_results[OF d, of "[]" ?ev accuracy None NInf] sl
  have r: "results = survivors ?ev weather_models" by (simp add: dict_keys_def)
  from select_loop_selected[OF sl d] obtain name' m model where
    s: "best_name accuracy results = Inr name'" "selected accuracy results name' m"
    "(name', model) \<in> set weather_models" "?ev model = Inr (est, m)"
    by blast
  from s(1) b have n: "name' = name" by simp
  from s(4) obtain y_pred where
    e: "fit sk model X_train y_train = Inr est" "predict sk est X_test = Inr y_pred"
    "accuracy_score sk y_test y_pred = Inr (accuracy m)"
    by (auto simp: evaluate_classifier_Inr)
  from p r s(2,3) e show ?thesis unfolding n by blast
qed


text \<open>
  C2.  When a training function returns a result dictionary that is not empty, the
  dictionary holds, in the order the candidates are written, the metrics of every
  candidate whose fit on the training partition and scoring on the held-out partition did
  not raise; the partitions are the ones \<open>train_test_split\<close> made of the feature table
  and target with a fifth held out and seed 42.  The name recorded as \<open>best_model\<close> and
  the estimator stored belong to one candidate: the first one in that order whose primary
  held-out metric (the coefficient of determination for the two regressions, accuracy for
  the classification) is the greatest among them; the stored estimator is the one fitted
  on the training partition and its recorded metrics are those of its predictions on the
  held-out rows.  On equal primary metrics the earlier candidate is kept; neither the
  root-mean-squared error nor any F1 score is consulted.
\<close>

theorem best_candidate_is_first_maximum:
  "(train_covid_forecasting_model sk now st df = Inr (st', results) \<and> results \<noteq> [] \<longrightarrow>
      (\<exists>av X_train X_test y_train y_test md est m model y_pred.
         forecasting_partitions covid_config sk df =
           Inr (Some (av, X_train, X_test, y_train, y_test)) \<and>
         results = survivors (\<lambda>model. evaluate_regressor sk model X_train y_train X_test y_test)
                     (candidates covid_config) \<and>
         dict_get (model_metadata st') ''covid_forecast'' = Some md \<and>
         performance md = RegPerf results \<and> features md = av \<and>
         dict_get (models st') ''covid_forecast'' = Some est \<and>
         selected r2 results (best_model md) m \<and>
         (best_model md, model) \<in> set (candidates covid_config) \<and>
         fit sk model X_train y_train = Inr est \<and> predict sk est X_test = Inr y_pred \<and>
         mean_squared_error sk y_test y_pred = Inr (mse m) \<and>
         r2_score sk y_test y_pred = Inr (r2 m))) \<and>
   (train_stock_prediction_model sk now st df = Inr (st', results) \<and> results \<noteq> [] \<longrightarrow>
      (\<exists>av X_train X_test y_train y_test md est m model y_pred.
         forecasting_partitions stock_config sk df =
           Inr (Some (av, X_train, X_test, y_train, y_test)) \<and>
         results = survivors (\<lambda>model. evaluate_regressor sk model X_train y_train X_test y_test)
                     (candidates stock_config) \<and>
         dict_get (model_metadata st') ''stock_prediction'' = Some md \<and>
         performance md = RegPerf results \<and> features md = av \<and>
         dict_get (models st') ''stock_prediction'' = Some est \<and>
         selected r2 results (best_model md) m \<and>
         (best_model md, model) \<in> set (candidates stock_config) \<and>
         fit sk model X_train y_train = Inr est \<and> predict sk est X_test = Inr y_pred \<and>
         mean_squared_error sk y_test y_pred = Inr (mse m) \<and>
         r2_score sk y_test y_pred = Inr (r2 m))) \<and>
   (train_weather_classification_model sk now st df = Inr (st', cresults) \<and> cresults \<noteq> [] \<longrightarrow>
      (\<exists>av X_train X_test y_train y_test md est m model y_pred.
         classification_partitions sk df = Inr (Some (av, X_train, X_test, y_train, y_test)) \<and>
         cresults = survivors (\<lambda>model. evaluate_classifier sk model X_train y_train X_test y_test)
                      weather_models \<and>
         dict_get (model_metadata st') ''weather_classification'' = Some md \<and>
         performance md = ClsPerf cresults \<and> features md = av \<and>
         dict_get (models st') ''weather_classification'' = Some est \<and>
         selected accuracy cresults (best_model md) m \<and>
         (best_model md, model) \<in> set weather_models \<and>
         fit sk model X_train y_train = Inr est \<and> predict sk est X_test = Inr y_pred \<and>
         accuracy_score sk y_test y_pred = Inr (accuracy m)))"
proof (intro conjI impI)
  assume "train_covid_forecasting_model sk now st df = Inr (st', results) \<and> results \<noteq> []"
  then have "finish_training sk ''covid_forecast'' RegPerf now st
      (forecasting_outcome covid_config sk df) = Inr (st', results)" and ne: "results \<noteq> []"
    by (simp_all add: train_covid_forecasting_model_def train_forecasting_model_outcome
        covid_config_def)
  from finish_training_nonempty[OF this] obtain est av name where
    o: "forecasting_outcome covid_config sk df = Inr (Some (est, av, name, results))"
    and s: "st' = store_model sk now st ''covid_forecast'' est av name (RegPerf results)"
    by blast
  from forecasting_outcome_held_out[OF o distinct_candidates(1)]
  obtain X_train X_test y_train y_test m model y_pred where
    "forecasting_partitions covid_config sk df = Inr (Some (av, X_train, X_test, y_train, y_test))"
    "results = survivors (\<lambda>model. evaluate_regressor sk model X_train y_train X_test y_test)
                       (candidates covid_config)"
    "selected r2 results name m" "(name, model) \<in> set (candidates covid_config)"
    "fit sk model X_train y_train = Inr est" "predict sk est X_test = Inr y_pred"
    "mean_squared_error sk y_test y_pred = Inr (mse m)" "r2_score sk y_test y_pred = Inr (r2 m)"
    by blast
  then show "\<exists>av X_train X_test y_train y_test md est m model y_pred.
         forecasting_partitions covid_config sk df =
           Inr (Some (av, X_train, X_test, y_train, y_test)) \<and>
         results = survivors (\<lambda>model. evaluate_regressor sk model X_train y_train X_test y_test)
                     (candidates covid_config) \<and>
         dict_get (model_metadata st') ''covid_forecast'' = Some md \<and>
         performance md = RegPerf results \<and> features md = av \<and>
         dict_get (models st') ''covid_forecast'' = Some est \<and>
         selected r2 results (best_model md) m \<and>
         (best_model md, model) \<in> set (candidates covid_config) \<and>
         fit sk model X_train y_train = Inr est \<and> predict sk est X_test = Inr y_pred \<and>
         mean_squared_error sk y_test y_pred = Inr (mse m) \<and>
         r2_score sk y_test y_pred = Inr (r2 m)"
    unfolding s store_model_get
    by (intro exI[of _ av] exI[of _ X_train] exI[of _ X_test] exI[of _ y_train] exI[of _ y_test]
        exI[of _ "\<lparr>features = av, best_model = name, performance = RegPerf results,
        trained_date = now\<rparr>"] exI[of _ est] exI[of _ m] exI[of _ model] exI[of _ y_pred]) simp
next
  assume "train_stock_prediction_model sk now st df = Inr (st', results) \<and> results \<noteq> []"
  then have "finish_training sk ''stock_prediction'' RegPerf now st
      (forecasting_outcome stock_config sk df) = Inr (st', results)" and ne: "results \<noteq> []"
    by (simp_all add: train_stock_prediction_model_def train_forecasting_model_outcome
        stock_config_def)
  from finish_training_nonempty[OF this] obtain est av name where
    o: "forecasting_outcome stock_config sk df = Inr (Some (est, av, name, results))"
    and s: "st' = store_model sk now st ''stock_prediction'' est av name (RegPerf results)"
    by blast
  from forecasting_outcome_held_out[OF o distinct_candidates(2)]
  obtain X_train X_test y_train y_test m model y_pred where
    "forecasting_partitions stock_config sk df = Inr (Some (av, X_train, X_test, y_train, y_test))"
    "results = survivors (\<lambda>model. evaluate_regressor sk model X_train y_train X_test y_test)
                       (candidates stock_config)"
    "selected r2 results name m" "(name, model) \<in> set (candidates stock_config)"
    "fit sk model X_train y_train = Inr est" "predict sk est X_test = Inr y_pred"
    "mean_squared_error sk y_test y_pred = Inr (mse m)" "r2_score sk y_test y_pred = Inr (r2 m)"
    by blast
  then show "\<exists>av X_train X_test y_train y_test md est m model y_pred.
         forecasting_partitions stock_config sk df =
           Inr (Some (av, X_train, X_test, y_train, y_test)) \<and>
         results = survivors (\<lambda>model. evaluate_regressor sk model X_train y_train X_test y_test)
                     (candidates stock_config) \<and>
         dict_get (model_metadata st') ''stock_prediction'' = Some md \<and>
         performance md = RegPerf results \<and> features md = av \<and>
         dict_get (models st') ''stock_prediction'' = Some est \<and>
         selected r2 results (best_model md) m \<and>
         (best_model md, model) \<in> set (candidates stock_config) \<and>
         fit sk model X_train y_train = Inr est \<and> predict sk est X_test = Inr y_pred \<and>
         mean_squared_error sk y_test y_pred = Inr (mse m) \<and>
         r2_score sk y_test y_pred = Inr (r2 m)"
    unfolding s store_model_get
    by (intro exI[of _ av] exI[of _ X_train] exI[of _ X_test] exI[of _ y_train] exI[of _ y_test]
        exI[of _ "\<lparr>features = av, best_model = name, performance = RegPerf results,
        trained_date = now\<rparr>"] exI[of _ est] exI[of _ m] exI[of _ model] exI[of _ y_pred]) simp
next
  assume "train_weather_classification_model sk now st df = Inr (st', cresults) \<and> cresults \<noteq> []"
  then have "finish_training sk ''weather_classification'' ClsPerf now st
      (classification_outcome sk df) = Inr (st', cresults)" and ne: "cresults \<noteq> []"
    by (simp_all add: train_weather_classification_model_outcome)
  from finish_training_nonempty[OF this] obtain est av name where
    o: "classification_outcome sk df = Inr (Some (est, av, name, cresults))"
    and s: "st' = store_model sk now st ''weather_classification'' est av name (ClsPerf cresults)"
    by blast
  from classification_outcome_held_out[OF o]
  obtain X_train X_test y_train y_test m model y_pred where
    "classification_partitions sk df = Inr (Some (av, X_train, X_test, y_train, y_test))"
    "cresults = survivors (\<lambda>model. evaluate_classifier sk model X_train y_train X_test y_test)
                       weather_models"
    "selected accuracy cresults name m" "(name, model) \<in> set weather_models"
    "fit sk model X_train y_train = Inr est" "predict sk est X_test = Inr y_pred"
    "accuracy_score sk y_test y_pred = Inr (accuracy m)"
    by blast
  then show "\<exists>av X_train X_test y_train y_test md est m model y_pred.
         classification_partitions sk df = Inr (Some (av, X_train, X_test, y_train, y_test)) \<and>
         cresults = survivors (\<lambda>model. evaluate_classifier sk model X_train y_train X_test y_test)
                      weather_models \<and>
         dict_get (model_metadata st') ''weather_classification'' = Some md \<and>
         performance md = ClsPerf cresults \<and> features md = av \<and>
         dict_get (models st') ''weather_classification'' = Some est \<and>
         selected accuracy cresults (best_model md) m \<and>
         (best_model md, model) \<in> set weather_models \<and>
         fit sk model X_train y_train = Inr est \<and> predict sk est X_test = Inr y_pred \<and>
         accuracy_score sk y_test y_pred = Inr (accuracy m)"
    unfolding s store_model_get
    by (intro exI[of _ av] exI[of _ X_train] exI[of _ X_test] exI[of _ y_train] exI[of _ y_test]
        exI[of _ "\<lparr>features = av, best_model = name, performance = ClsPerf cresults,
        trained_date = now\<rparr>"] exI[of _ est] exI[of _ m] exI[of _ model] exI[of _ y_pred]) simp
qed

lemma covid_sample_partitions:
  assumes "train_test_split sk = train_test_split constant_predictors"
  shows "forecasting_partitions covid_config sk covid_sample =
     Inr (Some ([''cases'', ''deaths'', ''month''],
                covid_train_X, covid_test_X, covid_train_y, covid_test_y))"
proof -
  let ?M = "[(''cases'', NumCol [Fin 5, Fin 1, Fin 1, Fin 2, Fin 3, Fin 4, Fin 5, Fin 6, Fin 7, Fin 8]),
      (''deaths'', NumCol [Fin 0, Fin 0, Fin 0, Fin 0, Fin 1, Fin 1, Fin 1, Fin 1, Fin 2, Fin 2]),
      (''month'', NumCol [Fin 1, Fin 1, Fin 1, Fin 1, Fin 1, Fin 1, Fin 1, Fin 1, Fin 1, Fin 1]),
      (''target_cases'', NumCol [Fin 1, Fin 1, Fin 2, Fin 3, Fin 4, Fin 5, Fin 6, Fin 7, Fin 8, Fin 9])]"
  let ?X = "[(''cases'', NumCol [Fin 5, Fin 1, Fin 1, Fin 2, Fin 3, Fin 4, Fin 5, Fin 6, Fin 7, Fin 8]),
      (''deaths'', NumCol [Fin 0, Fin 0, Fin 0, Fin 0, Fin 1, Fin 1, Fin 1, Fin 1, Fin 2, Fin 2]),
      (''month'', NumCol [Fin 1, Fin 1, Fin 1, Fin 1, Fin 1, Fin 1, Fin 1, Fin 1, Fin 1, Fin 1])]"
  let ?y = "NumCol [Fin 1, Fin 1, Fin 2, Fin 3, Fin 4, Fin 5, Fin 6, Fin 7, Fin 8, Fin 9]"
  have a: "\<not> (df_empty covid_sample \<or> nrows covid_sample < min_rows covid_config)"
    by (simp add: covid_sample_def covid_config_def df_empty_def nrows_def)
  have b: "filter (\<lambda>c. c \<in> set (dict_keys covid_sample)) (feature_cols covid_config) =
      [''cases'', ''deaths'', ''month'']"
    by (simp add: covid_sample_def covid_config_def dict_keys_def)
  have b': "\<not> length [''cases'', ''deaths'', ''month''] < min_features covid_config"
    by (simp add: covid_config_def)
  have c: "getcol covid_sample (source_col covid_config) =
      Inr (NumCol [Fin 5, Fin 1, Fin 1, Fin 2, Fin 3, Fin 4, Fin 5, Fin 6, Fin 7, Fin 8, Fin 9])"
    by (simp add: covid_sample_def covid_config_def getcol_def dict_get_def)
  have d: "dropna (dict_set covid_sample (target_col covid_config) (shift_back_col
      (NumCol [Fin 5, Fin 1, Fin 1, Fin 2, Fin 3, Fin 4, Fin 5, Fin 6, Fin 7, Fin 8, Fin 9]))) = ?M"
    by (simp add: covid_sample_def covid_config_def shift_back1_def dropna_def any_na_def
        nrows_def dict_values_def filter_rows_def sel_def upt_rec)
  have e: "\<not> nrows ?M < min_rows covid_config"
    by (simp add: covid_config_def nrows_def)
  have f: "select_cols ?M [''cases'', ''deaths'', ''month''] = Inr ?X"
    by (simp add: select_cols_def getcol_def dict_get_def ebind_def)
  have g: "getcol ?M (target_col covid_config) = Inr ?y"
    by (simp add: covid_config_def getcol_def dict_get_def)
  have h: "train_test_split sk ?X ?y (1 / 5) 42 False =
      Inr (covid_train_X, covid_test_X, covid_train_y, covid_test_y)"
    unfolding assms
    by (simp add: constant_predictors_def nrows_def filter_rows_def sel_def upt_rec
        covid_train_X_def covid_test_X_def covid_train_y_def covid_test_y_def)
  show ?thesis
    unfolding forecasting_partitions_def
    by (simp only: a b b' c d e f g h if_False Let_def ebind_Inr prod.case)
qed

lemma covid_sample_split:
  assumes "train_test_split sk = train_test_split constant_predictors"
  shows "forecasting_outcome covid_config sk covid_sample =
     (case train_regressors sk (candidates covid_config) covid_train_X covid_train_y
             covid_test_X covid_test_y (None, NInf, []) of
        (best, best_score, results) \<Rightarrow>
          (case best of
             None \<Rightarrow> Inr None
           | Some est \<Rightarrow>
               ebind (best_name r2 results) (\<lambda>name.
                 Inr (Some (est, [''cases'', ''deaths'', ''month''], name, results)))))"
  by (simp only: forecasting_outcome_partitions covid_sample_partitions[OF assms] ebind_Inr
      option.case prod.case)

lemma covid_sample_outcome:
  "forecasting_outcome covid_config constant_predictors covid_sample =
   Inr (Some (3, [''cases'', ''deaths'', ''month''], ''random_forest'',
     [(''random_forest'', \<lparr>mse = 4, r2 = 0, rmse = 2\<rparr>),
      (''linear_regression'', \<lparr>mse = 1, r2 = 0, rmse = 1\<rparr>)]))"
proof -
  let ?sk = "constant_predictors"
  let ?res = "[(''random_forest'', \<lparr>mse = 4, r2 = 0, rmse = 2\<rparr>),
      (''linear_regression'', \<lparr>mse = 1, r2 = 0, rmse = 1\<rparr>)]"
  have m1: "evaluate_regressor ?sk (RandomForestRegressor 100 42) covid_train_X covid_train_y
      covid_test_X covid_test_y = Inr (3, \<lparr>mse = 4, r2 = 0, rmse = 2\<rparr>)"
    by (simp add: evaluate_regressor_def constant_predictors_def ebind_def nrows_def
        sk_mean_squared_error_def sk_r2_score_def finite_pair_def ss_res_def ss_tot_def
        numeral_2_eq_2 covid_test_X_def covid_test_y_def)
  have m2: "evaluate_regressor ?sk LinearRegression covid_train_X covid_train_y
      covid_test_X covid_test_y = Inr (2, \<lparr>mse = 1, r2 = 0, rmse = 1\<rparr>)"
    by (simp add: evaluate_regressor_def constant_predictors_def ebind_def nrows_def
        sk_mean_squared_error_def sk_r2_score_def finite_pair_def ss_res_def ss_tot_def
        numeral_2_eq_2 covid_test_X_def covid_test_y_def)
  have m3: "evaluate_regressor ?sk (XGBRegressor 100 42) covid_train_X covid_train_y
      covid_test_X covid_test_y = Inl (LibraryError ''fit failed'')"
    by (simp add: evaluate_regressor_def constant_predictors_def ebind_def)
  have l: "train_regressors ?sk (candidates covid_config) covid_train_X covid_train_y
      covid_test_X covid_test_y (None, NInf, []) = (Some 3, Fin 0, ?res)"
    by (simp add: covid_config_def m1 m2 m3 fgt_def)
  have n: "best_name r2 ?res = Inr ''random_forest''"
    by (simp add: best_name_def dict_values_def dict_keys_def)
  show ?thesis
    by (simp only: covid_sample_split[OF refl] l n prod.case option.case ebind_Inr)
qed

lemma covid_sample_run:
  "train_covid_forecasting_model constant_predictors ''2024-01-01''
     \<lparr>models = [], model_metadata = [], feature_importance = []\<rparr> covid_sample =
   Inr (\<lparr>models = [(''covid_forecast'', 3)],
         model_metadata = [(''covid_forecast'',
           \<lparr>features = [''cases'', ''deaths'', ''month''], best_model = ''random_forest'',
            performance = RegPerf
              [(''random_forest'', \<lparr>mse = 4, r2 = 0, rmse = 2\<rparr>),
               (''linear_regression'', \<lparr>mse = 1, r2 = 0, rmse = 1\<rparr>)],
            trained_date = ''2024-01-01''\<rparr>)],
         feature_importance = []\<rparr>,
        [(''random_forest'', \<lparr>mse = 4, r2 = 0, rmse = 2\<rparr>),
         (''linear_regression'', \<lparr>mse = 1, r2 = 0, rmse = 1\<rparr>)])"
  unfolding train_covid_forecasting_model_def train_forecasting_model_outcome covid_sample_outcome
  by (simp add: finish_training_def store_model_def covid_config_def constant_predictors_def)

theorem best_candidate_is_first_maximum_witness:
  "train_covid_forecasting_model constant_predictors ''2024-01-01''
     \<lparr>models = [], model_metadata = [], feature_importance = []\<rparr> covid_sample =
   Inr (\<lparr>models = [(''covid_forecast'', 3)],
         model_metadata = [(''covid_forecast'',
           \<lparr>features = [''cases'', ''deaths'', ''month''], best_model = ''random_forest'',
            performance = RegPerf
              [(''random_forest'', \<lparr>mse = 4, r2 = 0, rmse = 2\<rparr>),
               (''linear_regression'', \<lparr>mse = 1, r2 = 0, rmse = 1\<rparr>)],
            trained_date = ''2024-01-01''\<rparr>)],
         feature_importance = []\<rparr>,
        [(''random_forest'', \<lparr>mse = 4, r2 = 0, rmse = 2\<rparr>),
         (''linear_regression'', \<lparr>mse = 1, r2 = 0, rmse = 1\<rparr>)]) \<and>
   [(''random_forest'', \<lparr>mse = 4, r2 = 0, rmse = 2\<rparr>),
    (''linear_regression'', \<lparr>mse = 1, r2 = 0, rmse = 1\<rparr>)] =
     survivors (\<lambda>model. evaluate_regressor constant_predictors model covid_train_X covid_train_y
                  covid_test_X covid_test_y) (candidates covid_config) \<and>
   selected r2
     [(''random_forest'', \<lparr>mse = 4, r2 = 0, rmse = 2\<rparr>),
      (''linear_regression'', \<lparr>mse = 1, r2 = 0, rmse = 1\<rparr>)]
     ''random_forest'' \<lparr>mse = 4, r2 = 0, rmse = 2\<rparr>"
proof -
  let ?res = "[(''random_forest'', \<lparr>mse = 4, r2 = 0, rmse = 2\<rparr>),
         (''linear_regression'', \<lparr>mse = 1, r2 = 0, rmse = (1::real)\<rparr>)]"
  let ?md = "\<lparr>features = [''cases'', ''deaths'', ''month''], best_model = ''random_forest'',
            performance = RegPerf ?res, trained_date = ''2024-01-01''\<rparr>"
  let ?st1 = "\<lparr>models = [(''covid_forecast'', 3::real)],
         model_metadata = [(''covid_forecast'', ?md)], feature_importance = []\<rparr>"
  have ne: "?res \<noteq> []" by simp
  note t = best_candidate_is_first_maximum[where sk = constant_predictors
      and now = "''2024-01-01''"
      and st = "\<lparr>models = [], model_metadata = [], feature_importance = []\<rparr>"
      and df = covid_sample and st' = ?st1 and results = ?res,
      THEN conjunct1, rule_format, OF conjI[OF covid_sample_run ne]]
  then obtain av X_train X_test y_train y_test md m where
    p: "forecasting_partitions covid_config constant_predictors covid_sample =
          Inr (Some (av, X_train, X_test, y_train, y_test))"
    and r: "?res = survivors (\<lambda>model. evaluate_regressor constant_predictors model
          X_train y_train X_test y_test) (candidates covid_config)"
    and md: "dict_get (model_metadata ?st1) ''covid_forecast'' = Some md"
    and s: "selected r2 ?res (best_model md) m"
    by (elim exE conjE)
  from p have x: "X_train = covid_train_X" "X_test = covid_test_X" "y_train = covid_train_y"
    "y_test = covid_test_y"
    by (simp_all add: covid_sample_partitions[OF refl])
  from md have "md = ?md" by (simp add: dict_get_def)
  with s have s': "selected r2 ?res ''random_forest'' m" by simp
  then obtain i where i: "i < length ?res" "?res ! i = (''random_forest'', m)"
    by (auto simp: selected_def first_max_def dict_values_def)
  from i have "m = \<lparr>mse = 4, r2 = 0, rmse = 2\<rparr>"
    by (cases "i = 0") (auto simp: less_Suc_eq)
  with s' have s'': "selected r2 ?res ''random_forest'' \<lparr>mse = 4, r2 = 0, rmse = 2\<rparr>" by simp
  from r have r': "?res = survivors (\<lambda>model. evaluate_regressor constant_predictors model
          covid_train_X covid_train_y covid_test_X covid_test_y) (candidates covid_config)"
    unfolding x .
  show ?thesis by (rule conjI[OF covid_sample_run conjI[OF r' s'']])
qed

text \<open>
  Two candidates with the same coefficient of determination on a constant held-out target: the random forest, fitted
  first, is selected with a root-mean-squared error of 2 although the linear regression has
  an error of 1.
\<close>

theorem equal_r2_first_candidate_wins:
  "train_covid_forecasting_model constant_predictors ''2024-01-01''
     \<lparr>models = [], model_metadata = [], feature_importance = []\<rparr> covid_sample =
   Inr (\<lparr>models = [(''covid_forecast'', 3)],
         model_metadata = [(''covid_forecast'',
           \<lparr>features = [''cases'', ''deaths'', ''month''], best_model = ''random_forest'',
            performance = RegPerf
              [(''random_forest'', \<lparr>mse = 4, r2 = 0, rmse = 2\<rparr>),
               (''linear_regression'', \<lparr>mse = 1, r2 = 0, rmse = 1\<rparr>)],
            trained_date = ''2024-01-01''\<rparr>)],
         feature_importance = []\<rparr>,
        [(''random_forest'', \<lparr>mse = 4, r2 = 0, rmse = 2\<rparr>),
         (''linear_regression'', \<lparr>mse = 1, r2 = 0, rmse = 1\<rparr>)]) \<and>
   fit constant_predictors (RandomForestRegressor 100 42) covid_train_X covid_train_y = Inr 3 \<and>
   fit constant_predictors LinearRegression covid_train_X covid_train_y = Inr 2"
  using covid_sample_run by (simp add: constant_predictors_def)

subsection \<open>Training and the trainer's state\<close>

lemma observed_finish:
  assumes "\<And>est av name results. r = Inr (Some (est, av, name, results)) \<Longrightarrow> results \<noteq> []"
  shows "observed key (finish_training sk key perf now st r) =
         (case r of Inl e \<Rightarrow> Inl e | Inr None \<Rightarrow> Inr ([], None, None)
          | Inr (Some (est, av, name, results)) \<Rightarrow>
              Inr (results, Some (name, av, perf results), Some est))"
proof (cases r)
  case (Inl e)
  then show ?thesis by (simp add: observed_def finish_training_def)
next
  case (Inr o')
  show ?thesis
  proof (cases o')
    case None
    with Inr show ?thesis by (simp add: observed_def finish_training_def)
  next
    case (Some t)
    obtain est av name results where t: "t = (est, av, name, results)" by (cases t)
    from assms[of est av name results] Inr Some t have "results \<noteq> []" by simp
    with Inr Some t show ?thesis
      by (simp add: observed_def finish_training_def store_model_get)
  qed
qed

lemma forecasting_nonempty:
  "distinct (map fst (candidates cfg)) \<Longrightarrow>
   forecasting_outcome cfg sk df = Inr (Some (est, av, name, results)) \<Longrightarrow> results \<noteq> []"
  using forecasting_outcome_selected[of cfg sk df est av name results] by simp

lemma classification_nonempty:
  "classification_outcome sk df = Inr (Some (est, av, name, results)) \<Longrightarrow> results \<noteq> []"
  using classification_outcome_selected[of sk df est av name results] by simp

text \<open>
  C7.  What a training call returns and records (the result dictionary with every
  candidate's held-out metrics, the selected name, the features, and the estimator stored)
  is the same for the same table whatever the trainer's state and the clock: a second call
  on identical input reproduces the first.  The split proportion (one fifth held out) and
  the seed 42 are constants of the calls; the library is a function of the arguments it is
  given.
\<close>

theorem training_reproducible:
  "observed ''covid_forecast'' (train_covid_forecasting_model sk now' st' df) =
     observed ''covid_forecast'' (train_covid_forecasting_model sk now st df) \<and>
   observed ''stock_prediction'' (train_stock_prediction_model sk now' st' df) =
     observed ''stock_prediction'' (train_stock_prediction_model sk now st df) \<and>
   observed ''weather_classification'' (train_weather_classification_model sk now' st' df) =
     observed ''weather_classification'' (train_weather_classification_model sk now st df)"
proof -
  have k: "model_key covid_config = ''covid_forecast''" "model_key stock_config = ''stock_prediction''"
    by (simp_all add: covid_config_def stock_config_def)
  have c: "observed ''covid_forecast'' (train_covid_forecasting_model sk t s df) =
      (case forecasting_outcome covid_config sk df of Inl e \<Rightarrow> Inl e | Inr None \<Rightarrow> Inr ([], None, None)
          | Inr (Some (est, av, name, results)) \<Rightarrow>
              Inr (results, Some (name, av, RegPerf results), Some est))" for t s
    unfolding train_covid_forecasting_model_def train_forecasting_model_outcome k
    by (rule observed_finish) (rule forecasting_nonempty[OF distinct_candidates(1)])
  have s: "observed ''stock_prediction'' (train_stock_prediction_model sk t s df) =
      (case forecasting_outcome stock_config sk df of Inl e \<Rightarrow> Inl e | Inr None \<Rightarrow> Inr ([], None, None)
          | Inr (Some (est, av, name, results)) \<Rightarrow>
              Inr (results, Some (name, av, RegPerf results), Some est))" for t s
    unfolding train_stock_prediction_model_def train_forecasting_model_outcome k
    by (rule observed_finish) (rule forecasting_nonempty[OF distinct_candidates(2)])
  have w: "observed ''weather_classification'' (train_weather_classification_model sk t s df) =
      (case classification_outcome sk df of Inl e \<Rightarrow> Inl e | Inr None \<Rightarrow> Inr ([], None, None)
          | Inr (Some (est, av, name, results)) \<Rightarrow>
              Inr (results, Some (name, av, ClsPerf results), Some est))" for t s
    unfolding train_weather_classification_model_outcome
    by (rule observed_finish) (rule classification_nonempty)
  show ?thesis by (simp only: c s w)
qed

text \<open>
  C10.  A training call that returns the empty result leaves the trainer's state (models,
  metadata and feature importances) as it was.
\<close>

theorem training_empty_result_keeps_state:
  "(train_covid_forecasting_model sk now st df = Inr (st', []) \<longrightarrow> st' = st) \<and>
   (train_stock_prediction_model sk now st df = Inr (st', []) \<longrightarrow> st' = st) \<and>
   (train_weather_classification_model sk now st df = Inr (st'', []) \<longrightarrow> st'' = st)"
proof (intro conjI impI)
  assume "train_covid_forecasting_model sk now st df = Inr (st', [])"
  then show "st' = st"
    unfolding train_covid_forecasting_model_def train_forecasting_model_outcome
    by (rule finish_training_empty) (rule forecasting_nonempty[OF distinct_candidates(1)])
next
  assume "train_stock_prediction_model sk now st df = Inr (st', [])"
  then show "st' = st"
    unfolding train_stock_prediction_model_def train_forecasting_model_outcome
    by (rule finish_training_empty) (rule forecasting_nonempty[OF distinct_candidates(2)])
next
  assume "train_weather_classification_model sk now st df = Inr (st'', [])"
  then show "st'' = st"
    unfolding train_weather_classification_model_outcome
    by (rule finish_training_empty) (rule classification_nonempty)
qed

lemma covid_sample_all_fail:
  "forecasting_outcome covid_config failing_fit covid_sample = Inr None"
proof -
  have s: "train_test_split failing_fit = train_test_split constant_predictors"
    by (simp add: failing_fit_def)
  have l: "train_regressors failing_fit (candidates covid_config) covid_train_X covid_train_y
      covid_test_X covid_test_y (None, NInf, []) = (None, NInf, [])"
    by (simp add: covid_config_def evaluate_regressor_def failing_fit_def ebind_def)
  show ?thesis
    by (simp only: covid_sample_split[OF s] l prod.case option.case)
qed

theorem training_empty_result_keeps_state_witness:
  "train_covid_forecasting_model failing_fit ''2024-01-01''
     \<lparr>models = [(''covid_forecast'', 7)], model_metadata = [], feature_importance = []\<rparr>
     covid_sample =
   Inr (\<lparr>models = [(''covid_forecast'', 7)], model_metadata = [], feature_importance = []\<rparr>, []) \<and>
   train_stock_prediction_model failing_fit ''2024-01-01''
     \<lparr>models = [(''covid_forecast'', 7)], model_metadata = [], feature_importance = []\<rparr>
     covid_sample =
   Inr (\<lparr>models = [(''covid_forecast'', 7)], model_metadata = [], feature_importance = []\<rparr>, []) \<and>
   train_weather_classification_model failing_fit ''2024-01-01''
     \<lparr>models = [(''covid_forecast'', 7)], model_metadata = [], feature_importance = []\<rparr>
     covid_sample =
   Inr (\<lparr>models = [(''covid_forecast'', 7)], model_metadata = [], feature_importance = []\<rparr>, [])"
proof -
  let ?st = "\<lparr>models = [(''covid_forecast'', 7::real)], model_metadata = [],
      feature_importance = []\<rparr>"
  have "\<exists>st'. train_covid_forecasting_model failing_fit ''2024-01-01'' ?st covid_sample =
      Inr (st', [])"
    unfolding train_covid_forecasting_model_def train_forecasting_model_outcome
      covid_sample_all_fail
    by (simp add: finish_training_def)
  then obtain s1 where c: "train_covid_forecasting_model failing_fit ''2024-01-01'' ?st
      covid_sample = Inr (s1, [])" ..
  have "\<exists>st'. train_stock_prediction_model failing_fit ''2024-01-01'' ?st covid_sample =
      Inr (st', [])"
    unfolding train_stock_prediction_model_def train_forecasting_model_outcome
    by (simp add: finish_training_def forecasting_outcome_def stock_config_def covid_sample_def
        nrows_def df_empty_def)
  then obtain s2 where s: "train_stock_prediction_model failing_fit ''2024-01-01'' ?st
      covid_sample = Inr (s2, [])" ..
  have "\<exists>st'. train_weather_classification_model failing_fit ''2024-01-01'' ?st covid_sample =
      Inr (st', [])"
    unfolding train_weather_classification_model_outcome
    by (simp add: finish_training_def classification_outcome_def covid_sample_def
        nrows_def df_empty_def weather_feature_cols_def dict_keys_def)
  then obtain s3 where w: "train_weather_classification_model failing_fit ''2024-01-01'' ?st
      covid_sample = Inr (s3, [])" ..
  note t = training_empty_result_keeps_state[where sk = failing_fit and now = "''2024-01-01''"
      and st = ?st and df = covid_sample and st' = s1]
  note u = training_empty_result_keeps_state[where sk = failing_fit and now = "''2024-01-01''"
      and st = ?st and df = covid_sample and st' = s2]
  note v = training_empty_result_keeps_state[where sk = failing_fit and now = "''2024-01-01''"
      and st = ?st and df = covid_sample and st'' = s3]
  from t c have "s1 = ?st" by simp
  moreover from u s have "s2 = ?st" by simp
  moreover from v w have "s3 = ?st" by simp
  ultimately show ?thesis using c s w by simp
qed

subsection \<open>The pipeline's one handler\<close>

lemma process_loop_append:
  "process_loop st (xs @ ys) acc =
     (case process_loop st xs acc of
        (st1, Inl e) \<Rightarrow> (st1, Inl e)
      | (st1, Inr acc1) \<Rightarrow> process_loop st1 ys acc1)"
  by (induction st xs acc rule: process_loop.induct)
     (auto split: sum.splits prod.splits)

lemma process_failure_final:
  "snd (process_all_data st srcs) = Inl e \<Longrightarrow>
   process_all_data st (srcs @ rest) = process_all_data st srcs"
  unfolding process_all_data_def process_loop_append
  by (cases "process_loop st srcs []") (auto split: sum.splits)

lemma train_all_models_covid_raises:
  "dict_get processed_data ''covid'' = Some df \<Longrightarrow>
   train_covid_forecasting_model sk now ml df = Inl e \<Longrightarrow>
   train_all_models sk now ml processed_data = (ml, Inl e)"
  by (simp add: train_all_models_def ebind_def)

lemma run_processing_raises:
  assumes "collect_all_data io = Inr raw_data"
    and "snd (save_raw io clk raw_data []) = None"
    and "process_all_data st raw_data = (st1, Inl e)"
  shows "run_full_pipeline io clk sk st ml =
     (st1, ml,
      \<lparr>timestamp = isoformat clk, status = ''failed'',
       data_sources = fst (save_raw io clk raw_data []), models_trained = [],
       errors = [str_error e], insights = None\<rparr>)"
proof -
  obtain ds where ds: "save_raw io clk raw_data [] = (ds, None)"
    using assms(2) by (cases "save_raw io clk raw_data []") auto
  show ?thesis
    by (simp add: run_full_pipeline_def pipeline_steps_def initial_results_def assms(1,3) ds)
qed

lemma pipeline_steps_status:
  assumes "pipeline_steps io clk sk st ml res0 = (st', ml', res, err)"
  shows "status res = status res0 \<and> errors res = errors res0"
  using assms unfolding pipeline_steps_def
  by (auto simp: Let_def split: sum.splits prod.splits option.splits if_splits)

lemma run_status:
  assumes "run_full_pipeline io clk sk st ml = (st', ml', res)"
  shows "(status res = ''completed'' \<and> errors res = [] \<and>
          snd (snd (snd (pipeline_steps io clk sk st ml (initial_results clk)))) = None) \<or>
         (\<exists>e. status res = ''failed'' \<and> errors res = [str_error e] \<and>
          snd (snd (snd (pipeline_steps io clk sk st ml (initial_results clk)))) = Some e)"
proof -
  obtain s m r err where p: "pipeline_steps io clk sk st ml (initial_results clk) = (s, m, r, err)"
    by (cases "pipeline_steps io clk sk st ml (initial_results clk)") auto
  from pipeline_steps_status[OF p] have r: "status r = ''completed''" "errors r = []"
    by (simp_all add: initial_results_def)
  show ?thesis
  proof (cases err)
    case None
    with assms p r show ?thesis by (auto simp: run_full_pipeline_def)
  next
    case (Some e)
    with assms p r show ?thesis by (auto simp: run_full_pipeline_def)
  qed
qed

lemma counts_without_cases_raises:
  "clean_covid_data counts_without_cases = Inl (KeyError ''cases'')"
proof -
  have ne: "\<not> df_empty counts_without_cases"
    by (simp add: counts_without_cases_def df_empty_def nrows_def)
  have f: "fillna0 counts_without_cases = Inr counts_without_cases"
    by (simp add: counts_without_cases_def fillna0_def ebind_def)
  have c: "clip_cols covid_numeric_cols counts_without_cases = Inr counts_without_cases"
    by (simp add: counts_without_cases_def covid_numeric_cols_def dict_keys_def getcol_def
        dict_get_def clip_lower0_def clip0_def ebind_def)
  have r: "rate_col counts_without_cases ''deaths'' ''cases'' = Inl (KeyError ''cases'')"
    by (simp add: counts_without_cases_def rate_col_def getnum_def getcol_def dict_get_def
        ebind_def)
  show ?thesis
    unfolding clean_covid_data_unfold[OF ne f c] r by (rule ebind_Inl)
qed

lemma processing_counts_raises:
  "process_all_data st ((''covid'', counts_without_cases) # rest) = (st, Inl (KeyError ''cases''))"
proof -
  have ne: "\<not> df_empty counts_without_cases"
    by (simp add: counts_without_cases_def df_empty_def nrows_def)
  show ?thesis
    by (simp add: process_all_data_def ne clean_source_def counts_without_cases_raises ebind_Inl)
qed

lemma training_counts_raises:
  "train_covid_forecasting_model sk now ml counts_without_cases = Inl (KeyError ''cases'')"
  unfolding train_covid_forecasting_model_def train_forecasting_model_outcome
  by (simp add: finish_training_def forecasting_outcome_def covid_config_def
      counts_without_cases_def df_empty_def nrows_def dict_keys_def getcol_def dict_get_def
      ebind_def)

lemma population_sample_cleaned:
  "clean_public_data population_sample =
   Inr [(''country'', ObjCol [PStr ''India'']), (''population'', NumCol [Fin 1400000000]),
        (''population_millions'', NumCol [Fin 1400]),
        (''log_population'', NumCol [Fin (ln 1400000000)]),
        (''population_category'', CatCol [Some ''Very Large''])]"
proof -
  have ne: "\<not> df_empty population_sample"
    by (simp add: population_sample_def df_empty_def nrows_def)
  have d: "dropna population_sample = population_sample"
    by (simp add: population_sample_def dropna_def any_na_def nrows_def dict_values_def
        filter_rows_def sel_def)
  have g: "getnum population_sample ''population'' = Inr [Fin 1400000000]"
    by (simp add: population_sample_def getnum_def getcol_def dict_get_def ebind_def)
  have f: "filter_rows (map (\<lambda>x. fgt x (Fin 0)) [Fin 1400000000]) population_sample =
      population_sample"
    by (simp add: population_sample_def filter_rows_def sel_def fgt_def)
  show ?thesis
    unfolding clean_public_data_def
    apply (simp only: ne if_False Let_def d g f ebind_Inr)
    apply (simp add: population_sample_def setnum_def getnum_def getcol_def dict_get_def
        ebind_def cut_def fle_def)
    done
qed

lemma clean_source_cleaner:
  "clean_source st source_name df processed_data =
     (case cleaner st source_name df of
        None \<Rightarrow> Inr (st, processed_data)
      | Some r \<Rightarrow> ebind r (\<lambda>(st', t). Inr (st', dict_set processed_data source_name t)))"
  by (auto simp: clean_source_def cleaner_def ebind_def split: sum.splits)

lemma process_all_data_append:
  "process_all_data st srcs = (st_mid, Inr acc) \<Longrightarrow>
   process_all_data st (srcs @ rest) = process_loop st_mid rest acc"
  by (simp add: process_all_data_def process_loop_append)

lemma cleaner_raises:
  assumes "process_all_data st srcs = (st_mid, Inr acc)" and "\<not> df_empty df"
    and "cleaner st_mid source_name df = Some (Inl e)"
  shows "process_all_data st (srcs @ (source_name, df) # rest) = (st_mid, Inl e)"
  using assms(2,3)
  by (simp add: process_all_data_append[OF assms(1)] clean_source_cleaner ebind_def)

lemma featurizer_raises:
  assumes "process_all_data st srcs = (st_mid, Inr acc)" and "\<not> df_empty df"
    and "cleaner st_mid source_name df = Some (Inr (st_cl, t))"
    and "create_features t source_name = Inl e"
  shows "process_all_data st (srcs @ (source_name, df) # rest) = (st_cl, Inl e)"
  using assms(2,3,4)
  by (simp add: process_all_data_append[OF assms(1)] clean_source_cleaner ebind_def
      add_features_def dict_get_dict_set)

lemma train_all_models_stock_raises:
  assumes "(dict_get processed_data ''covid'' = None \<and> ml_c = ml) \<or>
      (\<exists>dfc r. dict_get processed_data ''covid'' = Some dfc \<and>
         train_covid_forecasting_model sk now ml dfc = Inr (ml_c, r))"
    and "dict_get processed_data ''stock'' = Some df"
    and "train_stock_prediction_model sk now ml_c df = Inl e"
  shows "train_all_models sk now ml processed_data = (ml_c, Inl e)"
  using assms by (auto simp: train_all_models_def ebind_def)

lemma train_all_models_weather_raises:
  assumes "(dict_get processed_data ''covid'' = None \<and> ml_c = ml) \<or>
      (\<exists>dfc r. dict_get processed_data ''covid'' = Some dfc \<and>
         train_covid_forecasting_model sk now ml dfc = Inr (ml_c, r))"
    and "(dict_get processed_data ''stock'' = None \<and> ml_s = ml_c) \<or>
      (\<exists>dfs r. dict_get processed_data ''stock'' = Some dfs \<and>
         train_stock_prediction_model sk now ml_c dfs = Inr (ml_s, r))"
    and "dict_get processed_data ''weather'' = Some df"
    and "train_weather_classification_model sk now ml_s df = Inl e"
  shows "train_all_models sk now ml processed_data = (ml_s, Inl e)"
  using assms by (auto simp: train_all_models_def ebind_def)

lemma run_training_raises:
  assumes "collect_all_data io = Inr raw_data"
    and "snd (save_raw io clk raw_data []) = None"
    and "process_all_data st raw_data = (st_p, Inr processed_data)"
    and "save_processed io clk processed_data = Inr ()"
    and "train_all_models sk (isoformat clk) ml processed_data = (ml_t, Inl e)"
  shows "run_full_pipeline io clk sk st ml =
     (st_p, ml_t,
      \<lparr>timestamp = isoformat clk, status = ''failed'',
       data_sources = fst (save_raw io clk raw_data []), models_trained = [],
       errors = [str_error e], insights = None\<rparr>)"
proof -
  obtain ds where ds: "save_raw io clk raw_data [] = (ds, None)"
    using assms(2) by (cases "save_raw io clk raw_data []") auto
  show ?thesis
    by (simp add: run_full_pipeline_def pipeline_steps_def initial_results_def assms(1,3,4,5) ds)
qed


text \<open>
  C1.  No exception is caught at a domain's boundary.  When the cleaner of a source
  raises, or \<open>create_features\<close> raises on the cleaned table, \<open>process_all_data\<close> raises
  that exception whatever sources come before (and were processed) or after (and are never
  looked at).  When the training function of a domain raises, \<open>train_all_models\<close> raises
  it, the domains after it untrained and the models stored before it kept.  The one handler
  of \<open>run_full_pipeline\<close> then marks the whole run \<open>failed\<close> and appends the exception's
  text to the run's \<open>errors\<close>: after a failure in processing or in training no model is
  reported and there are no insights.  A run is \<open>completed\<close> with no error exactly when no
  step raised, and \<open>failed\<close> with the one error that left the \<open>try\<close> block otherwise.
\<close>

theorem run_full_pipeline_one_handler:
  "(process_all_data st srcs = (st_mid, Inr acc) \<and> \<not> df_empty df \<and>
    cleaner st_mid source_name df = Some (Inl e) \<longrightarrow>
      process_all_data st (srcs @ (source_name, df) # rest) = (st_mid, Inl e)) \<and>
   (process_all_data st srcs = (st_mid, Inr acc) \<and> \<not> df_empty df \<and>
    cleaner st_mid source_name df = Some (Inr (st_cl, t)) \<and>
    create_features t source_name = Inl e \<longrightarrow>
      process_all_data st (srcs @ (source_name, df) # rest) = (st_cl, Inl e)) \<and>
   (dict_get processed_data ''covid'' = Some df \<and>
    train_covid_forecasting_model sk now ml df = Inl e \<longrightarrow>
      train_all_models sk now ml processed_data = (ml, Inl e)) \<and>
   (((dict_get processed_data ''covid'' = None \<and> ml_c = ml) \<or>
     (\<exists>dfc r. dict_get processed_data ''covid'' = Some dfc \<and>
        train_covid_forecasting_model sk now ml dfc = Inr (ml_c, r))) \<and>
    dict_get processed_data ''stock'' = Some df \<and>
    train_stock_prediction_model sk now ml_c df = Inl e \<longrightarrow>
      train_all_models sk now ml processed_data = (ml_c, Inl e)) \<and>
   (((dict_get processed_data ''covid'' = None \<and> ml_c = ml) \<or>
     (\<exists>dfc r. dict_get processed_data ''covid'' = Some dfc \<and>
        train_covid_forecasting_model sk now ml dfc = Inr (ml_c, r))) \<and>
    ((dict_get processed_data ''stock'' = None \<and> ml_s = ml_c) \<or>
     (\<exists>dfs r. dict_get processed_data ''stock'' = Some dfs \<and>
        train_stock_prediction_model sk now ml_c dfs = Inr (ml_s, r))) \<and>
    dict_get processed_data ''weather'' = Some df \<and>
    train_weather_classification_model sk now ml_s df = Inl e \<longrightarrow>
      train_all_models sk now ml processed_data = (ml_s, Inl e)) \<and>
   (collect_all_data io = Inr raw_data \<and> snd (save_raw io clk raw_data []) = None \<and>
    process_all_data st raw_data = (st_after, Inl e) \<longrightarrow>
      run_full_pipeline io clk sk st ml =
        (st_after, ml,
         \<lparr>timestamp = isoformat clk, status = ''failed'',
          data_sources = fst (save_raw io clk raw_data []), models_trained = [],
          errors = [str_error e], insights = None\<rparr>)) \<and>
   (collect_all_data io = Inr raw_data \<and> snd (save_raw io clk raw_data []) = None \<and>
    process_all_data st raw_data = (st_after, Inr processed_data) \<and>
    save_processed io clk processed_data = Inr () \<and>
    train_all_models sk (isoformat clk) ml processed_data = (ml_after, Inl e) \<longrightarrow>
      run_full_pipeline io clk sk st ml =
        (st_after, ml_after,
         \<lparr>timestamp = isoformat clk, status = ''failed'',
          data_sources = fst (save_raw io clk raw_data []), models_trained = [],
          errors = [str_error e], insights = None\<rparr>)) \<and>
   (run_full_pipeline io clk sk st ml = (st', ml', res) \<longrightarrow>
      (status res = ''completed'' \<and> errors res = [] \<and>
       snd (snd (snd (pipeline_steps io clk sk st ml (initial_results clk)))) = None) \<or>
      (\<exists>x. status res = ''failed'' \<and> errors res = [str_error x] \<and>
       snd (snd (snd (pipeline_steps io clk sk st ml (initial_results clk)))) = Some x))"
proof (intro conjI impI)
  assume "process_all_data st srcs = (st_mid, Inr acc) \<and> \<not> df_empty df \<and>
    cleaner st_mid source_name df = Some (Inl e)"
  then show "process_all_data st (srcs @ (source_name, df) # rest) = (st_mid, Inl e)"
    by (simp add: cleaner_raises)
next
  assume "process_all_data st srcs = (st_mid, Inr acc) \<and> \<not> df_empty df \<and>
    cleaner st_mid source_name df = Some (Inr (st_cl, t)) \<and>
    create_features t source_name = Inl e"
  then have a: "process_all_data st srcs = (st_mid, Inr acc)" "\<not> df_empty df"
    "cleaner st_mid source_name df = Some (Inr (st_cl, t))" "create_features t source_name = Inl e"
    by simp_all
  show "process_all_data st (srcs @ (source_name, df) # rest) = (st_cl, Inl e)"
    by (rule featurizer_raises[OF a])
next
  assume "dict_get processed_data ''covid'' = Some df \<and>
    train_covid_forecasting_model sk now ml df = Inl e"
  then show "train_all_models sk now ml processed_data = (ml, Inl e)"
    by (simp add: train_all_models_covid_raises)
next
  assume "((dict_get processed_data ''covid'' = None \<and> ml_c = ml) \<or>
     (\<exists>dfc r. dict_get processed_data ''covid'' = Some dfc \<and>
        train_covid_forecasting_model sk now ml dfc = Inr (ml_c, r))) \<and>
    dict_get processed_data ''stock'' = Some df \<and>
    train_stock_prediction_model sk now ml_c df = Inl e"
  then have a: "(dict_get processed_data ''covid'' = None \<and> ml_c = ml) \<or>
     (\<exists>dfc r. dict_get processed_data ''covid'' = Some dfc \<and>
        train_covid_forecasting_model sk now ml dfc = Inr (ml_c, r))"
    "dict_get processed_data ''stock'' = Some df"
    "train_stock_prediction_model sk now ml_c df = Inl e"
    by simp_all
  show "train_all_models sk now ml processed_data = (ml_c, Inl e)"
    by (rule train_all_models_stock_raises[OF a])
next
  assume "((dict_get processed_data ''covid'' = None \<and> ml_c = ml) \<or>
     (\<exists>dfc r. dict_get processed_data ''covid'' = Some dfc \<and>
        train_covid_forecasting_model sk now ml dfc = Inr (ml_c, r))) \<and>
    ((dict_get processed_data ''stock'' = None \<and> ml_s = ml_c) \<or>
     (\<exists>dfs r. dict_get processed_data ''stock'' = Some dfs \<and>
        train_stock_prediction_model sk now ml_c dfs = Inr (ml_s, r))) \<and>
    dict_get processed_data ''weather'' = Some df \<and>
    train_weather_classification_model sk now ml_s df = Inl e"
  then have a: "(dict_get processed_data ''covid'' = None \<and> ml_c = ml) \<or>
     (\<exists>dfc r. dict_get processed_data ''covid'' = Some dfc \<and>
        train_covid_forecasting_model sk now ml dfc = Inr (ml_c, r))"
    "(dict_get processed_data ''stock'' = None \<and> ml_s = ml_c) \<or>
     (\<exists>dfs r. dict_get processed_data ''stock'' = Some dfs \<and>
        train_stock_prediction_model sk now ml_c dfs = Inr (ml_s, r))"
    "dict_get processed_data ''weather'' = Some df"
    "train_weather_classification_model sk now ml_s df = Inl e"
    by simp_all
  show "train_all_models sk now ml processed_data = (ml_s, Inl e)"
    by (rule train_all_models_weather_raises[OF a])
next
  assume "collect_all_data io = Inr raw_data \<and> snd (save_raw io clk raw_data []) = None \<and>
    process_all_data st raw_data = (st_after, Inl e)"
  then show "run_full_pipeline io clk sk st ml =
        (st_after, ml,
         \<lparr>timestamp = isoformat clk, status = ''failed'',
          data_sources = fst (save_raw io clk raw_data []), models_trained = [],
          errors = [str_error e], insights = None\<rparr>)"
    by (simp add: run_processing_raises)
next
  assume "collect_all_data io = Inr raw_data \<and> snd (save_raw io clk raw_data []) = None \<and>
    process_all_data st raw_data = (st_after, Inr processed_data) \<and>
    save_processed io clk processed_data = Inr () \<and>
    train_all_models sk (isoformat clk) ml processed_data = (ml_after, Inl e)"
  then have a: "collect_all_data io = Inr raw_data" "snd (save_raw io clk raw_data []) = None"
    "process_all_data st raw_data = (st_after, Inr processed_data)"
    "save_processed io clk processed_data = Inr ()"
    "train_all_models sk (isoformat clk) ml processed_data = (ml_after, Inl e)"
    by simp_all
  show "run_full_pipeline io clk sk st ml =
        (st_after, ml_after,
         \<lparr>timestamp = isoformat clk, status = ''failed'',
          data_sources = fst (save_raw io clk raw_data []), models_trained = [],
          errors = [str_error e], insights = None\<rparr>)"
    by (rule run_training_raises[OF a])
next
  assume "run_full_pipeline io clk sk st ml = (st', ml', res)"
  then show "(status res = ''completed'' \<and> errors res = [] \<and>
       snd (snd (snd (pipeline_steps io clk sk st ml (initial_results clk)))) = None) \<or>
      (\<exists>x. status res = ''failed'' \<and> errors res = [str_error x] \<and>
       snd (snd (snd (pipeline_steps io clk sk st ml (initial_results clk)))) = Some x)"
    by (rule run_status)
qed

lemma save_raw_two:
  "save_raw (quiet_env raw) noon
     [(''covid'', counts_without_cases), (''public'', population_sample)] [] =
   ([(''covid'', \<lparr>records = 10, columns = [''deaths'', ''recovered'', ''month''],
                  collected_at = ''2024-01-01T12:00:00''\<rparr>),
     (''public'', \<lparr>records = 1, columns = [''country'', ''population''],
                   collected_at = ''2024-01-01T12:00:00''\<rparr>)], None)"
  by (simp add: quiet_env_def noon_def counts_without_cases_def population_sample_def
      nrows_def df_empty_def dict_keys_def)

lemma public_alone_processed:
  "process_all_data st [(''public'', population_sample)] =
   (st, Inr [(''public'',
      [(''country'', ObjCol [PStr ''India'']), (''population'', NumCol [Fin 1400000000]),
       (''population_millions'', NumCol [Fin 1400]),
       (''log_population'', NumCol [Fin (ln 1400000000)]),
       (''population_category'', CatCol [Some ''Very Large''])])])"
proof -
  have ne: "\<not> df_empty population_sample"
    by (simp add: population_sample_def df_empty_def nrows_def)
  show ?thesis
    by (simp add: process_all_data_def ne clean_source_def population_sample_cleaned ebind_def
        add_features_def dict_get_def create_features_def)
qed

lemma public_alone_run:
  "run_full_pipeline (quiet_env [(''public'', population_sample)]) noon rejecting_sklearn
     (\<lparr>scalers = [], label_encoders = [], imputers = []\<rparr> :: unit processor)
     \<lparr>models = [], model_metadata = [], feature_importance = []\<rparr> =
   (\<lparr>scalers = [], label_encoders = [], imputers = []\<rparr>,
    \<lparr>models = [], model_metadata = [], feature_importance = []\<rparr>,
    \<lparr>timestamp = ''2024-01-01T12:00:00'', status = ''completed'',
     data_sources = [(''public'', \<lparr>records = 1, columns = [''country'', ''population''],
                                  collected_at = ''2024-01-01T12:00:00''\<rparr>)],
     models_trained = [], errors = [], insights = Some [''public'']\<rparr>)"
proof -
  have s: "save_raw (quiet_env [(''public'', population_sample)]) noon
      [(''public'', population_sample)] [] =
      ([(''public'', \<lparr>records = 1, columns = [''country'', ''population''],
                    collected_at = ''2024-01-01T12:00:00''\<rparr>)], None)"
    by (simp add: quiet_env_def noon_def population_sample_def nrows_def df_empty_def
        dict_keys_def)
  have c: "collect_all_data (quiet_env [(''public'', population_sample)]) =
      Inr [(''public'', population_sample)]"
    by (simp add: quiet_env_def)
  have p: "save_processed (quiet_env raw) noon tables = Inr ()" for raw tables
    by (induction tables) (auto simp: quiet_env_def)
  have t: "train_all_models rejecting_sklearn now ml [(''public'', tbl)] = (ml, Inr [])"
    for now tbl and ml :: "unit ml_models"
    by (simp add: train_all_models_def dict_get_def)
  have i: "data_sources (initial_results noon :: string list pipeline_results) = []"
    by (simp add: initial_results_def)
  show ?thesis
    unfolding run_full_pipeline_def pipeline_steps_def
    apply (simp only: c i s public_alone_processed p t sum.case prod.case option.case Let_def)
    apply (simp add: initial_results_def quiet_env_def noon_def dict_keys_def)
    done
qed

lemma empty_run:
  "run_full_pipeline (quiet_env []) noon rejecting_sklearn
     (\<lparr>scalers = [], label_encoders = [], imputers = []\<rparr> :: unit processor)
     \<lparr>models = [], model_metadata = [], feature_importance = []\<rparr> =
   (\<lparr>scalers = [], label_encoders = [], imputers = []\<rparr>,
    \<lparr>models = [], model_metadata = [], feature_importance = []\<rparr>,
    \<lparr>timestamp = ''2024-01-01T12:00:00'', status = ''completed'', data_sources = [],
     models_trained = [], errors = [], insights = Some []\<rparr>)"
  by (simp add: run_full_pipeline_def pipeline_steps_def quiet_env_def process_all_data_def
      train_all_models_def dict_get_def initial_results_def noon_def dict_keys_def)

lemma weather_sample_cleaned:
  "clean_weather_data st weather_sample = Inr (st, take 7 weather_processed)"
proof -
  let ?t = "[Fin 20, Fin 20, Fin 20, Fin 20, Fin 20, Fin 20, Fin 20, Fin 20, Fin 20, Fin 20]"
  have ne: "\<not> df_empty weather_sample"
    by (simp add: weather_sample_def df_empty_def nrows_def)
  have d: "dropna weather_sample = weather_sample"
    by (simp add: weather_sample_def dropna_def any_na_def nrows_def dict_values_def
        filter_rows_def sel_def upt_rec)
  have s: "sort_fl ?t = ?t" by (simp add: sort_fl_def)
  have q: "quantile (1 / 4) ?t = Fin 20" "quantile (3 / 4) ?t = Fin 20"
    by (simp_all add: quantile_def s Let_def fsub_def)
  have g: "getnum weather_sample ''temperature'' = Inr ?t"
    by (simp add: weather_sample_def getnum_def getcol_def dict_get_def ebind_def)
  have f: "filter_rows (map (\<lambda>x. fge x (Fin 20) \<and> fle x (Fin 20)) ?t) weather_sample =
      weather_sample"
    by (simp add: weather_sample_def filter_rows_def sel_def fge_def fle_def)
  have k: "''temperature'' \<in> set (dict_keys weather_sample)"
    by (simp add: weather_sample_def dict_keys_def)
  have r: "iqr_filter [''humidity'', ''pressure'', ''wind_speed''] weather_sample =
      Inr weather_sample"
    by (simp add: weather_sample_def dict_keys_def)
  have bo: "fsub (Fin 20) (fmul (Fin (3 / 2)) (fsub (Fin 20) (Fin 20))) = Fin 20"
    "fadd (Fin 20) (fmul (Fin (3 / 2)) (fsub (Fin 20) (Fin 20))) = Fin 20"
    by (simp_all add: fsub_def)
  have st: "iqr_filter (''temperature'' # cs) weather_sample = iqr_filter cs weather_sample" for cs
    by (simp only: iqr_filter.simps k if_True g ebind_Inr q Let_def bo f)
  have i: "iqr_filter weather_numeric_cols weather_sample = Inr weather_sample"
    unfolding weather_numeric_cols_def by (simp only: st r)
  have w: "weather_features weather_sample = Inr (take 7 weather_processed)"
    by (simp add: weather_features_def weather_sample_def weather_processed_def getnum_def
        getcol_def dict_get_def ebind_def setnum_def dt_field_def new_year_noon_def)
  have nd: "''description'' \<notin> set (dict_keys (take 7 weather_processed))"
    by (simp add: weather_processed_def dict_keys_def)
  show ?thesis
    unfolding clean_weather_data_def
    by (simp only: ne if_False Let_def d i w nd ebind_Inr)
qed

lemma weather_sample_features:
  "create_features (take 7 weather_processed) ''weather'' = Inr weather_processed"
  by (simp add: create_features_def weather_seasonal_def weather_processed_def getnum_def
      getcol_def dict_get_def ebind_def setnum_def isin_int_def cut_def fle_def)

lemma weather_sample_processed:
  "process_all_data st [(''weather'', weather_sample)] = (st, Inr [(''weather'', weather_processed)])"
proof -
  have ne: "\<not> df_empty weather_sample"
    by (simp add: weather_sample_def df_empty_def nrows_def)
  show ?thesis
    by (simp add: process_all_data_def ne clean_source_def weather_sample_cleaned ebind_def
        add_features_def dict_get_def weather_sample_features)
qed

lemma weather_training_raises:
  "train_weather_classification_model failing_split now ml weather_processed =
   Inl (ValueError ''The least populated class in y has only 1 member'')"
proof -
  let ?t = "[Fin 20, Fin 20, Fin 20, Fin 20, Fin 20, Fin 20, Fin 20, Fin 20, Fin 20, Fin 20]"
  let ?M = "dict_set weather_processed ''weather_category''
      (cut [NInf, Fin 0, Fin 15, Fin 25, PInf] [''Cold'', ''Cool'', ''Warm'', ''Hot''] ?t)"
  have a: "\<not> (df_empty weather_processed \<or> nrows weather_processed < 10)"
    by (simp add: weather_processed_def df_empty_def nrows_def)
  have b: "filter (\<lambda>c. c \<in> set (dict_keys weather_processed)) weather_feature_cols =
      [''temperature'', ''temp_fahrenheit'', ''hour'', ''day_of_week'', ''month'', ''is_summer'',
       ''is_winter'', ''is_weekend'']"
    by (simp add: weather_processed_def weather_feature_cols_def dict_keys_def)
  have g: "getnum weather_processed ''temperature'' = Inr ?t"
    by (simp add: weather_processed_def getnum_def getcol_def dict_get_def ebind_def)
  have d: "dropna ?M = ?M"
    by (simp add: weather_processed_def dropna_def any_na_def nrows_def dict_values_def
        filter_rows_def sel_def upt_rec cut_def fle_def new_year_noon_def)
  have n: "\<not> nrows ?M < 10"
    by (simp add: weather_processed_def nrows_def)
  have s: "\<exists>X. select_cols ?M [''temperature'', ''temp_fahrenheit'', ''hour'', ''day_of_week'',
      ''month'', ''is_summer'', ''is_winter'', ''is_weekend''] = Inr X"
    by (simp add: weather_processed_def select_cols_def getcol_def dict_get_def ebind_def)
  have y: "\<exists>y. getcol ?M ''weather_category'' = Inr y"
    by (simp add: getcol_def dict_get_dict_set)
  from s obtain X where X: "select_cols ?M [''temperature'', ''temp_fahrenheit'', ''hour'',
      ''day_of_week'', ''month'', ''is_summer'', ''is_winter'', ''is_weekend''] = Inr X" ..
  from y obtain yc where yc: "getcol ?M ''weather_category'' = Inr yc" ..
  have sp: "train_test_split failing_split X yc (1 / 5) 42 True =
      Inl (ValueError ''The least populated class in y has only 1 member'')"
    by (simp add: failing_split_def)
  show ?thesis
    unfolding train_weather_classification_model_def
    by (simp only: a b g d n X yc sp if_False Let_def ebind_Inr ebind_Inl list.size)
       simp
qed


lemma counts_without_date_featurizer:
  "\<exists>t. cleaner st ''covid'' counts_without_date = Some (Inr (st, t)) \<and>
       create_features t ''covid'' = Inl (KeyError ''date'')"
proof -
  let ?T = counts_without_date
  have ne: "\<not> df_empty ?T" by (simp add: counts_without_date_def df_empty_def nrows_def)
  have f: "fillna0 ?T = Inr ?T" by (simp add: counts_without_date_def fillna0_def ebind_def)
  have num: "\<forall>k \<in> set covid_numeric_cols. num_or_absent ?T k"
    by (simp add: counts_without_date_def covid_numeric_cols_def num_or_absent_def dict_get_def)
  have req: "\<forall>k \<in> {''cases'', ''deaths'', ''recovered''}. dict_get ?T k \<noteq> None"
    by (simp add: counts_without_date_def dict_get_def)
  from clean_covid_data_ok[OF ne f num req] obtain out where
    o: "clean_covid_data ?T = Inr out"
    and a: "\<forall>k. k \<notin> covid_derived_cols \<longrightarrow> (dict_get out k = None \<longleftrightarrow> dict_get ?T k = None)"
    by blast
  from a have "dict_get out ''date'' = None"
    by (simp add: covid_derived_cols_def counts_without_date_def dict_get_def)
  then have "create_features out ''covid'' = Inl (KeyError ''date'')"
    by (simp add: create_features_def covid_features_def getcol_def ebind_def)
  with o show ?thesis by (simp add: cleaner_def ebind_def)
qed

lemma prices_training_raises:
  "train_stock_prediction_model sk now ml prices_without_close = Inl (KeyError ''close'')"
  unfolding train_stock_prediction_model_def train_forecasting_model_outcome
  by (simp add: finish_training_def forecasting_outcome_def stock_config_def
      prices_without_close_def df_empty_def nrows_def dict_keys_def getcol_def dict_get_def
      ebind_def)

lemma readings_training_raises:
  "train_weather_classification_model sk now ml readings_without_temperature =
   Inl (KeyError ''temperature'')"
  unfolding train_weather_classification_model_outcome
  by (simp add: finish_training_def classification_outcome_def weather_feature_cols_def
      readings_without_temperature_def df_empty_def nrows_def dict_keys_def getnum_def getcol_def
      dict_get_def ebind_def)

lemma save_processed_quiet: "save_processed (quiet_env raw) clk tables = Inr ()"
  by (induction tables) (auto simp: quiet_env_def)

lemma save_raw_weather:
  "save_raw (quiet_env raw) noon [(''weather'', weather_sample)] [] =
   ([(''weather'', \<lparr>records = 10, columns = [''temperature'', ''datetime''],
                   collected_at = ''2024-01-01T12:00:00''\<rparr>)], None)"
  by (simp add: quiet_env_def noon_def weather_sample_def nrows_def df_empty_def dict_keys_def)

lemma weather_all_training_raises:
  "train_all_models failing_split now ml [(''weather'', weather_processed)] =
   (ml, Inl (ValueError ''The least populated class in y has only 1 member''))"
  by (simp add: train_all_models_def dict_get_def weather_training_raises ebind_def)


theorem run_full_pipeline_one_handler_witness:
  "process_all_data (\<lparr>scalers = [], label_encoders = [], imputers = []\<rparr> :: unit processor)
     [(''public'', population_sample), (''covid'', counts_without_cases),
      (''weather'', weather_sample)] =
   (\<lparr>scalers = [], label_encoders = [], imputers = []\<rparr>, Inl (KeyError ''cases'')) \<and>
   process_all_data (\<lparr>scalers = [], label_encoders = [], imputers = []\<rparr> :: unit processor)
     [(''covid'', counts_without_date), (''public'', population_sample)] =
   (\<lparr>scalers = [], label_encoders = [], imputers = []\<rparr>, Inl (KeyError ''date'')) \<and>
   train_all_models rejecting_sklearn ''2024-01-01T12:00:00''
     \<lparr>models = [], model_metadata = [], feature_importance = []\<rparr>
     [(''covid'', counts_without_cases)] =
   (\<lparr>models = [], model_metadata = [], feature_importance = []\<rparr>, Inl (KeyError ''cases'')) \<and>
   train_all_models rejecting_sklearn ''2024-01-01T12:00:00''
     \<lparr>models = [], model_metadata = [], feature_importance = []\<rparr>
     [(''stock'', prices_without_close)] =
   (\<lparr>models = [], model_metadata = [], feature_importance = []\<rparr>, Inl (KeyError ''close'')) \<and>
   train_all_models rejecting_sklearn ''2024-01-01T12:00:00''
     \<lparr>models = [], model_metadata = [], feature_importance = []\<rparr>
     [(''weather'', readings_without_temperature)] =
   (\<lparr>models = [], model_metadata = [], feature_importance = []\<rparr>,
    Inl (KeyError ''temperature'')) \<and>
   run_full_pipeline
     (quiet_env [(''covid'', counts_without_cases), (''public'', population_sample)]) noon
     rejecting_sklearn (\<lparr>scalers = [], label_encoders = [], imputers = []\<rparr> :: unit processor)
     \<lparr>models = [], model_metadata = [], feature_importance = []\<rparr> =
   (\<lparr>scalers = [], label_encoders = [], imputers = []\<rparr>,
    \<lparr>models = [], model_metadata = [], feature_importance = []\<rparr>,
    \<lparr>timestamp = ''2024-01-01T12:00:00'', status = ''failed'',
     data_sources =
       [(''covid'', \<lparr>records = 10, columns = [''deaths'', ''recovered'', ''month''],
                     collected_at = ''2024-01-01T12:00:00''\<rparr>),
        (''public'', \<lparr>records = 1, columns = [''country'', ''population''],
                      collected_at = ''2024-01-01T12:00:00''\<rparr>)],
     models_trained = [], errors = [CHR 0x27 # ''cases'' @ [CHR 0x27]], insights = None\<rparr>) \<and>
   run_full_pipeline (quiet_env [(''weather'', weather_sample)]) noon failing_split
     (\<lparr>scalers = [], label_encoders = [], imputers = []\<rparr> :: unit processor)
     \<lparr>models = [], model_metadata = [], feature_importance = []\<rparr> =
   (\<lparr>scalers = [], label_encoders = [], imputers = []\<rparr>,
    \<lparr>models = [], model_metadata = [], feature_importance = []\<rparr>,
    \<lparr>timestamp = ''2024-01-01T12:00:00'', status = ''failed'',
     data_sources =
       [(''weather'', \<lparr>records = 10, columns = [''temperature'', ''datetime''],
                       collected_at = ''2024-01-01T12:00:00''\<rparr>)],
     models_trained = [],
     errors = [''The least populated class in y has only 1 member''], insights = None\<rparr>) \<and>
   snd (snd (snd (pipeline_steps
     (quiet_env [(''covid'', counts_without_cases), (''public'', population_sample)]) noon
     rejecting_sklearn (\<lparr>scalers = [], label_encoders = [], imputers = []\<rparr> :: unit processor)
     \<lparr>models = [], model_metadata = [], feature_importance = []\<rparr> (initial_results noon)))) \<noteq>
   None"
proof -
  let ?st = "\<lparr>scalers = [], label_encoders = [], imputers = []\<rparr> :: unit processor"
  let ?ml = "\<lparr>models = [], model_metadata = [], feature_importance = []\<rparr> :: unit ml_models"
  let ?now = "''2024-01-01T12:00:00''"
  let ?covid = "(''covid'', counts_without_cases)"
  let ?public = "(''public'', population_sample)"
  let ?weather = "(''weather'', weather_sample)"
  let ?io = "quiet_env [?covid, ?public]"
  let ?iow = "quiet_env [?weather] :: (unit, string list) env"
  let ?e = "KeyError ''cases''"
  let ?v = "ValueError ''The least populated class in y has only 1 member''"
  let ?ds = "[(''covid'', \<lparr>records = 10, columns = [''deaths'', ''recovered'', ''month''],
                     collected_at = ''2024-01-01T12:00:00''\<rparr>),
        (''public'', \<lparr>records = 1, columns = [''country'', ''population''],
                      collected_at = ''2024-01-01T12:00:00''\<rparr>)]"
  let ?res = "\<lparr>timestamp = ''2024-01-01T12:00:00'', status = ''failed'', data_sources = ?ds,
     models_trained = [], errors = [CHR 0x27 # ''cases'' @ [CHR 0x27]],
     insights = None :: string list option\<rparr>"
  note T = run_full_pipeline_one_handler
  have ne: "\<not> df_empty counts_without_cases" "\<not> df_empty counts_without_date"
    by (simp_all add: counts_without_cases_def counts_without_date_def df_empty_def nrows_def)
  obtain acc where acc: "process_all_data ?st [?public] = (?st, Inr acc)"
    using public_alone_processed[of ?st] by blast
  have cl: "cleaner ?st ''covid'' counts_without_cases = Some (Inl ?e)"
    by (simp add: cleaner_def counts_without_cases_raises ebind_def)
  note c1 = T[where st = ?st and srcs = "[?public]" and st_mid = ?st and acc = acc
      and df = counts_without_cases and source_name = "''covid''" and e = ?e
      and rest = "[?weather]", THEN conjunct1, THEN mp, OF conjI[OF acc conjI[OF ne(1) cl]]]
  from counts_without_date_featurizer[of ?st] obtain t where
    t: "cleaner ?st ''covid'' counts_without_date = Some (Inr (?st, t))"
    "create_features t ''covid'' = Inl (KeyError ''date'')"
    by blast
  have e0: "process_all_data ?st [] = (?st, Inr [])" by (simp add: process_all_data_def)
  note c2 = T[where st = ?st and srcs = "[]" and st_mid = ?st and acc = "[]"
      and df = counts_without_date and source_name = "''covid''" and e = "KeyError ''date''"
      and rest = "[?public]" and st_cl = ?st and t = t,
      THEN conjunct2, THEN conjunct1, THEN mp,
      OF conjI[OF e0 conjI[OF ne(2) conjI[OF t(1) t(2)]]]]
  have h3: "dict_get [?covid] ''covid'' = Some counts_without_cases \<and>
      train_covid_forecasting_model rejecting_sklearn ?now ?ml counts_without_cases = Inl ?e"
    by (simp add: dict_get_def training_counts_raises)
  note c3 = T[where processed_data = "[?covid]" and df = counts_without_cases
      and sk = rejecting_sklearn and now = ?now and ml = ?ml and e = ?e,
      THEN conjunct2, THEN conjunct2, THEN conjunct1, THEN mp, OF h3]
  have h4: "((dict_get [(''stock'', prices_without_close)] ''covid'' = None \<and> ?ml = ?ml) \<or>
      (\<exists>dfc r. dict_get [(''stock'', prices_without_close)] ''covid'' = Some dfc \<and>
         train_covid_forecasting_model rejecting_sklearn ?now ?ml dfc = Inr (?ml, r))) \<and>
      dict_get [(''stock'', prices_without_close)] ''stock'' = Some prices_without_close \<and>
      train_stock_prediction_model rejecting_sklearn ?now ?ml prices_without_close =
        Inl (KeyError ''close'')"
    by (simp add: dict_get_def prices_training_raises)
  note c4 = T[where processed_data = "[(''stock'', prices_without_close)]"
      and df = prices_without_close and sk = rejecting_sklearn and now = ?now and ml = ?ml
      and ml_c = ?ml and e = "KeyError ''close''",
      THEN conjunct2, THEN conjunct2, THEN conjunct2, THEN conjunct1, THEN mp, OF h4]
  have h5: "((dict_get [(''weather'', readings_without_temperature)] ''covid'' = None \<and> ?ml = ?ml) \<or>
      (\<exists>dfc r. dict_get [(''weather'', readings_without_temperature)] ''covid'' = Some dfc \<and>
         train_covid_forecasting_model rejecting_sklearn ?now ?ml dfc = Inr (?ml, r))) \<and>
      ((dict_get [(''weather'', readings_without_temperature)] ''stock'' = None \<and> ?ml = ?ml) \<or>
      (\<exists>dfs r. dict_get [(''weather'', readings_without_temperature)] ''stock'' = Some dfs \<and>
         train_stock_prediction_model rejecting_sklearn ?now ?ml dfs = Inr (?ml, r))) \<and>
      dict_get [(''weather'', readings_without_temperature)] ''weather'' =
        Some readings_without_temperature \<and>
      train_weather_classification_model rejecting_sklearn ?now ?ml readings_without_temperature =
        Inl (KeyError ''temperature'')"
    by (simp add: dict_get_def readings_training_raises)
  note c5 = T[where processed_data = "[(''weather'', readings_without_temperature)]"
      and df = readings_without_temperature and sk = rejecting_sklearn and now = ?now
      and ml = ?ml and ml_c = ?ml and ml_s = ?ml and e = "KeyError ''temperature''",
      THEN conjunct2, THEN conjunct2, THEN conjunct2, THEN conjunct2, THEN conjunct1, THEN mp,
      OF h5]
  have s: "save_raw ?io noon [?covid, ?public] [] = (?ds, None)"
    by (rule save_raw_two)
  have h6: "collect_all_data ?io = Inr [?covid, ?public] \<and>
      snd (save_raw ?io noon [?covid, ?public] []) = None \<and>
      process_all_data ?st [?covid, ?public] = (?st, Inl ?e)"
    by (simp only: s snd_conv processing_counts_raises) (simp add: quiet_env_def)
  note c6 = T[where io = ?io and raw_data = "[?covid, ?public]" and clk = noon and st = ?st
      and st_after = ?st and e = ?e and sk = rejecting_sklearn and ml = ?ml,
      THEN conjunct2, THEN conjunct2, THEN conjunct2, THEN conjunct2, THEN conjunct2,
      THEN conjunct1, THEN mp, OF h6]
  from c6 have r6: "run_full_pipeline ?io noon rejecting_sklearn ?st ?ml = (?st, ?ml, ?res)"
    unfolding s by (simp add: noon_def)
  have h7: "collect_all_data ?iow = Inr [?weather] \<and>
      snd (save_raw ?iow noon [?weather] []) = None \<and>
      process_all_data ?st [?weather] = (?st, Inr [(''weather'', weather_processed)]) \<and>
      save_processed ?iow noon [(''weather'', weather_processed)] = Inr () \<and>
      train_all_models failing_split (isoformat noon) ?ml [(''weather'', weather_processed)] =
        (?ml, Inl ?v)"
    by (simp only: save_raw_weather snd_conv weather_sample_processed save_processed_quiet
        weather_all_training_raises) (simp add: quiet_env_def)
  note c7 = T[where io = ?iow and raw_data = "[?weather]" and clk = noon and st = ?st
      and st_after = ?st and processed_data = "[(''weather'', weather_processed)]"
      and sk = failing_split and ml = ?ml and ml_after = ?ml and e = ?v,
      THEN conjunct2, THEN conjunct2, THEN conjunct2, THEN conjunct2, THEN conjunct2,
      THEN conjunct2, THEN conjunct1, THEN mp, OF h7]
  from c7 have r7: "run_full_pipeline ?iow noon failing_split ?st ?ml =
      (?st, ?ml, \<lparr>timestamp = ''2024-01-01T12:00:00'', status = ''failed'',
     data_sources =
       [(''weather'', \<lparr>records = 10, columns = [''temperature'', ''datetime''],
                       collected_at = ''2024-01-01T12:00:00''\<rparr>)],
     models_trained = [],
     errors = [''The least populated class in y has only 1 member''], insights = None\<rparr>)"
    unfolding save_raw_weather by (simp add: noon_def)
  note c8 = T[where io = ?io and clk = noon and st = ?st and sk = rejecting_sklearn and ml = ?ml
      and st' = ?st and ml' = ?ml and res = ?res,
      THEN conjunct2, THEN conjunct2, THEN conjunct2, THEN conjunct2, THEN conjunct2,
      THEN conjunct2, THEN conjunct2, THEN mp, OF r6]
  then have r8: "snd (snd (snd (pipeline_steps ?io noon rejecting_sklearn ?st ?ml
      (initial_results noon)))) \<noteq> None"
    by auto
  from c1 have r1: "process_all_data ?st [?public, ?covid, ?weather] = (?st, Inl ?e)" by simp
  from c2 have r2: "process_all_data ?st [(''covid'', counts_without_date), ?public] =
      (?st, Inl (KeyError ''date''))" by simp
  show ?thesis
    by (rule conjI[OF r1 conjI[OF r2 conjI[OF c3 conjI[OF c4 conjI[OF c5 conjI[OF r6
        conjI[OF r7 r8]]]]]]])
qed

text \<open>
  One source that cannot be cleaned fails the run although another one is usable: the
  scraped country is cleaned when it is alone and that run is \<open>completed\<close>; preceded
  by counts without the \<open>cases\<close> column the run is \<open>failed\<close> with the error \<open>'cases'\<close>
  and the country is never processed.  A run whose collector returns no table at all is
  \<open>completed\<close>.
\<close>

theorem one_failing_domain_fails_the_run:
  "process_all_data (\<lparr>scalers = [], label_encoders = [], imputers = []\<rparr> :: unit processor)
     [(''public'', population_sample)] =
   (\<lparr>scalers = [], label_encoders = [], imputers = []\<rparr>,
    Inr [(''public'',
      [(''country'', ObjCol [PStr ''India'']), (''population'', NumCol [Fin 1400000000]),
       (''population_millions'', NumCol [Fin 1400]),
       (''log_population'', NumCol [Fin (ln 1400000000)]),
       (''population_category'', CatCol [Some ''Very Large''])])]) \<and>
   status (snd (snd (run_full_pipeline (quiet_env [(''public'', population_sample)]) noon
     rejecting_sklearn (\<lparr>scalers = [], label_encoders = [], imputers = []\<rparr> :: unit processor)
     \<lparr>models = [], model_metadata = [], feature_importance = []\<rparr>))) = ''completed'' \<and>
   run_full_pipeline
     (quiet_env [(''covid'', counts_without_cases), (''public'', population_sample)]) noon
     rejecting_sklearn (\<lparr>scalers = [], label_encoders = [], imputers = []\<rparr> :: unit processor)
     \<lparr>models = [], model_metadata = [], feature_importance = []\<rparr> =
   (\<lparr>scalers = [], label_encoders = [], imputers = []\<rparr>,
    \<lparr>models = [], model_metadata = [], feature_importance = []\<rparr>,
    \<lparr>timestamp = ''2024-01-01T12:00:00'', status = ''failed'',
     data_sources =
       [(''covid'', \<lparr>records = 10, columns = [''deaths'', ''recovered'', ''month''],
                     collected_at = ''2024-01-01T12:00:00''\<rparr>),
        (''public'', \<lparr>records = 1, columns = [''country'', ''population''],
                      collected_at = ''2024-01-01T12:00:00''\<rparr>)],
     models_trained = [], errors = [CHR 0x27 # ''cases'' @ [CHR 0x27]], insights = None\<rparr>) \<and>
   status (snd (snd (run_full_pipeline (quiet_env []) noon
     rejecting_sklearn (\<lparr>scalers = [], label_encoders = [], imputers = []\<rparr> :: unit processor)
     \<lparr>models = [], model_metadata = [], feature_importance = []\<rparr>))) = ''completed''"
proof -
  let ?st = "\<lparr>scalers = [], label_encoders = [], imputers = []\<rparr> :: unit processor"
  let ?ml = "\<lparr>models = [], model_metadata = [], feature_importance = []\<rparr> :: unit ml_models"
  let ?raw = "[(''covid'', counts_without_cases), (''public'', population_sample)]"
  have c: "collect_all_data (quiet_env ?raw) = Inr ?raw"
    by (simp add: quiet_env_def)
  have s: "snd (save_raw (quiet_env ?raw) noon ?raw []) = None"
    by (simp only: save_raw_two snd_conv)
  have p: "process_all_data ?st ?raw = (?st, Inl (KeyError ''cases''))"
    by (rule processing_counts_raises)
  have "run_full_pipeline (quiet_env ?raw) noon rejecting_sklearn ?st ?ml =
     (?st, ?ml, \<lparr>timestamp = isoformat noon, status = ''failed'',
       data_sources = fst (save_raw (quiet_env ?raw) noon ?raw []), models_trained = [],
       errors = [str_error (KeyError ''cases'')], insights = None\<rparr>)"
    by (rule run_processing_raises[OF c s p])
  then have r: "run_full_pipeline (quiet_env ?raw) noon rejecting_sklearn ?st ?ml =
     (?st, ?ml, \<lparr>timestamp = ''2024-01-01T12:00:00'', status = ''failed'',
       data_sources =
       [(''covid'', \<lparr>records = 10, columns = [''deaths'', ''recovered'', ''month''],
                     collected_at = ''2024-01-01T12:00:00''\<rparr>),
        (''public'', \<lparr>records = 1, columns = [''country'', ''population''],
                      collected_at = ''2024-01-01T12:00:00''\<rparr>)], models_trained = [],
       errors = [CHR 0x27 # ''cases'' @ [CHR 0x27]], insights = None\<rparr>)"
    by (simp only: save_raw_two fst_conv) (simp add: noon_def)
  show ?thesis
    by (simp only: public_alone_processed public_alone_run empty_run r snd_conv
        pipeline_results.simps simp_thms)
qed

end
